theory Spec2Isabelle
  imports Complex_Main
begin

section \<open>Constants and array types (aconstants.hpp)\<close>

text \<open>
  \<^verbatim>\<open>a_real\<close> is \<^verbatim>\<open>double\<close> in the source; the embedding computes over the reals, so
  every statement below is about the arithmetic expressions the code evaluates, not about
  rounding.  Indices (\<^verbatim>\<open>a_int\<close>) are natural numbers; boundary markers are integers.
\<close>

type_synonym a_real = real
type_synonym a_int = nat

definition NDIM :: nat where "NDIM = 2"
definition NVARS :: nat where "NVARS = 4"
definition NGAUSS :: nat where "NGAUSS = 1"

text \<open>A raw pointer to a run of reals, and a two-dimensional array addressed (row, column).
  The address of row \<open>i\<close> of an array \<open>a\<close> (\<^verbatim>\<open>&a(i,0)\<close>) is \<open>a i\<close>.\<close>

type_synonym vec = "nat \<Rightarrow> a_real"
type_synonym Array2d = "nat \<Rightarrow> nat \<Rightarrow> a_real"

section \<open>Collaborators declared outside the covered sources\<close>

text \<open>The mesh \<^verbatim>\<open>UMesh2dh\<close>: its class is not among the covered sources, so it is the record
  of the accessors the engine calls, under their source names.\<close>

record UMesh2dh =
  gnelem :: a_int
  gnbface :: a_int
  gnaface :: a_int
  gnnode :: "a_int \<Rightarrow> nat"
  gnnofa :: nat
  gcoords :: "a_int \<Rightarrow> nat \<Rightarrow> a_real"
  ginpoel :: "a_int \<Rightarrow> nat \<Rightarrow> a_int"
  gintfac :: "a_int \<Rightarrow> nat \<Rightarrow> a_int"
  gintfacbtags :: "a_int \<Rightarrow> nat \<Rightarrow> int"
  gfacemetric :: "a_int \<Rightarrow> nat \<Rightarrow> a_real"
  gnormal :: "a_int \<Rightarrow> vec"
  garea :: "a_int \<Rightarrow> a_real"
  gperiodicmap :: "a_int \<Rightarrow> a_int"

text \<open>The gas model object \<^verbatim>\<open>IdealGasPhysics\<close>, as the constructor call
  \<^verbatim>\<open>physics(gamma, Minf, Tinf, Reinf, Pr)\<close> builds it.\<close>

datatype IdealGasPhysics = IdealGasPhysics a_real a_real a_real a_real a_real

text \<open>Its public members \<^verbatim>\<open>g\<close> (adiabatic index) and \<^verbatim>\<open>Pr\<close> (Prandtl number), read by the
  engine, hold the first and the last constructor argument.\<close>

fun g :: "IdealGasPhysics \<Rightarrow> a_real" where
  "g (IdealGasPhysics gam mi ti re pr) = gam"

fun Pr :: "IdealGasPhysics \<Rightarrow> a_real" where
  "Pr (IdealGasPhysics gam mi ti re pr) = pr"

section \<open>Factories (utilities/afactory.cpp)\<close>

text \<open>An object made by \<^verbatim>\<open>new C(args)\<close> is the constructor \<open>C\<close> applied to its arguments;
  a pointer that may be \<^verbatim>\<open>nullptr\<close> is an \<open>option\<close>.  Each factory also writes one line to
  standard output; the line (without its line terminator) is the first component of the
  result.\<close>

datatype InviscidFlux =
    VanLeerFlux IdealGasPhysics
  | RoeFlux IdealGasPhysics
  | HLLFlux IdealGasPhysics
  | HLLCFlux IdealGasPhysics
  | LocalLaxFriedrichsFlux IdealGasPhysics
  | AUSMFlux IdealGasPhysics
  | AUSMPlusFlux IdealGasPhysics

definition create_mutable_inviscidflux ::
  "string \<Rightarrow> IdealGasPhysics \<Rightarrow> string \<times> InviscidFlux option" where
  "create_mutable_inviscidflux type p =
    (if type = ''VANLEER'' then
       ('' InviscidFluxFactory: Using Van Leer fluxes.'', Some (VanLeerFlux p))
     else if type = ''ROE'' then
       ('' InviscidFluxFactory: Using Roe fluxes.'', Some (RoeFlux p))
     else if type = ''HLL'' then
       ('' InviscidFluxFactory: Using HLL fluxes.'', Some (HLLFlux p))
     else if type = ''HLLC'' then
       ('' InviscidFluxFactory: Using HLLC fluxes.'', Some (HLLCFlux p))
     else if type = ''LLF'' then
       ('' InviscidFluxFactory: Using LLF fluxes.'', Some (LocalLaxFriedrichsFlux p))
     else if type = ''AUSM'' then
       ('' InviscidFluxFactory: Using AUSM fluxes.'', Some (AUSMFlux p))
     else if type = ''AUSMPLUS'' then
       ('' InviscidFluxFactory: Using AUSM+ fluxes.'', Some (AUSMPlusFlux p))
     else
       ('' InviscidFluxFactory: ! Flux scheme not available!'', None))"

definition create_const_inviscidflux ::
  "string \<Rightarrow> IdealGasPhysics \<Rightarrow> string \<times> InviscidFlux option" where
  "create_const_inviscidflux type p = create_mutable_inviscidflux type p"

datatype GradientScheme =
    WeightedLeastSquaresGradients UMesh2dh Array2d
  | GreenGaussGradients UMesh2dh Array2d
  | ZeroGradients UMesh2dh Array2d

definition create_mutable_gradientscheme ::
  "string \<Rightarrow> UMesh2dh \<Rightarrow> Array2d \<Rightarrow> string \<times> GradientScheme" where
  "create_mutable_gradientscheme type m rc =
    (if type = ''LEASTSQUARES'' then
       ('' GradientSchemeFactory: Weighted least-squares gradients will be used.'',
        WeightedLeastSquaresGradients m rc)
     else if type = ''GREENGAUSS'' then
       ('' GradientSchemeFactory: Green-Gauss gradients will be used.'',
        GreenGaussGradients m rc)
     else
       ('' GradientSchemeFactory: No gradient computation.'', ZeroGradients m rc))"

definition create_const_gradientscheme ::
  "string \<Rightarrow> UMesh2dh \<Rightarrow> Array2d \<Rightarrow> string \<times> GradientScheme" where
  "create_const_gradientscheme type m rc = create_mutable_gradientscheme type m rc"

text \<open>The Gauss points \<^verbatim>\<open>gr\<close> are an array of per-face arrays: (face, point, dimension).\<close>

type_synonym GaussPoints = "a_int \<Rightarrow> nat \<Rightarrow> nat \<Rightarrow> a_real"

datatype SolutionReconstruction =
    LinearUnlimitedReconstruction UMesh2dh Array2d GaussPoints
  | WENOReconstruction UMesh2dh Array2d GaussPoints a_real
  | MUSCLVanAlbada UMesh2dh Array2d GaussPoints
  | BarthJespersenLimiter UMesh2dh Array2d GaussPoints
  | VenkatakrishnanLimiter UMesh2dh Array2d GaussPoints a_real

definition create_mutable_reconstruction ::
  "string \<Rightarrow> UMesh2dh \<Rightarrow> Array2d \<Rightarrow> GaussPoints \<Rightarrow> a_real
     \<Rightarrow> string \<times> SolutionReconstruction option" where
  "create_mutable_reconstruction type m rc gr param =
    (if type = ''NONE'' then
       ('' ReconstructionFactory: Unlimited linear reconstruction selected.'',
        Some (LinearUnlimitedReconstruction m rc gr))
     else if type = ''WENO'' then
       ('' ReconstructionFactory: WENO reconstruction selected.'',
        Some (WENOReconstruction m rc gr param))
     else if type = ''VANALBADA'' then
       ('' ReconstructionFactory: Van Albada MUSCL reconstruction selected.'',
        Some (MUSCLVanAlbada m rc gr))
     else if type = ''BARTHJESPERSEN'' then
       ('' ReconstructionFactory: Barth-Jespersen linear reconstruction selected.'',
        Some (BarthJespersenLimiter m rc gr))
     else if type = ''VENKATAKRISHNAN'' then
       ('' ReconstructionFactory: Venkatakrishnan linear reconstruction selected.'',
        Some (VenkatakrishnanLimiter m rc gr param))
     else
       ('' !ReconstructionFactory: Invalid reconstruction!!'', None))"

definition create_const_reconstruction ::
  "string \<Rightarrow> UMesh2dh \<Rightarrow> Array2d \<Rightarrow> GaussPoints \<Rightarrow> a_real
     \<Rightarrow> string \<times> SolutionReconstruction option" where
  "create_const_reconstruction type m rc gr param =
     create_mutable_reconstruction type m rc gr param"

section \<open>Configuration, boundary conditions and the collaborators' operations\<close>

text \<open>The configuration structures, with the members the covered sources read.\<close>

record FlowBCConfig =
  farfield_id :: int
  inflowoutflow_id :: int
  slipwall_id :: int
  extrapolation_id :: int
  periodic_id :: int
  isothermalwall_id :: int
  adiabaticwall_id :: int
  adiabaticwall_vel :: a_real

record FlowPhysicsConfig =
  gamma :: a_real
  Minf :: a_real
  Tinf :: a_real
  Reinf :: a_real
  Pr_conf :: a_real
  aoa :: a_real
  viscous_sim :: bool
  const_visc :: bool
  bcconf :: FlowBCConfig

record FlowNumericsConfig =
  conv_numflux :: string
  conv_numflux_jac :: string
  gradientscheme :: string
  reconstruction :: string
  limiter_param :: a_real
  order2 :: bool

text \<open>The boundary-condition classes of abc.hpp, each with its constructor's arguments.\<close>

datatype FlowBC =
    InOutFlow int IdealGasPhysics vec
  | InFlow int IdealGasPhysics a_real a_real
  | Farfield int IdealGasPhysics vec
  | Extrapolation int IdealGasPhysics
  | Slipwall int IdealGasPhysics
  | Adiabaticwall2D int IdealGasPhysics a_real
  | Isothermalwall2D int IdealGasPhysics a_real a_real

text \<open>Cell gradients \<^verbatim>\<open>grads[cell](j,i)\<close>: (cell, direction, variable).  A block
  \<^verbatim>\<open>Matrix<a_real,NVARS,NVARS,RowMajor>\<close> is addressed (row, column); the raw array behind it
  (\<^verbatim>\<open>&M(0,0)\<close>) holds entry (i, k) at index \<open>i * NVARS + k\<close>.\<close>

type_synonym GradArray = "a_int \<Rightarrow> nat \<Rightarrow> nat \<Rightarrow> a_real"
type_synonym Block = "nat \<Rightarrow> nat \<Rightarrow> a_real"

definition raw :: "Block \<Rightarrow> vec" where
  "raw M = (\<lambda>k. M (k div NVARS) (k mod NVARS))"

definition block_of :: "vec \<Rightarrow> Block" where
  "block_of a = (\<lambda>i k. a (i * NVARS + k))"

text \<open>
  The member functions whose bodies are outside the covered sources (gas model, numerical
  fluxes, boundary conditions, gradient and reconstruction schemes, the boundary-condition
  factory) are parameters of the embedding: one record of functions, each taking the object it
  is called on and the input arguments and returning what the call writes.  An in/out array
  appears on both sides.  They are taken to return normally on every input.
\<close>

record Externs =
  compute_freestream_state :: "IdealGasPhysics \<Rightarrow> a_real \<Rightarrow> vec"
  create_const_flowBCs :: "FlowBCConfig \<Rightarrow> IdealGasPhysics \<Rightarrow> vec \<Rightarrow> (int \<rightharpoonup> FlowBC)"
  getPrimitiveFromConserved :: "IdealGasPhysics \<Rightarrow> vec \<Rightarrow> vec"
  getConservedFromPrimitive :: "IdealGasPhysics \<Rightarrow> vec \<Rightarrow> vec"
  getPrimitive2FromConserved :: "IdealGasPhysics \<Rightarrow> vec \<Rightarrow> vec"
  getJacobianPrimitive2WrtConserved :: "IdealGasPhysics \<Rightarrow> vec \<Rightarrow> vec \<Rightarrow> vec"
  getGradTemperature :: "IdealGasPhysics \<Rightarrow> a_real \<Rightarrow> a_real \<Rightarrow> a_real \<Rightarrow> a_real \<Rightarrow> a_real"
  getTemperature :: "IdealGasPhysics \<Rightarrow> a_real \<Rightarrow> a_real \<Rightarrow> a_real"
  getPressureFromConserved :: "IdealGasPhysics \<Rightarrow> vec \<Rightarrow> a_real"
  getFreestreamPressure :: "IdealGasPhysics \<Rightarrow> a_real"
  getSoundSpeedFromConserved :: "IdealGasPhysics \<Rightarrow> vec \<Rightarrow> a_real"
  getConstantViscosityCoeff :: "IdealGasPhysics \<Rightarrow> a_real"
  getViscosityCoeffFromConserved :: "IdealGasPhysics \<Rightarrow> vec \<Rightarrow> a_real"
  getThermalConductivityFromViscosity :: "IdealGasPhysics \<Rightarrow> a_real \<Rightarrow> a_real"
  getJacobianSutherlandViscosityWrtConserved :: "IdealGasPhysics \<Rightarrow> vec \<Rightarrow> vec \<Rightarrow> vec"
  getJacobianThermCondWrtConservedFromJacobianSutherViscWrtConserved ::
    "IdealGasPhysics \<Rightarrow> vec \<Rightarrow> vec \<Rightarrow> vec"
  getStressTensor :: "IdealGasPhysics \<Rightarrow> a_real \<Rightarrow> Array2d \<Rightarrow> Array2d \<Rightarrow> Array2d"
  getJacobianStress ::
    "IdealGasPhysics \<Rightarrow> a_real \<Rightarrow> vec \<Rightarrow> Array2d \<Rightarrow> (nat \<Rightarrow> nat \<Rightarrow> nat \<Rightarrow> a_real)
       \<Rightarrow> Array2d \<Rightarrow> (nat \<Rightarrow> nat \<Rightarrow> nat \<Rightarrow> a_real)
       \<Rightarrow> Array2d \<times> (nat \<Rightarrow> nat \<Rightarrow> nat \<Rightarrow> a_real)"
  get_flux :: "InviscidFlux \<Rightarrow> vec \<Rightarrow> vec \<Rightarrow> vec \<Rightarrow> vec"
  get_jacobian :: "InviscidFlux \<Rightarrow> vec \<Rightarrow> vec \<Rightarrow> vec \<Rightarrow> Block \<times> Block"
  computeGhostState :: "FlowBC \<Rightarrow> vec \<Rightarrow> vec \<Rightarrow> vec"
  computeGhostStateAndJacobian :: "FlowBC \<Rightarrow> vec \<Rightarrow> vec \<Rightarrow> vec \<times> Block"
  compute_gradients :: "GradientScheme \<Rightarrow> Array2d \<Rightarrow> Array2d \<Rightarrow> GradArray"
  compute_face_values ::
    "SolutionReconstruction \<Rightarrow> Array2d \<Rightarrow> Array2d \<Rightarrow> GradArray \<Rightarrow> Array2d \<Rightarrow> Array2d
       \<Rightarrow> Array2d \<times> Array2d"

text \<open>What can stop a call short of its return: \<^verbatim>\<open>std::map::at\<close> on a missing key, a call
  through a null pointer, a failed \<^verbatim>\<open>assert\<close>.\<close>

datatype error = out_of_range | null_pointer | assertion_failed

type_synonym StatusCode = int

section \<open>Loops\<close>

text \<open>A loop over \<open>lo \<le> i < hi\<close> whose iteration \<open>i\<close> assigns entry \<open>i\<close> of an array and
  reads no entry the loop assigns (the source marks these loops parallel).\<close>

definition assign_range :: "nat \<Rightarrow> nat \<Rightarrow> (nat \<Rightarrow> 'a) \<Rightarrow> (nat \<Rightarrow> 'a) \<Rightarrow> (nat \<Rightarrow> 'a)" where
  "assign_range lo hi body a = (\<lambda>i. if lo \<le> i \<and> i < hi then body i else a i)"

text \<open>A loop whose iterations accumulate into shared state and may stop on an error.\<close>

fun for_each :: "('s \<Rightarrow> nat \<Rightarrow> error + 's) \<Rightarrow> nat list \<Rightarrow> 's \<Rightarrow> error + 's" where
  "for_each step [] s = Inr s"
| "for_each step (i # is) s =
     (case step s i of Inl e \<Rightarrow> Inl e | Inr s' \<Rightarrow> for_each step is s')"

section \<open>Spatial: geometry kept by the engine (spatial/aspatial.cpp)\<close>

text \<open>\<^verbatim>\<open>compute_ghost_cell_coords_about_midpoint\<close>: the ghost centre of boundary face
  \<open>iface\<close> is the reflection of the left cell's centre about the face midpoint.\<close>

definition compute_ghost_cell_coords_about_midpoint ::
  "UMesh2dh \<Rightarrow> Array2d \<Rightarrow> Array2d \<Rightarrow> Array2d" where
  "compute_ghost_cell_coords_about_midpoint msh rcs rchg =
     assign_range 0 (gnbface msh)
       (\<lambda>iface.
          let ielem = gintfac msh iface 0;
              ip1 = gintfac msh iface 2;
              ip2 = gintfac msh iface 3;
              midpoint = (\<lambda>idim. 0.5 * (gcoords msh ip1 idim + gcoords msh ip2 idim))
          in assign_range 0 NDIM (\<lambda>idim. 2 * midpoint idim - rcs ielem idim) (rchg iface))
       rchg"

text \<open>The constructor of \<^verbatim>\<open>Spatial\<close>: cell centres (real cells, then ghost cells stored at the
  right-cell index of their boundary face) and the Gauss points of every face.  The arrays
  are allocated without initialisation; \<open>rc0\<close>, \<open>rchg0\<close> and \<open>gr0\<close> are their contents
  before the constructor writes them.\<close>

definition Spatial_rc :: "UMesh2dh \<Rightarrow> Array2d \<Rightarrow> Array2d \<Rightarrow> Array2d" where
  "Spatial_rc msh rc0 rchg0 =
     (let rc1 = assign_range 0 (gnelem msh)
            (\<lambda>ielem. assign_range 0 NDIM
               (\<lambda>idim.
                  fold (\<lambda>inode s. s + gcoords msh (ginpoel msh ielem inode) idim)
                       [0..<gnnode msh ielem] 0
                    / real (gnnode msh ielem))
               (rc0 ielem))
            rc0;
          rchg = compute_ghost_cell_coords_about_midpoint msh rc1 rchg0
      in fold (\<lambda>iface rcs.
                 rcs (gintfac msh iface 1 :=
                        assign_range 0 NDIM (\<lambda>idim. rchg iface idim) (rcs (gintfac msh iface 1))))
           [0..<gnbface msh] rc1)"

definition Spatial_gr :: "UMesh2dh \<Rightarrow> GaussPoints \<Rightarrow> GaussPoints" where
  "Spatial_gr msh gr0 =
     assign_range 0 (gnaface msh)
       (\<lambda>ied.
          let x1 = gcoords msh (gintfac msh ied 2) 0;
              y1 = gcoords msh (gintfac msh ied 2) 1;
              x2 = gcoords msh (gintfac msh ied 3) 0;
              y2 = gcoords msh (gintfac msh ied 3) 1
          in assign_range 0 NGAUSS
               (\<lambda>ig. (gr0 ied ig)
                  (0 := x1 + (real ig + 1.0) / (real NGAUSS + 1.0) * (x2 - x1),
                   1 := y1 + (real ig + 1.0) / (real NGAUSS + 1.0) * (y2 - y1)))
               (gr0 ied))
       gr0"

text \<open>The object \<^verbatim>\<open>FlowFV<secondOrderRequested,constVisc>\<close>: the members of \<^verbatim>\<open>Spatial\<close> and
  \<^verbatim>\<open>FlowFV_base\<close>, and the two template arguments.  The reconstruction member \<^verbatim>\<open>lim\<close> is
  \<open>lim_recon\<close> here.\<close>

record FlowFV =
  m :: UMesh2dh
  rc :: Array2d
  gr :: GaussPoints
  pconfig :: FlowPhysicsConfig
  nconfig :: FlowNumericsConfig
  physics :: IdealGasPhysics
  uinf :: vec
  inviflux :: "InviscidFlux option"
  jflux :: "InviscidFlux option"
  gradcomp :: GradientScheme
  lim_recon :: "SolutionReconstruction option"
  bcs :: "int \<rightharpoonup> FlowBC"
  secondOrderRequested :: bool
  constVisc :: bool

text \<open>The constructors \<^verbatim>\<open>FlowFV_base\<close> and \<^verbatim>\<open>FlowFV\<close> (the member initialisers, in order) and
  the factory \<^verbatim>\<open>create_mutable_flowSpatialDiscretization\<close>, which picks the template
  arguments from the configuration.  The pointers the factories return are stored as they
  are.  The lines written to standard output are left out here.\<close>

definition FlowFV_ctor ::
  "Externs \<Rightarrow> bool \<Rightarrow> bool \<Rightarrow> UMesh2dh \<Rightarrow> FlowPhysicsConfig \<Rightarrow> FlowNumericsConfig
     \<Rightarrow> Array2d \<Rightarrow> Array2d \<Rightarrow> GaussPoints \<Rightarrow> FlowFV" where
  "FlowFV_ctor X so cv msh pconf nconf rc0 rchg0 gr0 =
     (let rcs = Spatial_rc msh rc0 rchg0;
          grs = Spatial_gr msh gr0;
          phy = IdealGasPhysics (gamma pconf) (Minf pconf) (Tinf pconf) (Reinf pconf)
                  (Pr_conf pconf);
          ui = compute_freestream_state X phy (aoa pconf)
      in \<lparr> m = msh, rc = rcs, gr = grs, pconfig = pconf, nconfig = nconf,
           physics = phy, uinf = ui,
           inviflux = snd (create_const_inviscidflux (conv_numflux nconf) phy),
           jflux = snd (create_const_inviscidflux (conv_numflux_jac nconf) phy),
           gradcomp = snd (create_const_gradientscheme (gradientscheme nconf) msh rcs),
           lim_recon = snd (create_const_reconstruction (reconstruction nconf) msh rcs grs
                              (limiter_param nconf)),
           bcs = create_const_flowBCs X (bcconf pconf) phy ui,
           secondOrderRequested = so, constVisc = cv \<rparr>)"

definition create_mutable_flowSpatialDiscretization ::
  "Externs \<Rightarrow> UMesh2dh \<Rightarrow> FlowPhysicsConfig \<Rightarrow> FlowNumericsConfig
     \<Rightarrow> Array2d \<Rightarrow> Array2d \<Rightarrow> GaussPoints \<Rightarrow> FlowFV" where
  "create_mutable_flowSpatialDiscretization X msh pconf nconf rc0 rchg0 gr0 =
     (if order2 nconf then
        (if const_visc pconf then FlowFV_ctor X True True msh pconf nconf rc0 rchg0 gr0
         else FlowFV_ctor X True False msh pconf nconf rc0 rchg0 gr0)
      else
        (if const_visc pconf then FlowFV_ctor X False True msh pconf nconf rc0 rchg0 gr0
         else FlowFV_ctor X False False msh pconf nconf rc0 rchg0 gr0))"

section \<open>Face gradients\<close>

text \<open>\<^verbatim>\<open>dimDotProduct\<close> (declared outside the covered sources): the dot product of two
  \<^verbatim>\<open>NDIM\<close>-vectors.\<close>

definition dimDotProduct :: "vec \<Rightarrow> vec \<Rightarrow> a_real" where
  "dimDotProduct a b = fold (\<lambda>i s. s + a i * b i) [0..<NDIM] 0"

text \<open>The opening lines shared by the face-gradient routines: the vector from the left cell
  centre to the right one, its length \<open>dist\<close>, and the vector divided by its length.\<close>

definition centre_dist :: "FlowFV \<Rightarrow> a_int \<Rightarrow> a_real" where
  "centre_dist eng iface =
     (let lelem = gintfac (m eng) iface 0;
          relem = gintfac (m eng) iface 1
      in sqrt (fold (\<lambda>i dist. dist + (rc eng relem i - rc eng lelem i)
                                       * (rc eng relem i - rc eng lelem i))
                 [0..<NDIM] 0))"

definition centre_dir :: "FlowFV \<Rightarrow> a_int \<Rightarrow> vec" where
  "centre_dir eng iface =
     (let lelem = gintfac (m eng) iface 0;
          relem = gintfac (m eng) iface 1
      in (\<lambda>i. (rc eng relem i - rc eng lelem i) / centre_dist eng iface))"

definition getFaceGradient_modifiedAverage ::
  "FlowFV \<Rightarrow> a_int \<Rightarrow> vec \<Rightarrow> vec \<Rightarrow> Array2d \<Rightarrow> Array2d \<Rightarrow> Array2d" where
  "getFaceGradient_modifiedAverage eng iface ucl ucr gradl gradr =
     (let dist = centre_dist eng iface;
          dr = centre_dir eng iface
      in (\<lambda>j i.
            let davg = (\<lambda>j. 0.5 * (gradl j i + gradr j i));
                corr = (ucr i - ucl i) / dist;
                ddr = dimDotProduct davg dr
            in davg j - ddr * dr j + corr * dr j))"

definition getFaceGradientAndJacobian_thinLayer ::
  "FlowFV \<Rightarrow> a_int \<Rightarrow> vec \<Rightarrow> vec \<Rightarrow> vec \<Rightarrow> vec
     \<Rightarrow> Array2d \<times> (nat \<Rightarrow> nat \<Rightarrow> nat \<Rightarrow> a_real) \<times> (nat \<Rightarrow> nat \<Rightarrow> nat \<Rightarrow> a_real)" where
  "getFaceGradientAndJacobian_thinLayer eng iface ucl ucr dul dur =
     (let dist = centre_dist eng iface;
          dr = centre_dir eng iface
      in ((\<lambda>j i. (ucr i - ucl i) / dist * dr j),
          (\<lambda>j i k. - dul (i * NVARS + k) / dist * dr j),
          (\<lambda>j i k. dur (i * NVARS + k) / dist * dr j)))"

section \<open>Boundary states\<close>

definition compute_boundary_state ::
  "Externs \<Rightarrow> FlowFV \<Rightarrow> a_int \<Rightarrow> vec \<Rightarrow> error + vec" where
  "compute_boundary_state X eng ied ins =
     (let n = gnormal (m eng) ied
      in case bcs eng (gintfacbtags (m eng) ied 0) of
           None \<Rightarrow> Inl out_of_range
         | Some bc \<Rightarrow> Inr (computeGhostState X bc ins n))"

definition compute_boundary_Jacobian ::
  "Externs \<Rightarrow> FlowFV \<Rightarrow> a_int \<Rightarrow> vec \<Rightarrow> error + (vec \<times> Block)" where
  "compute_boundary_Jacobian X eng ied ins =
     (let n = gnormal (m eng) ied
      in case bcs eng (gintfacbtags (m eng) ied 0) of
           None \<Rightarrow> Inl out_of_range
         | Some bc \<Rightarrow> Inr (computeGhostStateAndJacobian X bc ins n))"

text \<open>\<^verbatim>\<open>compute_boundary_states(ins, bs)\<close>: \<open>ins\<close> and \<open>bs\<close> are indexed by boundary face.
  Each face first gets the ghost state of its own boundary condition; a face carrying the
  periodic marker then has its \<^verbatim>\<open>NVARS\<close> entries overwritten by row
  \<^verbatim>\<open>gperiodicmap(ied)\<close> of \<open>ins\<close>.\<close>

definition boundary_states_step ::
  "Externs \<Rightarrow> FlowFV \<Rightarrow> Array2d \<Rightarrow> Array2d \<Rightarrow> a_int \<Rightarrow> error + Array2d" where
  "boundary_states_step X eng ins bs ied =
     (case compute_boundary_state X eng ied (ins ied) of
        Inl e \<Rightarrow> Inl e
      | Inr gs \<Rightarrow>
          Inr (bs (ied :=
            (if gintfacbtags (m eng) ied 0 = periodic_id (bcconf (pconfig eng))
             then assign_range 0 NVARS (\<lambda>i. ins (gperiodicmap (m eng) ied) i) gs
             else gs))))"

definition compute_boundary_states ::
  "Externs \<Rightarrow> FlowFV \<Rightarrow> Array2d \<Rightarrow> Array2d \<Rightarrow> error + Array2d" where
  "compute_boundary_states X eng ins bs =
     for_each (boundary_states_step X eng ins) [0..<gnbface (m eng)] bs"

definition getGradients ::
  "Externs \<Rightarrow> FlowFV \<Rightarrow> Array2d \<Rightarrow> Array2d \<Rightarrow> error + GradArray" where
  "getGradients X eng u ug0 =
     (case for_each (\<lambda>ug iface.
                  case compute_boundary_state X eng iface (u (gintfac (m eng) iface 0)) of
                    Inl e \<Rightarrow> Inl e
                  | Inr gs \<Rightarrow> Inr (ug (iface := gs)))
             [0..<gnbface (m eng)] ug0 of
        Inl e \<Rightarrow> Inl e
      | Inr ug \<Rightarrow> Inr (compute_gradients X (gradcomp eng) u ug))"

section \<open>Viscous flux\<close>

text \<open>\<^verbatim>\<open>computeViscousFlux\<close>.  The right cell state \<open>ucell_r\<close> is a null pointer on boundary
  faces, where it is not read.\<close>

definition viscous_flux_from ::
  "Externs \<Rightarrow> FlowFV \<Rightarrow> a_int \<Rightarrow> vec \<Rightarrow> vec \<Rightarrow> Array2d \<Rightarrow> Array2d
     \<Rightarrow> Array2d \<Rightarrow> Array2d \<Rightarrow> vec \<Rightarrow> vec" where
  "viscous_flux_from X eng iface ucl ucr gradl gradr ul ur vflux0 =
     (let phy = physics eng;
          grad = getFaceGradient_modifiedAverage eng iface ucl ucr gradl gradr;
          muRe = (if constVisc eng then getConstantViscosityCoeff X phy
                  else 0.5 * (getViscosityCoeffFromConserved X phy (ul iface)
                              + getViscosityCoeffFromConserved X phy (ur iface)));
          kdiff = getThermalConductivityFromViscosity X phy muRe;
          stress = getStressTensor X phy muRe grad (\<lambda>i j. 0);
          vflux1 = vflux0 (0 := 0);
          vflux2 = fold (\<lambda>i vf.
                      vf (i + 1 := fold (\<lambda>j s. s - stress i j * gfacemetric (m eng) iface j)
                                     [0..<NDIM] 0))
                     [0..<NDIM] vflux1;
          vavg = (\<lambda>j. 0.5 * (ul iface (j + 1) / ul iface 0 + ur iface (j + 1) / ur iface 0))
      in vflux2 (NVARS - 1 :=
           fold (\<lambda>i s.
                   let comp = fold (\<lambda>j c. c + stress i j * vavg j) [0..<NDIM] 0
                              + kdiff * grad i (NVARS - 1)
                   in s - comp * gfacemetric (m eng) iface i)
             [0..<NDIM] 0))"

definition computeViscousFlux ::
  "Externs \<Rightarrow> FlowFV \<Rightarrow> a_int \<Rightarrow> vec \<Rightarrow> vec option \<Rightarrow> Array2d \<Rightarrow> GradArray
     \<Rightarrow> Array2d \<Rightarrow> Array2d \<Rightarrow> vec \<Rightarrow> error + vec" where
  "computeViscousFlux X eng iface ucell_l ucell_r ug grads ul ur vflux0 =
     (let phy = physics eng;
          lelem = gintfac (m eng) iface 0;
          relem = gintfac (m eng) iface 1;
          gradT = (\<lambda>uc gradc. assign_range 0 NDIM
                     (\<lambda>j. (gradc j) (NVARS - 1 :=
                        getGradTemperature X phy (uc 0) (gradc j 0) (uc (NVARS - 1))
                          (gradc j (NVARS - 1))))
                     gradc);
          prim2 = (\<lambda>ucl ucr.
                     if secondOrderRequested eng then
                       (ucl (NVARS - 1 := getTemperature X phy (ucl 0) (ucl (NVARS - 1))),
                        ucr (NVARS - 1 := getTemperature X phy (ucr 0) (ucr (NVARS - 1))))
                     else
                       (getPrimitive2FromConserved X phy ucl,
                        getPrimitive2FromConserved X phy ucr))
      in if iface < gnbface (m eng) then
           (if secondOrderRequested eng then
              (let ucr = ug iface;
                   ucl = getPrimitiveFromConserved X phy ucell_l;
                   gradl = gradT ucl (grads lelem);
                   gradr = gradl;
                   (ucl2, ucr2) = prim2 ucl ucr
               in Inr (viscous_flux_from X eng iface ucl2 ucr2 gradl gradr ul ur vflux0))
            else
              (let ucr = ur iface;
                   (ucl2, ucr2) = prim2 ucell_l ucr
               in Inr (viscous_flux_from X eng iface ucl2 ucr2 (\<lambda>j i. 0) (\<lambda>j i. 0)
                         ul ur vflux0)))
         else
           (case ucell_r of
              None \<Rightarrow> Inl null_pointer
            | Some ucr0 \<Rightarrow>
                if secondOrderRequested eng then
                  (let ucl = getPrimitiveFromConserved X phy ucell_l;
                       ucr = getPrimitiveFromConserved X phy ucr0;
                       gradl = gradT ucl (grads lelem);
                       gradr = gradT ucr (grads relem);
                       (ucl2, ucr2) = prim2 ucl ucr
                   in Inr (viscous_flux_from X eng iface ucl2 ucr2 gradl gradr ul ur vflux0))
                else
                  (let (ucl2, ucr2) = prim2 ucell_l ucr0
                   in Inr (viscous_flux_from X eng iface ucl2 ucr2 (\<lambda>j i. 0) (\<lambda>j i. 0)
                             ul ur vflux0))))"

section \<open>Residual assembly (FlowFV::compute_residual)\<close>

text \<open>The local arrays of \<^verbatim>\<open>compute_residual\<close> are allocated without initialisation; a
  \<open>Scratch\<close> record holds the contents they start with.\<close>

record Scratch =
  integ0 :: vec
  ug0 :: Array2d
  uleft0 :: Array2d
  uright0 :: Array2d
  grads0 :: GradArray
  up0 :: Array2d
  vflux0 :: vec

text \<open>The loops that copy cell states to face states (lines 908--913 and 968--977): for
  the faces \<open>lo \<le> ied < hi\<close>, the \<^verbatim>\<open>NVARS\<close> entries of row \<open>ied\<close> become those of the state of
  the face's left (\<open>side = 0\<close>) or right (\<open>side = 1\<close>) cell.\<close>

definition face_cell_states ::
  "UMesh2dh \<Rightarrow> Array2d \<Rightarrow> nat \<Rightarrow> nat \<Rightarrow> nat \<Rightarrow> Array2d \<Rightarrow> Array2d" where
  "face_cell_states msh u side lo hi arr =
     assign_range lo hi
       (\<lambda>ied. assign_range 0 NVARS (\<lambda>ivar. u (gintfac msh ied side) ivar) (arr ied))
       arr"

text \<open>Lines 898--981: the states on the two sides of every face.  The result is
  \<open>(ug, grads, uleft, uright)\<close> as the flux loop finds them.  \<open>block_of uarr\<close> is the
  \<^verbatim>\<open>Eigen::Map\<close> view \<open>u\<close> of the raw state array, so \<open>block_of uarr iel\<close> is also the pointer
  \<^verbatim>\<open>&uarr[iel*NVARS]\<close>.\<close>

definition residual_face_states ::
  "Externs \<Rightarrow> FlowFV \<Rightarrow> Scratch \<Rightarrow> vec
     \<Rightarrow> error + (Array2d \<times> GradArray \<times> Array2d \<times> Array2d)" where
  "residual_face_states X eng sc uarr =
     (let msh = m eng;
          phy = physics eng;
          u = block_of uarr;
          uleftA = face_cell_states msh u 0 0 (gnbface msh) (uleft0 sc)
      in if secondOrderRequested eng then
           (case compute_boundary_states X eng uleftA (ug0 sc) of
              Inl e \<Rightarrow> Inl e
            | Inr ugA \<Rightarrow>
                let ugB = assign_range 0 (gnbface msh)
                            (\<lambda>iface. getPrimitiveFromConserved X phy (ugA iface)) ugA;
                    up = assign_range 0 (gnelem msh)
                           (\<lambda>iel. getPrimitiveFromConserved X phy (u iel)) (up0 sc);
                    grads = compute_gradients X (gradcomp eng) up ugB
                in (case lim_recon eng of
                     None \<Rightarrow> Inl null_pointer
                   | Some l \<Rightarrow>
                       let (uleftB, urightB) =
                             compute_face_values X l up ugB grads uleftA (uright0 sc);
                           uleftC = assign_range (gnbface msh) (gnaface msh)
                                      (\<lambda>iface. getConservedFromPrimitive X phy (uleftB iface))
                                      uleftB;
                           urightC = assign_range (gnbface msh) (gnaface msh)
                                       (\<lambda>iface. getConservedFromPrimitive X phy (urightB iface))
                                       urightB;
                           uleftD = assign_range 0 (gnbface msh)
                                      (\<lambda>iface. getConservedFromPrimitive X phy (uleftC iface))
                                      uleftC
                       in (case compute_boundary_states X eng uleftD urightC of
                            Inl e \<Rightarrow> Inl e
                          | Inr urightD \<Rightarrow> Inr (ugB, grads, uleftD, urightD))))
         else
           (let uleftB = face_cell_states msh u 0 (gnbface msh) (gnaface msh) uleftA;
                urightB = face_cell_states msh u 1 (gnbface msh) (gnaface msh) (uright0 sc)
            in case compute_boundary_states X eng uleftB urightB of
                 Inl e \<Rightarrow> Inl e
               | Inr urightD \<Rightarrow> Inr (ug0 sc, grads0 sc, uleftB, urightD)))"

text \<open>Lines 996--1020: the flux through face \<open>ied\<close>, integrated over the face: the inviscid
  numerical flux times the face length, plus the viscous flux times the face length in a
  viscous simulation.\<close>

definition face_fluxes ::
  "Externs \<Rightarrow> FlowFV \<Rightarrow> Scratch \<Rightarrow> vec \<Rightarrow> Array2d \<Rightarrow> GradArray \<Rightarrow> Array2d \<Rightarrow> Array2d
     \<Rightarrow> InviscidFlux \<Rightarrow> a_int \<Rightarrow> error + vec" where
  "face_fluxes X eng sc uarr ug grads uleft uright fl ied =
     (let msh = m eng;
          n = gfacemetric msh ied;
          len = gfacemetric msh ied 2;
          lelem = gintfac msh ied 0;
          relem = gintfac msh ied 1;
          fluxes1 = get_flux X fl (uleft ied) (uright ied) n;
          fluxes2 = assign_range 0 NVARS (\<lambda>ivar. fluxes1 ivar * len) fluxes1
      in if viscous_sim (pconfig eng) then
           (let urt = (if ied < gnbface msh then None else Some (block_of uarr relem))
            in case computeViscousFlux X eng ied (block_of uarr lelem) urt ug grads
                      uleft uright (vflux0 sc) of
                 Inl e \<Rightarrow> Inl e
               | Inr vflux \<Rightarrow>
                   Inr (assign_range 0 NVARS (\<lambda>ivar. fluxes2 ivar + vflux ivar * len) fluxes2))
         else Inr fluxes2)"

text \<open>Lines 1035--1063: the two spectral-radius contributions of face \<open>ied\<close>, the first for
  its left cell, the second for its right cell.\<close>

definition face_specrad ::
  "Externs \<Rightarrow> FlowFV \<Rightarrow> Array2d \<Rightarrow> Array2d \<Rightarrow> a_int \<Rightarrow> a_real \<times> a_real" where
  "face_specrad X eng uleft uright ied =
     (let msh = m eng;
          phy = physics eng;
          n = gfacemetric msh ied;
          len = gfacemetric msh ied 2;
          lelem = gintfac msh ied 0;
          relem = gintfac msh ied 1;
          ci = getSoundSpeedFromConserved X phy (uleft ied);
          cj = getSoundSpeedFromConserved X phy (uright ied);
          vni = (uleft ied 1 * n 0 + uleft ied 2 * n 1) / uleft ied 0;
          vnj = (uright ied 1 * n 0 + uright ied 2 * n 1) / uright ied 0;
          specradi = (\<bar>vni\<bar> + ci) * len;
          specradj = (\<bar>vnj\<bar> + cj) * len
      in if viscous_sim (pconfig eng) then
           (let mui = (if constVisc eng then getConstantViscosityCoeff X phy
                       else getViscosityCoeffFromConserved X phy (uleft ied));
                muj = (if constVisc eng then getConstantViscosityCoeff X phy
                       else getViscosityCoeffFromConserved X phy (uright ied));
                coi = max (4.0 / (3 * uleft ied 0)) (g phy / uleft ied 0);
                coj = max (4.0 / (3 * uright ied 0)) (g phy / uright ied 0)
            in (specradi + coi * mui / Pr phy * len * len / garea msh lelem,
                if relem < gnelem msh
                then specradj + coj * muj / Pr phy * len * len / garea msh relem
                else specradj))
         else (specradi, specradj))"

text \<open>Lines 1022--1032: the integrated flux is subtracted from the residual of the left
  cell and added to the residual of the right cell when that is a real cell.\<close>

definition add_face_flux :: "UMesh2dh \<Rightarrow> a_int \<Rightarrow> vec \<Rightarrow> Array2d \<Rightarrow> Array2d" where
  "add_face_flux msh ied fluxes residual =
     (let lelem = gintfac msh ied 0;
          relem = gintfac msh ied 1;
          residual1 = residual (lelem :=
            assign_range 0 NVARS (\<lambda>ivar. residual lelem ivar - fluxes ivar) (residual lelem))
      in if relem < gnelem msh then
           residual1 (relem :=
             assign_range 0 NVARS (\<lambda>ivar. residual1 relem ivar + fluxes ivar)
               (residual1 relem))
         else residual1)"

text \<open>Lines 1065--1071: the spectral radii are added to the integral of the left cell and
  of the right cell when that is a real cell.\<close>

definition add_face_specrad :: "UMesh2dh \<Rightarrow> a_int \<Rightarrow> a_real \<times> a_real \<Rightarrow> vec \<Rightarrow> vec" where
  "add_face_specrad msh ied specrad integ =
     (let lelem = gintfac msh ied 0;
          relem = gintfac msh ied 1;
          integ1 = integ (lelem := integ lelem + fst specrad)
      in if relem < gnelem msh then integ1 (relem := integ1 relem + snd specrad)
         else integ1)"

text \<open>One iteration of the face loop (lines 994--1073) on the pair (residual, integ).\<close>

definition residual_face_step ::
  "Externs \<Rightarrow> FlowFV \<Rightarrow> Scratch \<Rightarrow> vec \<Rightarrow> bool \<Rightarrow> Array2d \<Rightarrow> GradArray \<Rightarrow> Array2d \<Rightarrow> Array2d
     \<Rightarrow> Array2d \<times> vec \<Rightarrow> a_int \<Rightarrow> error + (Array2d \<times> vec)" where
  "residual_face_step X eng sc uarr gettimesteps ug grads uleft uright s ied =
     (case inviflux eng of
        None \<Rightarrow> Inl null_pointer
      | Some fl \<Rightarrow>
         (case face_fluxes X eng sc uarr ug grads uleft uright fl ied of
            Inl e \<Rightarrow> Inl e
          | Inr fluxes \<Rightarrow>
              Inr (add_face_flux (m eng) ied fluxes (fst s),
                   if gettimesteps
                   then add_face_specrad (m eng) ied (face_specrad X eng uleft uright ied) (snd s)
                   else snd s)))"

text \<open>\<^verbatim>\<open>compute_residual(uarr, rarr, gettimesteps, dtm)\<close>.  The result is the status code
  returned and the contents of \<open>rarr\<close> and \<open>dtm\<close> at the return.\<close>

definition compute_residual ::
  "Externs \<Rightarrow> FlowFV \<Rightarrow> Scratch \<Rightarrow> vec \<Rightarrow> vec \<Rightarrow> bool \<Rightarrow> vec
     \<Rightarrow> error + (StatusCode \<times> vec \<times> vec)" where
  "compute_residual X eng sc uarr rarr gettimesteps dtm =
     (let msh = m eng;
          ierr = 0;
          integA = assign_range 0 (gnelem msh) (\<lambda>iel. 0.0) (integ0 sc)
      in case residual_face_states X eng sc uarr of
           Inl e \<Rightarrow> Inl e
         | Inr (ug, grads, uleft, uright) \<Rightarrow>
            (case for_each
                    (residual_face_step X eng sc uarr gettimesteps ug grads uleft uright)
                    [0..<gnaface msh] (block_of rarr, integA) of
               Inl e \<Rightarrow> Inl e
             | Inr (residual, integ) \<Rightarrow>
                 Inr (ierr, raw residual,
                      if gettimesteps
                      then assign_range 0 (gnelem msh) (\<lambda>iel. garea msh iel / integ iel) dtm
                      else dtm)))"

text \<open>A PETSc vector: its local size and its raw array.  The PETSc calls
  (\<^verbatim>\<open>VecGetLocalSize\<close>, \<^verbatim>\<open>VecGetArray\<close>, ...) are taken to succeed with status 0.\<close>

record Vec =
  local_size :: nat
  array :: vec


section \<open>Surface data (FlowFV_base::computeSurfaceData)\<close>

definition flowDirectionVector :: "a_real \<Rightarrow> vec" where
  "flowDirectionVector a = (assign_range 0 NDIM (\<lambda>i. 0) (\<lambda>i. 0)) (0 := cos a, 1 := sin a)"

text \<open>The variables the face loop of \<^verbatim>\<open>computeSurfaceData\<close> updates (\<open>outp\<close> is the
  array \<^verbatim>\<open>output\<close>).\<close>

record SurfaceAcc =
  facecoun :: a_int
  totallen :: a_real
  Cdf :: a_real
  Cdp :: a_real
  Cl :: a_real
  outp :: Array2d

definition surface_face ::
  "Externs \<Rightarrow> FlowFV \<Rightarrow> Array2d \<Rightarrow> GradArray \<Rightarrow> a_int \<Rightarrow> SurfaceAcc \<Rightarrow> SurfaceAcc" where
  "surface_face X eng u grad iface acc =
     (let msh = m eng;
          phy = physics eng;
          av = flowDirectionVector (aoa (pconfig eng));
          pinf = getFreestreamPressure X phy;
          flownormal = ((\<lambda>i. 0) (0 := - av 1, 1 := av 0) :: vec);
          lelem = gintfac msh iface 0;
          n = (\<lambda>j. gfacemetric msh iface j);
          len = gfacemetric msh iface 2;
          ijp = (\<lambda>inofa. if inofa = 0 then gintfac msh iface 2 else gintfac msh iface 3);
          coord = (\<lambda>j. fold (\<lambda>inofa s. s + gcoords msh (ijp inofa) j) [0..<gnnofa msh] 0
                          / real (gnnofa msh));
          out1 = (outp acc) (facecoun acc :=
                    assign_range 0 NDIM coord (outp acc (facecoun acc)));
          out2 = out1 (facecoun acc := (out1 (facecoun acc))
                    (NDIM := (getPressureFromConserved X phy (u lelem) - pinf) * 2.0));
          muhat = getViscosityCoeffFromConserved X phy (u lelem);
          gradu00 = (grad lelem 0 1 * u lelem 0 - u lelem 1 * grad lelem 0 0)
                      / (u lelem 0 * u lelem 0);
          gradu01 = (grad lelem 1 1 * u lelem 0 - u lelem 1 * grad lelem 1 0)
                      / (u lelem 0 * u lelem 0);
          gradu10 = (grad lelem 0 2 * u lelem 0 - u lelem 2 * grad lelem 0 0)
                      / (u lelem 0 * u lelem 0);
          gradu11 = (grad lelem 1 2 * u lelem 0 - u lelem 2 * grad lelem 1 0)
                      / (u lelem 0 * u lelem 0);
          tauw = muhat * ((2.0 * gradu00 * n 0 + (gradu01 + gradu10) * n 1) * n 1
                          + ((gradu10 + gradu01) * n 0 + 2.0 * gradu11 * n 1) * (- n 0));
          out3 = out2 (facecoun acc := (out2 (facecoun acc)) (NDIM + 1 := 2.0 * tauw));
          ndotf = n 0 * av 0 + n 1 * av 1;
          ndotnf = n 0 * flownormal 0 + n 1 * flownormal 1;
          tdotf = n 1 * av 0 - n 0 * av 1
      in \<lparr> facecoun = facecoun acc + 1,
           totallen = totallen acc + len,
           Cdf = Cdf acc + out3 (facecoun acc) (NDIM + 1) * tdotf * len,
           Cdp = Cdp acc + out3 (facecoun acc) NDIM * ndotf * len,
           Cl = Cl acc + out3 (facecoun acc) NDIM * ndotnf * len,
           outp = out3 \<rparr>)"

definition computeSurfaceData ::
  "Externs \<Rightarrow> FlowFV \<Rightarrow> Array2d \<Rightarrow> GradArray \<Rightarrow> int \<Rightarrow> Array2d
     \<Rightarrow> (a_real \<times> a_real \<times> a_real) \<times> Array2d" where
  "computeSurfaceData X eng u grad iwbcm output0 =
     (let acc = fold (\<lambda>iface acc.
                        if gintfacbtags (m eng) iface 0 = iwbcm
                        then surface_face X eng u grad iface acc else acc)
                  [0..<gnbface (m eng)]
                  \<lparr> facecoun = 0, totallen = 0, Cdf = 0, Cdp = 0, Cl = 0, outp = output0 \<rparr>
      in ((Cl acc / totallen acc, Cdp acc / totallen acc, Cdf acc / totallen acc),
          outp acc))"

section \<open>Jacobian assembly (FlowFV::compute_jacobian)\<close>

text \<open>\<^verbatim>\<open>computeViscousFluxJacobian\<close>: it adds the derivative of the viscous flux to the raw
  arrays \<open>dvfi\<close> (left state) and \<open>dvfj\<close> (right state) it is given.\<close>

definition computeViscousFluxJacobian ::
  "Externs \<Rightarrow> FlowFV \<Rightarrow> a_int \<Rightarrow> vec \<Rightarrow> vec \<Rightarrow> vec \<Rightarrow> vec \<Rightarrow> vec \<times> vec" where
  "computeViscousFluxJacobian X eng iface ul ur dvfi dvfj =
     (let phy = physics eng;
          metric = gfacemetric (m eng) iface;
          upl = getPrimitive2FromConserved X phy ul;
          upr = getPrimitive2FromConserved X phy ur;
          dupl = getJacobianPrimitive2WrtConserved X phy ul (\<lambda>k. 0);
          dupr = getJacobianPrimitive2WrtConserved X phy ur (\<lambda>k. 0);
          (grad, dgradl, dgradr) =
             getFaceGradientAndJacobian_thinLayer eng iface upl upr dupl dupr;
          muRe = (if constVisc eng then getConstantViscosityCoeff X phy
                  else 0.5 * (getViscosityCoeffFromConserved X phy ul
                              + getViscosityCoeffFromConserved X phy ur));
          kdiff = getThermalConductivityFromViscosity X phy muRe;
          dmul = (if constVisc eng then (\<lambda>k. 0)
                  else (let d = getJacobianSutherlandViscosityWrtConserved X phy ul (\<lambda>k. 0)
                        in assign_range 0 NVARS (\<lambda>k. d k * 0.5) d));
          dmur = (if constVisc eng then (\<lambda>k. 0)
                  else (let d = getJacobianSutherlandViscosityWrtConserved X phy ur (\<lambda>k. 0)
                        in assign_range 0 NVARS (\<lambda>k. d k * 0.5) d));
          dkdl = (if constVisc eng then (\<lambda>k. 0)
                  else getJacobianThermCondWrtConservedFromJacobianSutherViscWrtConserved
                         X phy dmul (\<lambda>k. 0));
          dkdr = (if constVisc eng then (\<lambda>k. 0)
                  else getJacobianThermCondWrtConservedFromJacobianSutherViscWrtConserved
                         X phy dmur (\<lambda>k. 0));
          (stress1, dstressl) =
             getJacobianStress X phy muRe dmul grad dgradl (\<lambda>i j. 0) (\<lambda>i j k. 0);
          (stress, dstressr) =
             getJacobianStress X phy muRe dmur grad dgradr stress1 (\<lambda>i j k. 0);
          momentum = (\<lambda>sgn dstress dvf.
             fold (\<lambda>i a. fold (\<lambda>j a. fold (\<lambda>k a.
                     a ((i + 1) * NVARS + k :=
                          a ((i + 1) * NVARS + k) + sgn * (dstress i j k * metric j)))
                   [0..<NVARS] a) [0..<NDIM] a) [0..<NDIM] dvf);
          vavg = (\<lambda>j. 0.5 * (ul (j + 1) / ul 0 + ur (j + 1) / ur 0));
          dvavg = (\<lambda>uc j. ((\<lambda>k. 0) (0 := - 0.5 * uc (j + 1) / (uc 0 * uc 0)))
                             (j + 1 := 0.5 / uc 0));
          energy = (\<lambda>sgn uc dstress dkd dgrad dvf.
             fold (\<lambda>i a.
                     let dcomp = (\<lambda>k.
                           fold (\<lambda>j c. c + (dstress i j k * vavg j
                                              + stress i j * dvavg uc j k))
                             [0..<NDIM] 0
                           + (dkd k * grad i (NVARS - 1) + kdiff * dgrad i (NVARS - 1) k))
                     in fold (\<lambda>k a.
                           a ((NVARS - 1) * NVARS + k :=
                                a ((NVARS - 1) * NVARS + k) + sgn * (dcomp k * metric i)))
                          [0..<NVARS] a)
               [0..<NDIM] dvf)
      in (energy 1 ul dstressl dkdl dgradl (momentum 1 dstressl dvfi),
          energy (- 1) ur dstressr dkdr dgradr (momentum (- 1) dstressr dvfj)))"

text \<open>Arithmetic on \<^verbatim>\<open>NVARS\<close> by \<^verbatim>\<open>NVARS\<close> blocks.\<close>

definition block_mult :: "Block \<Rightarrow> Block \<Rightarrow> Block" where
  "block_mult A B = (\<lambda>i k. fold (\<lambda>j s. s + A i j * B j k) [0..<NVARS] 0)"

definition block_sub :: "Block \<Rightarrow> Block \<Rightarrow> Block" where
  "block_sub A B = (\<lambda>i k. A i k - B i k)"

definition block_scale :: "a_real \<Rightarrow> Block \<Rightarrow> Block" where
  "block_scale c A = (\<lambda>i k. c * A i k)"

text \<open>Lines 1118--1124 and 1155--1162, the same in both face loops: the Jacobians of the
  numerical flux of the Jacobian flux scheme with respect to the left and the right state,
  to which a viscous simulation adds the viscous flux Jacobians.\<close>

definition flux_jacobians ::
  "Externs \<Rightarrow> FlowFV \<Rightarrow> a_int \<Rightarrow> vec \<Rightarrow> vec \<Rightarrow> error + (Block \<times> Block)" where
  "flux_jacobians X eng iface ul ur =
     (case jflux eng of
        None \<Rightarrow> Inl null_pointer
      | Some jf \<Rightarrow>
          let (left, right) = get_jacobian X jf ul ur (gfacemetric (m eng) iface)
          in if viscous_sim (pconfig eng) then
               (let (dvfi, dvfj) =
                      computeViscousFluxJacobian X eng iface ul ur (raw left) (raw right)
                in Inr (block_of dvfi, block_of dvfj))
             else Inr (left, right))"

text \<open>Modelled from the spec: the matrix backend (PETSc's \<^verbatim>\<open>Mat\<close> and
  \<^verbatim>\<open>MatSetValuesBlocked\<close> with \<^verbatim>\<open>ADD_VALUES\<close>) is not among the covered sources.  The spec
  requires of it only "add into block at (i, j)": the matrix is its scalar entries, and
  the call adds the row-major values to the block at block row \<open>brow\<close>, block column
  \<open>bcol\<close>.\<close>

type_synonym Mat = "nat \<Rightarrow> nat \<Rightarrow> a_real"

definition MatSetValuesBlocked_ADD :: "Mat \<Rightarrow> a_int \<Rightarrow> a_int \<Rightarrow> vec \<Rightarrow> Mat" where
  "MatSetValuesBlocked_ADD A brow bcol vals =
     (\<lambda>r c. if r div NVARS = brow \<and> c div NVARS = bcol
             then A r c + vals ((r mod NVARS) * NVARS + c mod NVARS)
             else A r c)"

text \<open>One iteration of the boundary-face loop (lines 1103--1139) and of the interior-face
  loop (lines 1142--1184).\<close>

definition jacobian_bface_step ::
  "Externs \<Rightarrow> FlowFV \<Rightarrow> vec \<Rightarrow> Mat \<Rightarrow> a_int \<Rightarrow> error + Mat" where
  "jacobian_bface_step X eng uarr A iface =
     (let msh = m eng;
          lelem = gintfac msh iface 0;
          len = gfacemetric msh iface 2
      in case compute_boundary_Jacobian X eng iface (block_of uarr lelem) of
           Inl e \<Rightarrow> Inl e
         | Inr (uface, drdl) \<Rightarrow>
            (case flux_jacobians X eng iface (block_of uarr lelem) uface of
               Inl e \<Rightarrow> Inl e
             | Inr (left, right) \<Rightarrow>
                 let left' = block_scale (- len) (block_sub left (block_mult right drdl))
                 in Inr (MatSetValuesBlocked_ADD A lelem lelem (raw left'))))"

definition jacobian_iface_step ::
  "Externs \<Rightarrow> FlowFV \<Rightarrow> vec \<Rightarrow> Mat \<Rightarrow> a_int \<Rightarrow> error + Mat" where
  "jacobian_iface_step X eng uarr A iface =
     (let msh = m eng;
          lelem = gintfac msh iface 0;
          relem = gintfac msh iface 1;
          len = gfacemetric msh iface 2
      in case flux_jacobians X eng iface (block_of uarr lelem) (block_of uarr relem) of
           Inl e \<Rightarrow> Inl e
         | Inr (L0, U0) \<Rightarrow>
             let L = block_scale len L0;
                 U = block_scale len U0;
                 A1 = MatSetValuesBlocked_ADD A relem lelem (raw L);
                 A2 = MatSetValuesBlocked_ADD A1 lelem relem (raw U);
                 L' = block_scale (- 1.0) L;
                 U' = block_scale (- 1.0) U;
                 A3 = MatSetValuesBlocked_ADD A2 lelem lelem (raw L')
             in Inr (MatSetValuesBlocked_ADD A3 relem relem (raw U')))"

definition compute_jacobian ::
  "Externs \<Rightarrow> FlowFV \<Rightarrow> Vec \<Rightarrow> Mat \<Rightarrow> error + (StatusCode \<times> Mat)" where
  "compute_jacobian X eng uvec A =
     (let msh = m eng;
          ierr = 0;
          locnelem = local_size uvec
      in if locnelem mod NVARS \<noteq> 0 then Inl assertion_failed
         else if locnelem div NVARS \<noteq> gnelem msh then Inl assertion_failed
         else case for_each (jacobian_bface_step X eng (array uvec))
                     [0..<gnbface msh] A of
                Inl e \<Rightarrow> Inl e
              | Inr A1 \<Rightarrow>
                 (case for_each (jacobian_iface_step X eng (array uvec))
                         [gnbface msh..<gnaface msh] A1 of
                    Inl e \<Rightarrow> Inl e
                  | Inr A2 \<Rightarrow> Inr (ierr, A2)))"

section \<open>Closed forms used in the statements\<close>

text \<open>Every boundary face's marker has a boundary condition in the registry: the condition
  under which \<^verbatim>\<open>compute_boundary_states\<close> returns.\<close>

definition bc_registered :: "FlowFV \<Rightarrow> bool" where
  "bc_registered eng =
     list_all (\<lambda>ied. bcs eng (gintfacbtags (m eng) ied 0) \<noteq> None) [0..<gnbface (m eng)]"

text \<open>The row \<^verbatim>\<open>compute_boundary_states(ins, bs)\<close> writes for boundary face \<open>ied\<close> when the
  face's marker is registered.\<close>

definition ghost_row :: "Externs \<Rightarrow> FlowFV \<Rightarrow> Array2d \<Rightarrow> a_int \<Rightarrow> vec" where
  "ghost_row X eng ins ied =
     (let gs = computeGhostState X (the (bcs eng (gintfacbtags (m eng) ied 0))) (ins ied)
                 (gnormal (m eng) ied)
      in if gintfacbtags (m eng) ied 0 = periodic_id (bcconf (pconfig eng))
         then assign_range 0 NVARS (\<lambda>i. ins (gperiodicmap (m eng) ied) i) gs
         else gs)"

text \<open>The integrated flux of face \<open>ied\<close>: the value of \<open>face_fluxes\<close> for the engine's flux
  object.\<close>

definition face_flux ::
  "Externs \<Rightarrow> FlowFV \<Rightarrow> Scratch \<Rightarrow> vec \<Rightarrow> Array2d \<Rightarrow> GradArray \<Rightarrow> Array2d \<Rightarrow> Array2d
     \<Rightarrow> a_int \<Rightarrow> vec" where
  "face_flux X eng sc uarr ug grads uleft uright ied =
     projr (face_fluxes X eng sc uarr ug grads uleft uright (the (inviflux eng)) ied)"

text \<open>The residual and the spectral-radius integral after the face loop.\<close>

definition residual_after ::
  "Externs \<Rightarrow> FlowFV \<Rightarrow> Scratch \<Rightarrow> vec \<Rightarrow> Array2d \<Rightarrow> GradArray \<Rightarrow> Array2d \<Rightarrow> Array2d
     \<Rightarrow> Array2d \<Rightarrow> Array2d" where
  "residual_after X eng sc uarr ug grads uleft uright R =
     fold (\<lambda>f. add_face_flux (m eng) f (face_flux X eng sc uarr ug grads uleft uright f))
       [0..<gnaface (m eng)] R"

definition integ_after :: "Externs \<Rightarrow> FlowFV \<Rightarrow> Array2d \<Rightarrow> Array2d \<Rightarrow> vec \<Rightarrow> vec" where
  "integ_after X eng uleft uright I =
     fold (\<lambda>f. add_face_specrad (m eng) f (face_specrad X eng uleft uright f))
       [0..<gnaface (m eng)] I"

text \<open>The ghost state and its derivative that \<^verbatim>\<open>compute_boundary_Jacobian\<close> returns for
  boundary face \<open>f\<close>, and the pair of flux Jacobians of lines 1118--1124 and 1155--1162 (the
  value of \<open>flux_jacobians\<close> for the engine's Jacobian flux object).\<close>

definition boundary_jacobian :: "Externs \<Rightarrow> FlowFV \<Rightarrow> vec \<Rightarrow> a_int \<Rightarrow> vec \<times> Block" where
  "boundary_jacobian X eng uarr f =
     projr (compute_boundary_Jacobian X eng f (block_of uarr (gintfac (m eng) f 0)))"

definition face_jacobian ::
  "Externs \<Rightarrow> FlowFV \<Rightarrow> a_int \<Rightarrow> vec \<Rightarrow> vec \<Rightarrow> Block \<times> Block" where
  "face_jacobian X eng f ul ur = projr (flux_jacobians X eng f ul ur)"

text \<open>An update of a raw array that adds to what the array holds.\<close>

definition additive_update :: "(vec \<Rightarrow> vec) \<Rightarrow> bool" where
  "additive_update F = (\<forall>a. F a = (\<lambda>k. a k + F (\<lambda>k. 0) k))"

section \<open>Collaborators modelled from the spec\<close>

text \<open>Modelled from the spec: the gas model's conversions between conserved variables
  \<open>(\<rho>, \<rho>u, \<rho>v, \<rho>E)\<close> and primitive variables \<open>(\<rho>, u, v, p)\<close> for an ideal gas,
  \<open>p = (\<gamma> - 1) (\<rho>E - \<rho> (u\<^sup>2 + v\<^sup>2) / 2)\<close>; their bodies are not among the covered sources.\<close>

definition spec_getPrimitiveFromConserved :: "IdealGasPhysics \<Rightarrow> vec \<Rightarrow> vec" where
  "spec_getPrimitiveFromConserved phy uc =
     (\<lambda>i. [uc 0, uc 1 / uc 0, uc 2 / uc 0,
            (g phy - 1) * (uc 3 - (uc 1 * uc 1 + uc 2 * uc 2) / uc 0 / 2)] ! i)"

definition spec_getConservedFromPrimitive :: "IdealGasPhysics \<Rightarrow> vec \<Rightarrow> vec" where
  "spec_getConservedFromPrimitive phy up =
     (\<lambda>i. [up 0, up 0 * up 1, up 0 * up 2,
            up 3 / (g phy - 1) + up 0 * (up 1 * up 1 + up 2 * up 2) / 2] ! i)"

text \<open>Modelled from the spec: the Green-Gauss gradient scheme, "the gradient in cell c is
  (1/area) times the sum over its faces of the face value times the outward normal times
  the face length, where the face value is an inverse-distance weighted average of the two
  cell values straddling the face (or cell and ghost at boundary faces)"; distances are
  taken from the cell centres to the face midpoint.  Its body is not among the covered
  sources.\<close>

definition spec_GreenGauss :: "UMesh2dh \<Rightarrow> Array2d \<Rightarrow> Array2d \<Rightarrow> Array2d \<Rightarrow> GradArray" where
  "spec_GreenGauss msh rcs u ug =
     (\<lambda>c j i.
        (\<Sum>f\<leftarrow>[0..<gnaface msh].
           let lelem = gintfac msh f 0;
               relem = gintfac msh f 1;
               mid = (\<lambda>d. (gcoords msh (gintfac msh f 2) d + gcoords msh (gintfac msh f 3) d) / 2);
               dist = (\<lambda>cell. sqrt ((mid 0 - rcs cell 0)\<^sup>2 + (mid 1 - rcs cell 1)\<^sup>2));
               wl = 1 / dist lelem;
               wr = 1 / dist relem;
               ur = (if f < gnbface msh then ug f i else u relem i);
               phi = (wl * u lelem i + wr * ur) / (wl + wr)
           in (if lelem = c then phi * gfacemetric msh f j * gfacemetric msh f 2 else 0)
              - (if relem = c then phi * gfacemetric msh f j * gfacemetric msh f 2 else 0))
        / garea msh c)"

text \<open>Modelled from the spec: unlimited linear reconstruction, "the left face value is the
  left cell value plus the left cell gradient times (face point - left cell centre);
  symmetric on the right side" (the right values of interior faces; the engine sets those
  of boundary faces).  Its body is not among the covered sources.\<close>

definition spec_LinearUnlimited ::
  "UMesh2dh \<Rightarrow> Array2d \<Rightarrow> GaussPoints \<Rightarrow> Array2d \<Rightarrow> Array2d \<Rightarrow> GradArray \<Rightarrow> Array2d \<Rightarrow> Array2d
     \<Rightarrow> Array2d \<times> Array2d" where
  "spec_LinearUnlimited msh rcs grs u ug grads uleft uright =
     (let face_value = (\<lambda>cell f i.
            u cell i + fold (\<lambda>j s. s + grads cell j i * (grs f 0 j - rcs cell j)) [0..<NDIM] 0)
      in (assign_range 0 (gnaface msh) (\<lambda>f. face_value (gintfac msh f 0) f) uleft,
          assign_range (gnbface msh) (gnaface msh) (\<lambda>f. face_value (gintfac msh f 1) f) uright))"

text \<open>Collaborators with these models in place of the unknown ones.\<close>

definition with_spec_models :: "Externs \<Rightarrow> Externs" where
  "with_spec_models X =
     X \<lparr> getPrimitiveFromConserved := spec_getPrimitiveFromConserved,
         getConservedFromPrimitive := spec_getConservedFromPrimitive,
         compute_gradients :=
           (\<lambda>gs. case gs of
                    GreenGaussGradients msh rcs \<Rightarrow> spec_GreenGauss msh rcs
                  | ZeroGradients msh rcs \<Rightarrow> (\<lambda>u ug c j i. 0)
                  | WeightedLeastSquaresGradients msh rcs \<Rightarrow> compute_gradients X gs),
         compute_face_values :=
           (\<lambda>r. case r of
                   LinearUnlimitedReconstruction msh rcs grs \<Rightarrow> spec_LinearUnlimited msh rcs grs
                 | _ \<Rightarrow> compute_face_values X r) \<rparr>"

section \<open>A small mesh and engine\<close>

text \<open>
  Two quadrilateral cells side by side, cell 0 on \<open>[0,1] \<times> [0,1]\<close> and cell 1 on
  \<open>[1,3] \<times> [0,1]\<close>.  Boundary faces come first: face 0 (\<open>x = 0\<close>) and face 1 (\<open>x = 3\<close>) carry
  the periodic marker 4 and are paired with each other, faces 2 and 3 (\<open>y = 0\<close>) carry marker
  2, faces 4 and 5 (\<open>y = 1\<close>) carry marker 3; face 6 (\<open>x = 1\<close>) is the interior face.  The right
  cell of boundary face \<open>f\<close> is the ghost index \<open>2 + f\<close>.
\<close>

definition strip_mesh :: UMesh2dh where
  "strip_mesh =
     \<lparr> gnelem = 2, gnbface = 6, gnaface = 7,
       gnnode = (\<lambda>c. 4),
       gnnofa = 2,
       gcoords = (\<lambda>p d. [[0, 0], [1, 0], [3, 0], [0, 1], [1, 1], [3, 1]] ! p ! d),
       ginpoel = (\<lambda>c i. [[0, 1, 4, 3], [1, 2, 5, 4]] ! c ! i),
       gintfac = (\<lambda>f k. [[0, 2, 3, 0], [1, 3, 2, 5], [0, 4, 0, 1], [1, 5, 1, 2],
                          [1, 6, 5, 4], [0, 7, 4, 3], [0, 1, 1, 4]] ! f ! k),
       gintfacbtags = (\<lambda>f k. [4, 4, 2, 2, 3, 3] ! f),
       gfacemetric = (\<lambda>f k. [[- 1, 0, 1], [1, 0, 1], [0, - 1, 1], [0, - 1, 2],
                              [0, 1, 2], [0, 1, 1], [1, 0, 1]] ! f ! k),
       gnormal = (\<lambda>f k. [[- 1, 0], [1, 0], [0, - 1], [0, - 1],
                          [0, 1], [0, 1], [1, 0]] ! f ! k),
       garea = (\<lambda>c. [1, 2] ! c),
       gperiodicmap = (\<lambda>f. [1, 0] ! f) \<rparr>"

definition strip_physics :: IdealGasPhysics where
  "strip_physics = IdealGasPhysics (7 / 5) (1 / 2) 288 1000 (18 / 25)"

definition strip_pconfig :: "bool \<Rightarrow> FlowPhysicsConfig" where
  "strip_pconfig visc =
     \<lparr> gamma = 7 / 5, Minf = 1 / 2, Tinf = 288, Reinf = 1000, Pr_conf = 18 / 25, aoa = 0,
       viscous_sim = visc, const_visc = True,
       bcconf = \<lparr> farfield_id = 3, inflowoutflow_id = 5, slipwall_id = 2,
                  extrapolation_id = 6, periodic_id = 4, isothermalwall_id = 7,
                  adiabaticwall_id = 8, adiabaticwall_vel = 0 \<rparr> \<rparr>"

definition strip_nconfig :: "bool \<Rightarrow> FlowNumericsConfig" where
  "strip_nconfig so =
     \<lparr> conv_numflux = ''LLF'', conv_numflux_jac = ''LLF'', gradientscheme = ''GREENGAUSS'',
       reconstruction = ''NONE'', limiter_param = 0, order2 = so \<rparr>"

text \<open>The free stream at angle of attack 0: density 1, speed \<open>Minf\<close>, pressure \<open>1/gamma\<close>.\<close>

definition strip_uinf :: vec where
  "strip_uinf = (\<lambda>i. [1, 1 / 2, 0, 107 / 56] ! i)"

text \<open>The engine on this mesh, as its constructor leaves it when the registry holds a
  boundary condition for each of the markers 2, 3 and 4.\<close>

definition strip_engine :: "bool \<Rightarrow> bool \<Rightarrow> FlowFV" where
  "strip_engine so visc =
     \<lparr> m = strip_mesh,
       rc = Spatial_rc strip_mesh (\<lambda>i j. 0) (\<lambda>i j. 0),
       gr = Spatial_gr strip_mesh (\<lambda>f i j. 0),
       pconfig = strip_pconfig visc,
       nconfig = strip_nconfig so,
       physics = strip_physics,
       uinf = strip_uinf,
       inviflux = snd (create_const_inviscidflux ''LLF'' strip_physics),
       jflux = snd (create_const_inviscidflux ''LLF'' strip_physics),
       gradcomp = snd (create_const_gradientscheme ''GREENGAUSS'' strip_mesh
                         (Spatial_rc strip_mesh (\<lambda>i j. 0) (\<lambda>i j. 0))),
       lim_recon = snd (create_const_reconstruction ''NONE'' strip_mesh
                          (Spatial_rc strip_mesh (\<lambda>i j. 0) (\<lambda>i j. 0))
                          (Spatial_gr strip_mesh (\<lambda>f i j. 0)) 0),
       bcs = [2 \<mapsto> Slipwall 2 strip_physics,
              3 \<mapsto> Farfield 3 strip_physics strip_uinf,
              4 \<mapsto> Extrapolation 4 strip_physics],
       secondOrderRequested = so,
       constVisc = True \<rparr>"

text \<open>A uniform free-stream state on the two-cell mesh.\<close>

definition strip_uarr :: vec where
  "strip_uarr = (\<lambda>k. strip_uinf (k mod NVARS))"

text \<open>Density 1 in cell 0 and 2 in cell 1, at rest, pressure 1.\<close>

definition strip_step :: vec where
  "strip_step = (\<lambda>k. [1, 0, 0, 5 / 2, 2, 0, 0, 5 / 2] ! k)"


section \<open>The factories on unrecognised names\<close>

text \<open>
  Claim C10.  For every gradient-scheme name other than "LEASTSQUARES" and "GREENGAUSS"
  (a misspelling, any unrecognised string) the gradient-scheme factory constructs and
  returns the \<open>ZeroGradients\<close> scheme on the given mesh and cell centres; the only line it
  writes is the informational "No gradient computation", and no error is reported (the
  result is always a scheme).
\<close>

theorem gradientscheme_factory_default:
  "type \<noteq> ''LEASTSQUARES'' \<Longrightarrow> type \<noteq> ''GREENGAUSS'' \<Longrightarrow>
     create_mutable_gradientscheme type msh rcs =
       ('' GradientSchemeFactory: No gradient computation.'', ZeroGradients msh rcs)
     \<and> create_const_gradientscheme type msh rcs = create_mutable_gradientscheme type msh rcs"
  by (simp add: create_mutable_gradientscheme_def create_const_gradientscheme_def)

theorem gradientscheme_factory_default_witness:
  "''LEASTSQUARE'' \<noteq> ''LEASTSQUARES'' \<and> ''LEASTSQUARE'' \<noteq> ''GREENGAUSS'' \<and>
   create_mutable_gradientscheme ''LEASTSQUARE'' strip_mesh (\<lambda>i j. 0) =
       ('' GradientSchemeFactory: No gradient computation.'', ZeroGradients strip_mesh (\<lambda>i j. 0))
     \<and> create_const_gradientscheme ''LEASTSQUARE'' strip_mesh (\<lambda>i j. 0) =
         create_mutable_gradientscheme ''LEASTSQUARE'' strip_mesh (\<lambda>i j. 0)"
  using gradientscheme_factory_default [of "''LEASTSQUARE''" strip_mesh "\<lambda>i j. 0"] by simp

text \<open>
  Claim C7, as stated: configuring the engine with an inviscid flux name outside the
  recognised set fails with a configuration error.  It does not: on the name "FOO" the
  factory returns normally, with one line on standard output and a null pointer.
\<close>

theorem inviscidflux_factory_unknown_counterexample:
  "create_mutable_inviscidflux ''FOO'' strip_physics =
     ('' InviscidFluxFactory: ! Flux scheme not available!'', None)"
  by (simp add: create_mutable_inviscidflux_def)

text \<open>
  Claim C7, amended.  For every name other than the seven strings the factory compares
  with ("VANLEER", "ROE", "HLL", "HLLC", "LLF", "AUSM", "AUSMPLUS"), the inviscid-flux
  factory writes the line "Flux scheme not available" and returns a null pointer; no error
  is raised.  The engine's constructor stores that pointer as it is: the engine is
  constructed, with a null residual flux when the name was given for the residual flux and
  a null Jacobian flux when it was given for the Jacobian flux.
\<close>

theorem inviscidflux_factory_unknown:
  assumes "type \<notin> {''VANLEER'', ''ROE'', ''HLL'', ''HLLC'', ''LLF'', ''AUSM'', ''AUSMPLUS''}"
  shows "create_mutable_inviscidflux type p =
           ('' InviscidFluxFactory: ! Flux scheme not available!'', None)
       \<and> inviflux (FlowFV_ctor X so cv msh pconf (nconf \<lparr> conv_numflux := type \<rparr>)
                     rc0 rchg0 gr0) = None
       \<and> jflux (FlowFV_ctor X so cv msh pconf (nconf \<lparr> conv_numflux_jac := type \<rparr>)
                  rc0 rchg0 gr0) = None"
  using assms
  by (simp add: create_mutable_inviscidflux_def create_const_inviscidflux_def
        FlowFV_ctor_def Let_def)

theorem inviscidflux_factory_unknown_witness:
  "\<forall>X. ''VanLeer'' \<notin> {''VANLEER'', ''ROE'', ''HLL'', ''HLLC'', ''LLF'', ''AUSM'', ''AUSMPLUS''}
     \<and> create_mutable_inviscidflux ''VanLeer'' strip_physics =
           ('' InviscidFluxFactory: ! Flux scheme not available!'', None)
     \<and> inviflux (FlowFV_ctor X False True strip_mesh (strip_pconfig False)
                    ((strip_nconfig False) \<lparr> conv_numflux := ''VanLeer'' \<rparr>)
                    (\<lambda>i j. 0) (\<lambda>i j. 0) (\<lambda>f i j. 0)) = None
     \<and> jflux (FlowFV_ctor X False True strip_mesh (strip_pconfig False)
                 ((strip_nconfig False) \<lparr> conv_numflux_jac := ''VanLeer'' \<rparr>)
                 (\<lambda>i j. 0) (\<lambda>i j. 0) (\<lambda>f i j. 0)) = None"
  using inviscidflux_factory_unknown [of "''VanLeer''"] by simp

section \<open>Loops in closed form\<close>

lemma for_each_pure:
  "(\<And>s i. i \<in> set is \<Longrightarrow> step s i = Inr (f s i)) \<Longrightarrow>
     for_each step is s = Inr (fold (\<lambda>i s. f s i) is s)"
  by (induction "is" arbitrary: s) auto

lemma for_each_Inr_step:
  "for_each step is s = Inr s' \<Longrightarrow> i \<in> set is \<Longrightarrow> \<exists>t t'. step t i = Inr t'"
proof (induction "is" arbitrary: s)
  case Nil
  then show ?case by simp
next
  case (Cons a as)
  then show ?case
    by (cases "step s a") (auto split: sum.splits)
qed

lemma fold_assign_upt:
  "lo \<le> hi \<Longrightarrow> fold (\<lambda>i a. a (i := b i)) [lo..<hi] a = assign_range lo hi b a"
proof (induction hi)
  case 0
  then show ?case by (simp add: assign_range_def)
next
  case (Suc hi)
  show ?case
  proof (cases "lo = Suc hi")
    case True
    then show ?thesis by (auto simp: assign_range_def fun_eq_iff)
  next
    case False
    with Suc.prems have le: "lo \<le> hi" by simp
    have IH: "fold (\<lambda>i a. a (i := b i)) [lo..<hi] a = assign_range lo hi b a"
      using le Suc.IH by blast
    have "fold (\<lambda>i a. a (i := b i)) [lo..<Suc hi] a
            = (assign_range lo hi b a) (hi := b hi)"
      by (simp only: upt_Suc_append [OF le] fold_append o_apply IH fold.simps id_apply)
    also have "\<dots> = assign_range lo (Suc hi) b a"
      using le by (auto simp: assign_range_def fun_eq_iff)
    finally show ?thesis .
  qed
qed

lemma boundary_states_step_registered:
  "bcs eng (gintfacbtags (m eng) ied 0) \<noteq> None \<Longrightarrow>
     boundary_states_step X eng ins bs ied = Inr (bs (ied := ghost_row X eng ins ied))"
  by (auto simp: boundary_states_step_def compute_boundary_state_def ghost_row_def Let_def)

lemma compute_boundary_states_registered:
  assumes "bc_registered eng"
  shows "compute_boundary_states X eng ins bs =
           Inr (assign_range 0 (gnbface (m eng)) (ghost_row X eng ins) bs)"
proof -
  have "for_each (boundary_states_step X eng ins) [0..<gnbface (m eng)] bs =
          Inr (fold (\<lambda>i s. s (i := ghost_row X eng ins i)) [0..<gnbface (m eng)] bs)"
    using assms
    by (intro for_each_pure boundary_states_step_registered)
       (auto simp: bc_registered_def list_all_iff)
  then show ?thesis
    by (simp add: compute_boundary_states_def fold_assign_upt)
qed

lemma compute_boundary_states_returns:
  assumes "compute_boundary_states X eng ins bs = Inr bs'"
  shows "bc_registered eng"
  unfolding bc_registered_def list_all_iff
proof
  fix ied assume "ied \<in> set [0..<gnbface (m eng)]"
  from for_each_Inr_step [OF assms [unfolded compute_boundary_states_def] this]
  obtain t t' where "boundary_states_step X eng ins t ied = Inr t'" by blast
  then show "bcs eng (gintfacbtags (m eng) ied 0) \<noteq> None"
    by (auto simp: boundary_states_step_def compute_boundary_state_def Let_def
             split: option.splits sum.splits)
qed

section \<open>The modified-average face gradient\<close>

lemma upt_NDIM: "[0..<NDIM] = [0, 1]"
  by (simp add: NDIM_def upt_rec)

lemma upt_NVARS: "[0..<NVARS] = [0, 1, 2, 3]"
  by (simp add: NVARS_def upt_rec)

lemma centre_dist_eq:
  "centre_dist eng iface =
     sqrt ((rc eng (gintfac (m eng) iface 1) 0 - rc eng (gintfac (m eng) iface 0) 0)\<^sup>2
           + (rc eng (gintfac (m eng) iface 1) 1 - rc eng (gintfac (m eng) iface 0) 1)\<^sup>2)"
  by (simp add: centre_dist_def Let_def upt_NDIM power2_eq_square)

lemma centre_dist_pos:
  assumes "\<exists>k<NDIM. rc eng (gintfac (m eng) iface 1) k \<noteq> rc eng (gintfac (m eng) iface 0) k"
  shows "0 < centre_dist eng iface"
proof -
  from assms obtain k where k: "k < 2"
    and ne: "rc eng (gintfac (m eng) iface 1) k \<noteq> rc eng (gintfac (m eng) iface 0) k"
    by (auto simp: NDIM_def)
  from k have "k = 0 \<or> k = 1" by auto
  with ne have "0 < (rc eng (gintfac (m eng) iface 1) 0 - rc eng (gintfac (m eng) iface 0) 0)\<^sup>2
           + (rc eng (gintfac (m eng) iface 1) 1 - rc eng (gintfac (m eng) iface 0) 1)\<^sup>2"
    by (auto simp: sum_power2_gt_zero_iff)
  then show ?thesis by (simp add: centre_dist_eq)
qed

text \<open>Geometry of the two-cell mesh.\<close>

lemma strip_mesh_simps:
  "gnelem strip_mesh = 2" "gnbface strip_mesh = 6" "gnaface strip_mesh = 7"
  "gnnode strip_mesh c = 4" "gnnofa strip_mesh = 2"
  by (simp_all add: strip_mesh_def)

lemma strip_gintfac:
  "gintfac strip_mesh f k = [[0, 2, 3, 0], [1, 3, 2, 5], [0, 4, 0, 1], [1, 5, 1, 2],
                          [1, 6, 5, 4], [0, 7, 4, 3], [0, 1, 1, 4]] ! f ! k"
  by (simp add: strip_mesh_def)

lemma strip_engine_sel:
  "m (strip_engine so visc) = strip_mesh"
  "rc (strip_engine so visc) = Spatial_rc strip_mesh (\<lambda>i j. 0) (\<lambda>i j. 0)"
  "physics (strip_engine so visc) = strip_physics"
  "pconfig (strip_engine so visc) = strip_pconfig visc"
  "secondOrderRequested (strip_engine so visc) = so"
  "constVisc (strip_engine so visc) = True"
  by (simp_all add: strip_engine_def)

lemma upt_6: "[0..<6] = [0, 1, 2, 3, 4, 5]"
  by (simp add: upt_rec)

lemma upt_4: "[0..<4] = [0, 1, 2, 3]"
  by (simp add: upt_rec)

lemma strip_rc:
  "Spatial_rc strip_mesh (\<lambda>i j. 0) (\<lambda>i j. 0) 0 0 = 1 / 2"
  "Spatial_rc strip_mesh (\<lambda>i j. 0) (\<lambda>i j. 0) 0 (Suc 0) = 1 / 2"
  "Spatial_rc strip_mesh (\<lambda>i j. 0) (\<lambda>i j. 0) (Suc 0) 0 = 2"
  "Spatial_rc strip_mesh (\<lambda>i j. 0) (\<lambda>i j. 0) (Suc 0) (Suc 0) = 1 / 2"
  "Spatial_rc strip_mesh (\<lambda>i j. 0) (\<lambda>i j. 0) 3 0 = 4"
  "Spatial_rc strip_mesh (\<lambda>i j. 0) (\<lambda>i j. 0) 3 (Suc 0) = 1 / 2"
  by (simp_all add: Spatial_rc_def compute_ghost_cell_coords_about_midpoint_def Let_def
        strip_mesh_def assign_range_def NDIM_def upt_6 upt_4)

lemma sqrt_9_4: "sqrt (9 / 4) = 3 / 2"
  by (rule real_sqrt_unique) (simp_all add: power2_eq_square)

lemma strip_centre6:
  "centre_dist (strip_engine so visc) 6 = 3 / 2"
  "centre_dir (strip_engine so visc) 6 0 = 1"
  "centre_dir (strip_engine so visc) 6 (Suc 0) = 0"
  by (simp_all add: centre_dir_def centre_dist_eq strip_engine_sel strip_gintfac strip_rc
        power2_eq_square sqrt_9_4)

text \<open>
  Claim C6.  For a face whose two cell centres differ, with \<open>d\<close> the distance of the centres
  and \<open>e\<close> the vector from the left to the right centre divided by \<open>d\<close> (a unit vector), the
  face gradient \<^verbatim>\<open>getFaceGradient_modifiedAverage\<close> returns for variable \<open>i\<close> in direction \<open>j\<close>
  is the mean of the two cell gradients, minus its component along \<open>e\<close> times \<open>e\<^sub>j\<close>, plus
  the difference quotient \<open>(\<phi>\<^sub>R - \<phi>\<^sub>L) / d\<close> times \<open>e\<^sub>j\<close>.
\<close>

theorem modified_average_gradient:
  assumes "\<exists>k<NDIM. rc eng (gintfac (m eng) iface 1) k \<noteq> rc eng (gintfac (m eng) iface 0) k"
  shows "getFaceGradient_modifiedAverage eng iface ucl ucr gradl gradr j i =
           (gradl j i + gradr j i) / 2
           - ((gradl 0 i + gradr 0 i) / 2 * centre_dir eng iface 0
              + (gradl 1 i + gradr 1 i) / 2 * centre_dir eng iface 1) * centre_dir eng iface j
           + (ucr i - ucl i) / centre_dist eng iface * centre_dir eng iface j
         \<and> centre_dir eng iface j =
             (rc eng (gintfac (m eng) iface 1) j - rc eng (gintfac (m eng) iface 0) j)
               / centre_dist eng iface
         \<and> centre_dist eng iface =
             sqrt ((rc eng (gintfac (m eng) iface 1) 0 - rc eng (gintfac (m eng) iface 0) 0)\<^sup>2
                   + (rc eng (gintfac (m eng) iface 1) 1 - rc eng (gintfac (m eng) iface 0) 1)\<^sup>2)
         \<and> 0 < centre_dist eng iface
         \<and> (centre_dir eng iface 0)\<^sup>2 + (centre_dir eng iface 1)\<^sup>2 = 1"
proof -
  let ?dx = "rc eng (gintfac (m eng) iface 1) 0 - rc eng (gintfac (m eng) iface 0) 0"
  let ?dy = "rc eng (gintfac (m eng) iface 1) 1 - rc eng (gintfac (m eng) iface 0) 1"
  have pos: "0 < centre_dist eng iface" by (rule centre_dist_pos [OF assms])
  have sq: "(centre_dist eng iface)\<^sup>2 = ?dx\<^sup>2 + ?dy\<^sup>2"
    by (simp add: centre_dist_eq)
  have dir: "centre_dir eng iface k =
      (rc eng (gintfac (m eng) iface 1) k - rc eng (gintfac (m eng) iface 0) k)
        / centre_dist eng iface" for k
    by (simp add: centre_dir_def Let_def)
  have unit: "(centre_dir eng iface 0)\<^sup>2 + (centre_dir eng iface 1)\<^sup>2 = 1"
  proof -
    have "(centre_dir eng iface 0)\<^sup>2 + (centre_dir eng iface 1)\<^sup>2
            = (?dx\<^sup>2 + ?dy\<^sup>2) / (centre_dist eng iface)\<^sup>2"
      by (simp add: dir power_divide add_divide_distrib)
    also have "\<dots> = (centre_dist eng iface)\<^sup>2 / (centre_dist eng iface)\<^sup>2"
      by (simp only: sq)
    also have "\<dots> = 1" using pos by simp
    finally show ?thesis .
  qed
  have formula: "getFaceGradient_modifiedAverage eng iface ucl ucr gradl gradr j i =
           (gradl j i + gradr j i) / 2
           - ((gradl 0 i + gradr 0 i) / 2 * centre_dir eng iface 0
              + (gradl 1 i + gradr 1 i) / 2 * centre_dir eng iface 1) * centre_dir eng iface j
           + (ucr i - ucl i) / centre_dist eng iface * centre_dir eng iface j"
    by (simp add: getFaceGradient_modifiedAverage_def Let_def dimDotProduct_def upt_NDIM)
  show ?thesis
    using formula dir [of j] centre_dist_eq [of eng iface] pos unit by blast
qed

theorem modified_average_gradient_witness:
  "(\<exists>k<NDIM. rc (strip_engine True True) (gintfac (m (strip_engine True True)) 6 1) k
               \<noteq> rc (strip_engine True True) (gintfac (m (strip_engine True True)) 6 0) k)
   \<and> getFaceGradient_modifiedAverage (strip_engine True True) 6
        (\<lambda>i. 1) (\<lambda>i. 2) (\<lambda>j i. 0) (\<lambda>j i. 1) 0 0 = 2 / 3"
proof -
  have h: "\<exists>k<NDIM. rc (strip_engine True True) (gintfac (m (strip_engine True True)) 6 1) k
               \<noteq> rc (strip_engine True True) (gintfac (m (strip_engine True True)) 6 0) k"
    by (rule exI [of _ 0]) (simp add: NDIM_def strip_engine_sel strip_gintfac strip_rc)
  from modified_average_gradient [OF h, of "\<lambda>i. 1" "\<lambda>i. 2" "\<lambda>j i. 0" "\<lambda>j i. 1" 0 0]
  have "getFaceGradient_modifiedAverage (strip_engine True True) 6
        (\<lambda>i. 1) (\<lambda>i. 2) (\<lambda>j i. 0) (\<lambda>j i. 1) 0 0 = 2 / 3"
    by (simp add: strip_centre6)
  with h show ?thesis by (rule conjI)
qed

section \<open>Jacobian blocks\<close>

lemma NVARS_divmod:
  "k < NVARS \<Longrightarrow> (i * NVARS + k) div NVARS = i"
  "k < NVARS \<Longrightarrow> (i * NVARS + k) mod NVARS = k"
  by (simp_all add: NVARS_def)

lemma raw_entry: "raw M ((r mod NVARS) * NVARS + c mod NVARS) = M (r mod NVARS) (c mod NVARS)"
  by (simp add: raw_def NVARS_def)

lemma block_of_raw: "k < NVARS \<Longrightarrow> block_of (raw M) i k = M i k"
  by (simp add: raw_def block_of_def NVARS_divmod)

lemma raw_block_of: "raw (block_of a) = a"
  by (simp add: raw_def block_of_def fun_eq_iff)

lemma MatSetValuesBlocked_ADD_entry:
  "MatSetValuesBlocked_ADD A brow bcol (raw M) r c =
     A r c + (if r div NVARS = brow \<and> c div NVARS = bcol
              then M (r mod NVARS) (c mod NVARS) else 0)"
  by (simp add: MatSetValuesBlocked_ADD_def raw_entry)

lemma block_mult_entry: "block_mult A B i k = (\<Sum>j<NVARS. A i j * B j k)"
  by (simp add: block_mult_def upt_NVARS NVARS_def lessThan_Suc numeral_eq_Suc)

lemma strip_bcs:
  "bcs (strip_engine so visc) 2 = Some (Slipwall 2 strip_physics)"
  "bcs (strip_engine so visc) 3 = Some (Farfield 3 strip_physics strip_uinf)"
  "bcs (strip_engine so visc) 4 = Some (Extrapolation 4 strip_physics)"
  by (simp_all add: strip_engine_def)

lemma strip_tags:
  "gintfacbtags strip_mesh f k = [4, 4, 2, 2, 3, 3] ! f"
  by (simp add: strip_mesh_def)

lemma strip_fluxes:
  "inviflux (strip_engine so visc) = Some (LocalLaxFriedrichsFlux strip_physics)"
  "jflux (strip_engine so visc) = Some (LocalLaxFriedrichsFlux strip_physics)"
  "lim_recon (strip_engine so visc) =
     Some (LinearUnlimitedReconstruction strip_mesh
             (Spatial_rc strip_mesh (\<lambda>i j. 0) (\<lambda>i j. 0)) (Spatial_gr strip_mesh (\<lambda>f i j. 0)))"
  by (simp_all add: strip_engine_def create_const_inviscidflux_def
        create_mutable_inviscidflux_def create_const_reconstruction_def
        create_mutable_reconstruction_def)

section \<open>Surface coefficients\<close>

lemma fold_if_filter:
  "fold (\<lambda>x s. if P x then h x s else s) xs s = fold h (filter P xs) s"
  by (induction xs arbitrary: s) auto

lemma flowDirectionVector_simps:
  "flowDirectionVector a 0 = cos a" "flowDirectionVector a (Suc 0) = sin a"
  by (simp_all add: flowDirectionVector_def)

lemma surface_face_simps:
  "facecoun (surface_face X eng u grad f acc) = facecoun acc + 1"
  "totallen (surface_face X eng u grad f acc) = totallen acc + gfacemetric (m eng) f 2"
  "k \<noteq> facecoun acc \<Longrightarrow> outp (surface_face X eng u grad f acc) k = outp acc k"
  "outp (surface_face X eng u grad f acc) (facecoun acc) NDIM =
     2 * (getPressureFromConserved X (physics eng) (u (gintfac (m eng) f 0))
          - getFreestreamPressure X (physics eng))"
  "Cl (surface_face X eng u grad f acc) =
     Cl acc + outp (surface_face X eng u grad f acc) (facecoun acc) NDIM
       * (gfacemetric (m eng) f 0 * (- sin (aoa (pconfig eng)))
          + gfacemetric (m eng) f 1 * cos (aoa (pconfig eng)))
       * gfacemetric (m eng) f 2"
  "Cdp (surface_face X eng u grad f acc) =
     Cdp acc + outp (surface_face X eng u grad f acc) (facecoun acc) NDIM
       * (gfacemetric (m eng) f 0 * cos (aoa (pconfig eng))
          + gfacemetric (m eng) f 1 * sin (aoa (pconfig eng)))
       * gfacemetric (m eng) f 2"
  "Cdf (surface_face X eng u grad f acc) =
     Cdf acc + outp (surface_face X eng u grad f acc) (facecoun acc) (NDIM + 1)
       * (gfacemetric (m eng) f 1 * cos (aoa (pconfig eng))
          - gfacemetric (m eng) f 0 * sin (aoa (pconfig eng)))
       * gfacemetric (m eng) f 2"
  by (simp_all add: surface_face_def Let_def assign_range_def NDIM_def
        flowDirectionVector_simps)

lemma surface_fold_invariant:
  fixes fs :: "nat list"
  defines "acc0 \<equiv> \<lambda>o0. \<lparr> facecoun = 0, totallen = 0, Cdf = 0, Cdp = 0, Cl = 0, outp = o0 \<rparr>"
  shows "let acc = fold (surface_face X eng u grad) fs (acc0 o0);
             a = aoa (pconfig eng);
             n = (\<lambda>f j. gfacemetric (m eng) f j);
             len = (\<lambda>f. gfacemetric (m eng) f 2)
         in facecoun acc = length fs
          \<and> totallen acc = (\<Sum>k<length fs. len (fs ! k))
          \<and> (\<forall>k<length fs. outp acc k NDIM =
                2 * (getPressureFromConserved X (physics eng) (u (gintfac (m eng) (fs ! k) 0))
                     - getFreestreamPressure X (physics eng)))
          \<and> Cl acc = (\<Sum>k<length fs. outp acc k NDIM
                         * (n (fs ! k) 0 * (- sin a) + n (fs ! k) 1 * cos a) * len (fs ! k))
          \<and> Cdp acc = (\<Sum>k<length fs. outp acc k NDIM
                         * (n (fs ! k) 0 * cos a + n (fs ! k) 1 * sin a) * len (fs ! k))
          \<and> Cdf acc = (\<Sum>k<length fs. outp acc k (NDIM + 1)
                         * (n (fs ! k) 1 * cos a - n (fs ! k) 0 * sin a) * len (fs ! k))"
proof (induction fs rule: rev_induct)
  case Nil
  then show ?case by (simp add: acc0_def)
next
  case (snoc f fs)
  define acc where "acc = fold (surface_face X eng u grad) fs (acc0 o0)"
  define acc' where "acc' = surface_face X eng u grad f acc"
  have fold': "fold (surface_face X eng u grad) (fs @ [f]) (acc0 o0) = acc'"
    by (simp add: acc'_def acc_def)
  from snoc have fc: "facecoun acc = length fs"
    by (simp add: Let_def acc_def)
  have old: "outp acc' k = outp acc k" if "k < length fs" for k
    using that fc by (simp add: acc'_def surface_face_simps)
  note sf = surface_face_simps [where X=X and eng=eng and u=u and grad=grad and f=f and acc=acc,
      unfolded fc, folded acc'_def]
  have new_len: "length (fs @ [f]) = Suc (length fs)" by simp
  show ?case
    unfolding Let_def fold' new_len
    using snoc [unfolded Let_def, folded acc_def]
    by (simp add: sf old nth_append less_Suc_eq all_conj_distrib)
qed

text \<open>
  Claim C8.  Let \<open>fs\<close> be the boundary faces carrying the requested marker, in increasing
  order; \<^verbatim>\<open>computeSurfaceData\<close> writes its output for the \<open>k\<close>-th of them to row \<open>k\<close>.  The
  pressure coefficient it writes there (column \<^verbatim>\<open>NDIM\<close>) is \<open>2 (p - p\<^sub>\<infinity>)\<close> with \<open>p\<close> the pressure
  of the state of the face's left cell.  The returned \<open>Cl\<close> is the sum over these faces of
  pressure coefficient times (normal dot the direction perpendicular to the free stream) times
  face length, \<open>Cdp\<close> the sum of pressure coefficient times (normal dot free-stream
  direction) times face length, \<open>Cdf\<close> the sum of skin-friction coefficient (column
  \<^verbatim>\<open>NDIM+1\<close>) times (tangent dot free-stream direction) times face length, each divided by
  the sum of the lengths of these faces.  (The quotient is taken as the code takes it; when
  no face carries the marker the divisor is zero.)
\<close>

theorem surface_coefficients:
  assumes "computeSurfaceData X eng u grad iwbcm output0 = ((cl, cdp, cdf), out)"
  shows "let fs = filter (\<lambda>f. gintfacbtags (m eng) f 0 = iwbcm) [0..<gnbface (m eng)];
             a = aoa (pconfig eng);
             n = (\<lambda>f j. gfacemetric (m eng) f j);
             len = (\<lambda>f. gfacemetric (m eng) f 2);
             total = (\<Sum>k<length fs. len (fs ! k))
         in (\<forall>k<length fs. out k NDIM =
                2 * (getPressureFromConserved X (physics eng) (u (gintfac (m eng) (fs ! k) 0))
                     - getFreestreamPressure X (physics eng)))
          \<and> cl = (\<Sum>k<length fs. out k NDIM
                      * (n (fs ! k) 0 * (- sin a) + n (fs ! k) 1 * cos a) * len (fs ! k)) / total
          \<and> cdp = (\<Sum>k<length fs. out k NDIM
                      * (n (fs ! k) 0 * cos a + n (fs ! k) 1 * sin a) * len (fs ! k)) / total
          \<and> cdf = (\<Sum>k<length fs. out k (NDIM + 1)
                      * (n (fs ! k) 1 * cos a - n (fs ! k) 0 * sin a) * len (fs ! k)) / total"
proof -
  define fs where "fs = filter (\<lambda>f. gintfacbtags (m eng) f 0 = iwbcm) [0..<gnbface (m eng)]"
  define acc where "acc = fold (surface_face X eng u grad) fs
      \<lparr> facecoun = 0, totallen = 0, Cdf = 0, Cdp = 0, Cl = 0, outp = output0 \<rparr>"
  have res: "computeSurfaceData X eng u grad iwbcm output0 =
      ((Cl acc / totallen acc, Cdp acc / totallen acc, Cdf acc / totallen acc), outp acc)"
    by (simp add: computeSurfaceData_def Let_def fold_if_filter acc_def fs_def)
  with assms have eqs: "cl = Cl acc / totallen acc" "cdp = Cdp acc / totallen acc"
    "cdf = Cdf acc / totallen acc" "out = outp acc"
    by simp_all
  from surface_fold_invariant [of X eng u grad fs output0]
  show ?thesis
    unfolding Let_def fs_def [symmetric] acc_def [symmetric] eqs
    by simp
qed

lemma strip_wall_faces:
  "filter (\<lambda>f. gintfacbtags strip_mesh f 0 = 2) [0..<gnbface strip_mesh] = [2, 3]"
  by (simp add: strip_tags strip_mesh_simps upt_6)

lemma strip_gfacemetric:
  "gfacemetric strip_mesh f k = [[- 1, 0, 1], [1, 0, 1], [0, - 1, 1], [0, - 1, 2],
                              [0, 1, 2], [0, 1, 1], [1, 0, 1]] ! f ! k"
  by (simp add: strip_mesh_def)

lemma strip_aoa: "aoa (strip_pconfig visc) = 0"
  by (simp add: strip_pconfig_def)

theorem surface_coefficients_witness:
  "\<forall>X. (let E = strip_engine False False;
             r = computeSurfaceData X E (block_of strip_uarr) (\<lambda>c j i. 0) 2 (\<lambda>k j. 0);
             out = snd r
         in computeSurfaceData X E (block_of strip_uarr) (\<lambda>c j i. 0) 2 (\<lambda>k j. 0) =
              ((fst (fst r), fst (snd (fst r)), snd (snd (fst r))), out)
          \<and> out 0 NDIM = 2 * (getPressureFromConserved X strip_physics (block_of strip_uarr 0)
                               - getFreestreamPressure X strip_physics)
          \<and> out 1 NDIM = 2 * (getPressureFromConserved X strip_physics (block_of strip_uarr 1)
                               - getFreestreamPressure X strip_physics)
          \<and> fst (fst r) = (- out 0 NDIM - 2 * out 1 NDIM) / 3
          \<and> fst (snd (fst r)) = 0
          \<and> snd (snd (fst r)) = (- out 0 (NDIM + 1) - 2 * out 1 (NDIM + 1)) / 3)"
proof (intro allI)
  fix X :: Externs
  define r where "r = computeSurfaceData X (strip_engine False False) (block_of strip_uarr)
                        (\<lambda>c j i. 0) 2 (\<lambda>k j. 0)"
  have h: "computeSurfaceData X (strip_engine False False) (block_of strip_uarr)
             (\<lambda>c j i. 0) 2 (\<lambda>k j. 0) =
           ((fst (fst r), fst (snd (fst r)), snd (snd (fst r))), snd r)"
    by (simp add: r_def)
  from surface_coefficients [OF h]
  show "let E = strip_engine False False;
             r = computeSurfaceData X E (block_of strip_uarr) (\<lambda>c j i. 0) 2 (\<lambda>k j. 0);
             out = snd r
         in computeSurfaceData X E (block_of strip_uarr) (\<lambda>c j i. 0) 2 (\<lambda>k j. 0) =
              ((fst (fst r), fst (snd (fst r)), snd (snd (fst r))), out)
          \<and> out 0 NDIM = 2 * (getPressureFromConserved X strip_physics (block_of strip_uarr 0)
                               - getFreestreamPressure X strip_physics)
          \<and> out 1 NDIM = 2 * (getPressureFromConserved X strip_physics (block_of strip_uarr 1)
                               - getFreestreamPressure X strip_physics)
          \<and> fst (fst r) = (- out 0 NDIM - 2 * out 1 NDIM) / 3
          \<and> fst (snd (fst r)) = 0
          \<and> snd (snd (fst r)) = (- out 0 (NDIM + 1) - 2 * out 1 (NDIM + 1)) / 3"
    unfolding Let_def r_def [symmetric]
    by (simp add: h strip_engine_sel strip_wall_faces strip_gintfac strip_gfacemetric strip_aoa
          lessThan_Suc numeral_2_eq_2 less_Suc_eq all_conj_distrib prod_eq_iff)
qed

section \<open>The face loop in closed form\<close>

lemma computeViscousFlux_returns:
  "computeViscousFlux X eng ied ucl (if ied < gnbface (m eng) then None else Some ucr)
      ug grads ul ur vf0 =
   Inr (projr (computeViscousFlux X eng ied ucl
                 (if ied < gnbface (m eng) then None else Some ucr) ug grads ul ur vf0))"
  by (auto simp: computeViscousFlux_def Let_def split: prod.splits)

lemma face_fluxes_returns:
  "face_fluxes X eng sc uarr ug grads uleft uright fl ied =
     Inr (projr (face_fluxes X eng sc uarr ug grads uleft uright fl ied))"
proof (cases "viscous_sim (pconfig eng)")
  case False
  then show ?thesis by (simp add: face_fluxes_def Let_def)
next
  case True
  obtain v where v: "computeViscousFlux X eng ied (block_of uarr (gintfac (m eng) ied 0))
      (if ied < gnbface (m eng) then None else Some (block_of uarr (gintfac (m eng) ied 1)))
      ug grads uleft uright (vflux0 sc) = Inr v"
    using computeViscousFlux_returns by blast
  show ?thesis
    using True v by (auto simp: face_fluxes_def Let_def split: if_splits)
qed

lemma residual_face_step_pure:
  assumes "inviflux eng \<noteq> None"
  shows "residual_face_step X eng sc uarr gts ug grads uleft uright s ied =
     Inr (add_face_flux (m eng) ied (face_flux X eng sc uarr ug grads uleft uright ied) (fst s),
          if gts
          then add_face_specrad (m eng) ied (face_specrad X eng uleft uright ied) (snd s)
          else snd s)"
proof -
  from assms obtain fl where fl: "inviflux eng = Some fl" by auto
  obtain v where v: "face_fluxes X eng sc uarr ug grads uleft uright fl ied = Inr v"
    using face_fluxes_returns by blast
  show ?thesis
    by (simp add: residual_face_step_def fl v face_flux_def)
qed

lemma residual_face_step_returns:
  assumes "residual_face_step X eng sc uarr gts ug grads uleft uright s ied = Inr s'"
  shows "inviflux eng \<noteq> None"
  using assms by (auto simp: residual_face_step_def split: option.splits)

lemma fold_pair:
  "fold (\<lambda>i s. (f i (fst s), h i (snd s))) xs (a, b) = (fold f xs a, fold h xs b)"
  by (induction xs arbitrary: a b) auto

lemma add_face_flux_entry:
  "add_face_flux msh f F R c i =
     R c i + (if i < NVARS
              then (if gintfac msh f 1 = c \<and> gintfac msh f 1 < gnelem msh then F i else 0)
                   - (if gintfac msh f 0 = c then F i else 0)
              else 0)"
  by (auto simp: add_face_flux_def Let_def assign_range_def)

lemma add_face_flux_fold:
  "fold (\<lambda>f. add_face_flux msh f (F f)) fs R c i =
     R c i + (if i < NVARS
              then (\<Sum>f\<leftarrow>fs. (if gintfac msh f 1 = c \<and> gintfac msh f 1 < gnelem msh
                                then F f i else 0)
                             - (if gintfac msh f 0 = c then F f i else 0))
              else 0)"
proof (induction fs arbitrary: R)
  case Nil
  then show ?case by simp
next
  case (Cons f fs)
  show ?case
    by (simp add: Cons.IH add_face_flux_entry [of msh f "F f" R c i])
qed

lemma add_face_specrad_entry:
  "add_face_specrad msh f S I c =
     I c + ((if gintfac msh f 0 = c then fst S else 0)
            + (if gintfac msh f 1 = c \<and> gintfac msh f 1 < gnelem msh then snd S else 0))"
  by (auto simp: add_face_specrad_def Let_def)

lemma add_face_specrad_fold:
  "fold (\<lambda>f. add_face_specrad msh f (S f)) fs I c =
     I c + (\<Sum>f\<leftarrow>fs. (if gintfac msh f 0 = c then fst (S f) else 0)
                      + (if gintfac msh f 1 = c \<and> gintfac msh f 1 < gnelem msh
                         then snd (S f) else 0))"
proof (induction fs arbitrary: I)
  case Nil
  then show ?case by simp
next
  case (Cons f fs)
  show ?case
    by (simp add: Cons.IH add_face_specrad_entry [of msh f "S f" I c])
qed

lemma face_loop_closed:
  assumes "inviflux eng \<noteq> None"
  shows "for_each (residual_face_step X eng sc uarr gts ug grads uleft uright) fs (R, I) =
      Inr (fold (\<lambda>f. add_face_flux (m eng) f (face_flux X eng sc uarr ug grads uleft uright f))
             fs R,
           if gts
           then fold (\<lambda>f. add_face_specrad (m eng) f (face_specrad X eng uleft uright f)) fs I
           else I)"
proof -
  have "for_each (residual_face_step X eng sc uarr gts ug grads uleft uright) fs (R, I) =
      Inr (fold (\<lambda>f s.
                   (add_face_flux (m eng) f (face_flux X eng sc uarr ug grads uleft uright f)
                      (fst s),
                    if gts
                    then add_face_specrad (m eng) f (face_specrad X eng uleft uright f) (snd s)
                    else snd s))
             fs (R, I))"
    by (rule for_each_pure) (rule residual_face_step_pure [OF assms])
  moreover have "fold (\<lambda>f (x :: vec). x) fs I = I"
    by (induction fs) auto
  ultimately show ?thesis
    using fold_pair [of "\<lambda>f. add_face_flux (m eng) f
                           (face_flux X eng sc uarr ug grads uleft uright f)"
                        "\<lambda>f. add_face_specrad (m eng) f (face_specrad X eng uleft uright f)"
                        fs R I]
          fold_pair [of "\<lambda>f. add_face_flux (m eng) f
                           (face_flux X eng sc uarr ug grads uleft uright f)"
                        "\<lambda>f x. x" fs R I]
    by (cases gts) simp_all
qed

lemma compute_residual_closed:
  assumes H1: "residual_face_states X eng sc uarr = Inr (ug, grads, uleft, uright)"
      and H2: "inviflux eng \<noteq> None \<or> gnaface (m eng) = 0"
  shows "compute_residual X eng sc uarr rarr gts dtm =
     Inr (0, raw (residual_after X eng sc uarr ug grads uleft uright (block_of rarr)),
          if gts
          then assign_range 0 (gnelem (m eng))
                 (\<lambda>iel. garea (m eng) iel
                    / integ_after X eng uleft uright
                        (assign_range 0 (gnelem (m eng)) (\<lambda>iel. 0) (integ0 sc)) iel)
                 dtm
          else dtm)"
proof (cases "gnaface (m eng) = 0")
  case True
  then show ?thesis
    by (simp add: compute_residual_def H1 Let_def residual_after_def integ_after_def)
next
  case False
  with H2 have fl: "inviflux eng \<noteq> None" by simp
  show ?thesis
    by (simp add: compute_residual_def H1 Let_def face_loop_closed [OF fl]
          residual_after_def integ_after_def)
qed

lemma compute_residual_returns:
  assumes "compute_residual X eng sc uarr rarr gts dtm = Inr res"
  shows "\<exists>ug grads uleft uright.
           residual_face_states X eng sc uarr = Inr (ug, grads, uleft, uright)
           \<and> (inviflux eng \<noteq> None \<or> gnaface (m eng) = 0)"
proof -
  from assms obtain ug grads uleft uright where
    fs: "residual_face_states X eng sc uarr = Inr (ug, grads, uleft, uright)"
    by (auto simp: compute_residual_def Let_def split: sum.splits)
  from assms fs obtain s' where loop:
    "for_each (residual_face_step X eng sc uarr gts ug grads uleft uright)
       [0..<gnaface (m eng)]
       (block_of rarr, assign_range 0 (gnelem (m eng)) (\<lambda>iel. 0) (integ0 sc)) = Inr s'"
    by (auto simp: compute_residual_def Let_def split: sum.splits)
  have "inviflux eng \<noteq> None \<or> gnaface (m eng) = 0"
  proof (cases "gnaface (m eng) = 0")
    case True
    then show ?thesis by simp
  next
    case False
    then have "0 \<in> set [0..<gnaface (m eng)]" by simp
    from for_each_Inr_step [OF loop this] obtain t t' where
      "residual_face_step X eng sc uarr gts ug grads uleft uright t 0 = Inr t'" by blast
    then show ?thesis using residual_face_step_returns by blast
  qed
  with fs show ?thesis by blast
qed

lemma residual_face_states_registered:
  assumes reg: "bc_registered eng"
  shows "\<not> secondOrderRequested eng \<Longrightarrow>
     residual_face_states X eng sc uarr =
       (let msh = m eng;
            u = block_of uarr;
            uleftB = face_cell_states msh u 0 (gnbface msh) (gnaface msh)
                       (face_cell_states msh u 0 0 (gnbface msh) (uleft0 sc));
            urightB = face_cell_states msh u 1 (gnbface msh) (gnaface msh) (uright0 sc)
        in Inr (ug0 sc, grads0 sc, uleftB,
                assign_range 0 (gnbface msh) (ghost_row X eng uleftB) urightB))"
    and "secondOrderRequested eng \<Longrightarrow> lim_recon eng = Some l \<Longrightarrow>
     residual_face_states X eng sc uarr =
       (let msh = m eng;
            phy = physics eng;
            u = block_of uarr;
            uleftA = face_cell_states msh u 0 0 (gnbface msh) (uleft0 sc);
            ugA = assign_range 0 (gnbface msh) (ghost_row X eng uleftA) (ug0 sc);
            ugB = assign_range 0 (gnbface msh)
                    (\<lambda>iface. getPrimitiveFromConserved X phy (ugA iface)) ugA;
            up = assign_range 0 (gnelem msh)
                   (\<lambda>iel. getPrimitiveFromConserved X phy (u iel)) (up0 sc);
            grads = compute_gradients X (gradcomp eng) up ugB;
            fv = compute_face_values X l up ugB grads uleftA (uright0 sc);
            uleftC = assign_range (gnbface msh) (gnaface msh)
                       (\<lambda>iface. getConservedFromPrimitive X phy (fst fv iface)) (fst fv);
            urightC = assign_range (gnbface msh) (gnaface msh)
                        (\<lambda>iface. getConservedFromPrimitive X phy (snd fv iface)) (snd fv);
            uleftD = assign_range 0 (gnbface msh)
                       (\<lambda>iface. getConservedFromPrimitive X phy (uleftC iface)) uleftC
        in Inr (ugB, grads, uleftD,
                assign_range 0 (gnbface msh) (ghost_row X eng uleftD) urightC))"
  by (simp_all add: residual_face_states_def compute_boundary_states_registered [OF reg]
        Let_def split: prod.splits)

lemma residual_face_states_returns:
  assumes "residual_face_states X eng sc uarr = Inr fs"
  shows "bc_registered eng" and "secondOrderRequested eng \<Longrightarrow> lim_recon eng \<noteq> None"
proof -
  show "bc_registered eng"
  proof (cases "secondOrderRequested eng")
    case True
    with assms obtain ugA where
      "compute_boundary_states X eng
         (face_cell_states (m eng) (block_of uarr) 0 0 (gnbface (m eng)) (uleft0 sc)) (ug0 sc)
       = Inr ugA"
      by (auto simp: residual_face_states_def Let_def split: sum.splits)
    then show ?thesis by (rule compute_boundary_states_returns)
  next
    case False
    with assms obtain ur where
      "compute_boundary_states X eng
         (face_cell_states (m eng) (block_of uarr) 0 (gnbface (m eng)) (gnaface (m eng))
            (face_cell_states (m eng) (block_of uarr) 0 0 (gnbface (m eng)) (uleft0 sc)))
         (face_cell_states (m eng) (block_of uarr) 1 (gnbface (m eng)) (gnaface (m eng))
            (uright0 sc))
       = Inr ur"
      by (auto simp: residual_face_states_def Let_def split: sum.splits)
    then show ?thesis by (rule compute_boundary_states_returns)
  qed
  show "lim_recon eng \<noteq> None" if "secondOrderRequested eng"
    using assms that
    by (auto simp: residual_face_states_def Let_def split: sum.splits option.splits)
qed

lemma residual_face_states_total:
  assumes "bc_registered eng" and "secondOrderRequested eng \<longrightarrow> lim_recon eng \<noteq> None"
  shows "\<exists>ug grads uleft uright.
           residual_face_states X eng sc uarr = Inr (ug, grads, uleft, uright)"
proof (cases "secondOrderRequested eng")
  case True
  with assms obtain l where "lim_recon eng = Some l" by auto
  from residual_face_states_registered(2) [OF assms(1) True this]
  show ?thesis by (simp add: Let_def)
next
  case False
  from residual_face_states_registered(1) [OF assms(1) False]
  show ?thesis by (simp add: Let_def)
qed

lemma residual_after_entry:
  "residual_after X eng sc uarr ug grads uleft uright R c i =
     R c i + residual_after X eng sc uarr ug grads uleft uright (\<lambda>c i. 0) c i"
  by (simp add: residual_after_def add_face_flux_fold)

lemma raw_residual_after:
  "raw (residual_after X eng sc uarr ug grads uleft uright (block_of rarr)) =
     (\<lambda>k. rarr k + raw (residual_after X eng sc uarr ug grads uleft uright
                            (block_of (\<lambda>k. 0))) k)"
proof
  fix k
  have z: "block_of (\<lambda>k. 0) = (\<lambda>c i. 0)" by (simp add: block_of_def)
  have b: "block_of rarr (k div NVARS) (k mod NVARS) = rarr k"
    by (simp add: block_of_def)
  have "raw (residual_after X eng sc uarr ug grads uleft uright (block_of rarr)) k =
          residual_after X eng sc uarr ug grads uleft uright (block_of rarr)
            (k div NVARS) (k mod NVARS)"
    by (simp add: raw_def)
  also have "\<dots> = block_of rarr (k div NVARS) (k mod NVARS)
          + residual_after X eng sc uarr ug grads uleft uright (\<lambda>c i. 0)
              (k div NVARS) (k mod NVARS)"
    by (rule residual_after_entry)
  also have "\<dots> = rarr k + raw (residual_after X eng sc uarr ug grads uleft uright
                            (block_of (\<lambda>k. 0))) k"
    by (simp only: b z raw_def)
  finally show "raw (residual_after X eng sc uarr ug grads uleft uright (block_of rarr)) k =
     rarr k + raw (residual_after X eng sc uarr ug grads uleft uright (block_of (\<lambda>k. 0))) k" .
qed

lemma integ_after_entry:
  "integ_after X eng uleft uright I c =
     I c + (\<Sum>f\<leftarrow>[0..<gnaface (m eng)].
              (if gintfac (m eng) f 0 = c then fst (face_specrad X eng uleft uright f) else 0)
              + (if gintfac (m eng) f 1 = c \<and> gintfac (m eng) f 1 < gnelem (m eng)
                 then snd (face_specrad X eng uleft uright f) else 0))"
  by (simp add: integ_after_def add_face_specrad_fold)

lemma compute_residual_shift:
  assumes "compute_residual X eng sc uarr (\<lambda>k. 0) gts dtm = Inr (st, delta, dt)"
  shows "compute_residual X eng (sc \<lparr> integ0 := a \<rparr>) uarr rarr gts dtm =
           Inr (st, (\<lambda>k. rarr k + delta k), dt)"
proof -
  from compute_residual_returns [OF assms] obtain ug grads uleft uright where
    fs: "residual_face_states X eng sc uarr = Inr (ug, grads, uleft, uright)"
    and fl: "inviflux eng \<noteq> None \<or> gnaface (m eng) = 0"
    by blast
  have fs': "residual_face_states X eng (sc \<lparr> integ0 := a \<rparr>) uarr
               = Inr (ug, grads, uleft, uright)"
  proof -
    have "residual_face_states X eng (sc \<lparr> integ0 := a \<rparr>) uarr
            = residual_face_states X eng sc uarr"
      by (simp add: residual_face_states_def Let_def
            cong: sum.case_cong option.case_cong prod.case_cong if_cong)
    with fs show ?thesis by simp
  qed
  have ff: "face_flux X eng (sc \<lparr> integ0 := a \<rparr>) uarr ug grads uleft uright
              = face_flux X eng sc uarr ug grads uleft uright"
    by (simp add: face_flux_def face_fluxes_def fun_eq_iff Let_def
          cong: sum.case_cong option.case_cong prod.case_cong if_cong)
  have ra: "residual_after X eng (sc \<lparr> integ0 := a \<rparr>) uarr ug grads uleft uright
              = residual_after X eng sc uarr ug grads uleft uright"
    by (simp add: residual_after_def ff fun_eq_iff)
  have dtq: "assign_range 0 (gnelem (m eng))
                 (\<lambda>iel. garea (m eng) iel
                    / integ_after X eng uleft uright
                        (assign_range 0 (gnelem (m eng)) (\<lambda>iel. 0) b) iel) dtm
           = assign_range 0 (gnelem (m eng))
                 (\<lambda>iel. garea (m eng) iel
                    / integ_after X eng uleft uright
                        (assign_range 0 (gnelem (m eng)) (\<lambda>iel. 0) b') iel) dtm" for b b'
    by (auto simp: assign_range_def fun_eq_iff integ_after_entry)
  from assms compute_residual_closed [OF fs fl, of "\<lambda>k. 0" gts dtm]
  have st: "st = 0"
    and delta: "delta = raw (residual_after X eng sc uarr ug grads uleft uright
                               (block_of (\<lambda>k. 0)))"
    and dt: "dt = (if gts
          then assign_range 0 (gnelem (m eng))
                 (\<lambda>iel. garea (m eng) iel
                    / integ_after X eng uleft uright
                        (assign_range 0 (gnelem (m eng)) (\<lambda>iel. 0) (integ0 sc)) iel)
                 dtm
          else dtm)"
    by simp_all
  show ?thesis
    unfolding compute_residual_closed [OF fs' fl] st delta dt ra
    using raw_residual_after [of X eng sc uarr ug grads uleft uright rarr]
          dtq [of a "integ0 sc"]
    by simp
qed

lemma compute_residual_total:
  assumes "bc_registered eng" and "inviflux eng \<noteq> None"
      and "secondOrderRequested eng \<longrightarrow> lim_recon eng \<noteq> None"
  shows "\<exists>delta dt. compute_residual X eng sc uarr rarr gts dtm = Inr (0, delta, dt)"
proof -
  from residual_face_states_total [OF assms(1,3)] obtain ug grads uleft uright where
    "residual_face_states X eng sc uarr = Inr (ug, grads, uleft, uright)" by blast
  from compute_residual_closed [OF this disjI1 [OF assms(2)]] show ?thesis by blast
qed

lemma strip_bc_registered: "bc_registered (strip_engine so visc)"
  by (simp add: bc_registered_def strip_engine_sel strip_mesh_simps strip_tags upt_6 strip_bcs)

lemma strip_returns:
  "\<exists>delta dt. compute_residual X (strip_engine so visc) sc uarr rarr gts dtm = Inr (0, delta, dt)"
  by (rule compute_residual_total) (simp_all add: strip_bc_registered strip_fluxes)

lemma sum_collapse3: "x = Inr r \<Longrightarrow> x = Inr (fst r, fst (snd r), snd (snd r))"
  by simp

lemma face_cell_states_entry:
  "lo \<le> f \<Longrightarrow> f < hi \<Longrightarrow> i < NVARS \<Longrightarrow>
     face_cell_states msh u side lo hi arr f i = u (gintfac msh f side) i"
  by (simp add: face_cell_states_def assign_range_def)

lemma face_cell_states_other:
  "\<not> (lo \<le> f \<and> f < hi) \<Longrightarrow> face_cell_states msh u side lo hi arr f = arr f"
  by (auto simp: face_cell_states_def assign_range_def)

lemma upt_7: "[0..<7] = [0, 1, 2, 3, 4, 5, 6]"
  by (simp add: upt_rec)

lemma strip_garea: "garea strip_mesh c = [1, 2] ! c"
  by (simp add: strip_mesh_def)

lemma sum_collapse4:
  "x = Inr r \<Longrightarrow> x = Inr (fst r, fst (snd r), fst (snd (snd r)), snd (snd (snd r)))"
  by simp

section \<open>Residual assembly: what is initialised, what is checked, the time steps\<close>

text \<open>
  Claim C1, as stated: the residual evaluation sets the residual array to zero at its
  start, so the residual output is determined by the input state alone and does not depend
  on what the output array held before.  It is not so: two evaluations on the same engine,
  scratch contents and state that differ only in the prior contents of the residual array
  can both return and return different residuals.
\<close>

theorem residual_prior_contents_counterexample:
  "\<not> (\<forall>X eng sc uarr rarr rarr' gts dtm r1 r2.
         compute_residual X eng sc uarr rarr gts dtm = Inr r1 \<longrightarrow>
         compute_residual X eng sc uarr rarr' gts dtm = Inr r2 \<longrightarrow>
         fst (snd r1) = fst (snd r2))"
proof
  assume claim: "\<forall>X eng sc uarr rarr rarr' gts dtm r1 r2.
         compute_residual X eng sc uarr rarr gts dtm = Inr r1 \<longrightarrow>
         compute_residual X eng sc uarr rarr' gts dtm = Inr r2 \<longrightarrow>
         fst (snd r1) = fst (snd r2)"
  obtain X :: Externs and sc :: Scratch where True by simp
  define E where "E = strip_engine False False"
  obtain delta dt where
    z: "compute_residual X E sc strip_uarr (\<lambda>k. 0) False (\<lambda>c. 0) = Inr (0, delta, dt)"
    unfolding E_def using strip_returns by blast
  from compute_residual_shift [OF z, of "integ0 sc" "\<lambda>k. 1"]
  have o: "compute_residual X E sc strip_uarr (\<lambda>k. 1) False (\<lambda>c. 0)
             = Inr (0, (\<lambda>k. 1 + delta k), dt)"
    by simp
  from claim z o have "fst (snd (0 :: int, delta, dt)) = fst (snd (0 :: int, (\<lambda>k. 1 + delta k), dt))"
    by blast
  then have "delta 0 = 1 + delta 0" by (simp add: fun_eq_iff)
  then show False by simp
qed

text \<open>
  Claim C1, amended.  \<^verbatim>\<open>compute_residual\<close> sets the per-cell spectral-radius integral to
  zero at its start, but not the residual array: it subtracts every face's integrated flux
  from, and adds it to, what the array already holds.  Whenever the evaluation on a zero
  residual array returns \<open>delta\<close>, the evaluation on a residual array \<open>rarr\<close> returns
  \<open>rarr + delta\<close> with the same status and time steps; and the result does not depend on
  the prior contents of the integral.
\<close>

theorem residual_accumulates:
  assumes "compute_residual X eng sc uarr (\<lambda>k. 0) gts dtm = Inr (st, delta, dt)"
  shows "compute_residual X eng sc uarr rarr gts dtm = Inr (st, (\<lambda>k. rarr k + delta k), dt)
       \<and> compute_residual X eng (sc \<lparr> integ0 := a \<rparr>) uarr rarr gts dtm =
           compute_residual X eng sc uarr rarr gts dtm"
  using compute_residual_shift [OF assms, of "integ0 sc" rarr]
        compute_residual_shift [OF assms, of a rarr]
  by simp

theorem residual_accumulates_witness:
  "\<forall>X sc. (let E = strip_engine False False;
                r0 = projr (compute_residual X E sc strip_uarr (\<lambda>k. 0) False (\<lambda>c. 0))
            in compute_residual X E sc strip_uarr (\<lambda>k. 0) False (\<lambda>c. 0) =
                 Inr (fst r0, fst (snd r0), snd (snd r0))
             \<and> compute_residual X E sc strip_uarr (\<lambda>k. 1) False (\<lambda>c. 0) =
                 Inr (fst r0, (\<lambda>k. 1 + fst (snd r0) k), snd (snd r0))
             \<and> compute_residual X E (sc \<lparr> integ0 := (\<lambda>c. 5) \<rparr>) strip_uarr (\<lambda>k. 1) False
                  (\<lambda>c. 0) =
               compute_residual X E sc strip_uarr (\<lambda>k. 1) False (\<lambda>c. 0))"
proof (intro allI)
  fix X :: Externs and sc :: Scratch
  define r0 where
    "r0 = projr (compute_residual X (strip_engine False False) sc strip_uarr (\<lambda>k. 0) False
                   (\<lambda>c. 0))"
  from strip_returns [of X False False sc strip_uarr "\<lambda>k. 0" False "\<lambda>c. 0"]
  have h: "compute_residual X (strip_engine False False) sc strip_uarr (\<lambda>k. 0) False (\<lambda>c. 0)
             = Inr (fst r0, fst (snd r0), snd (snd r0))"
    unfolding r0_def by auto
  from residual_accumulates [OF h, of "\<lambda>k. 1" "\<lambda>c. 5"] h
  show "let E = strip_engine False False;
                r0 = projr (compute_residual X E sc strip_uarr (\<lambda>k. 0) False (\<lambda>c. 0))
            in compute_residual X E sc strip_uarr (\<lambda>k. 0) False (\<lambda>c. 0) =
                 Inr (fst r0, fst (snd r0), snd (snd r0))
             \<and> compute_residual X E sc strip_uarr (\<lambda>k. 1) False (\<lambda>c. 0) =
                 Inr (fst r0, (\<lambda>k. 1 + fst (snd r0) k), snd (snd r0))
             \<and> compute_residual X E (sc \<lparr> integ0 := (\<lambda>c. 5) \<rparr>) strip_uarr (\<lambda>k. 1) False
                  (\<lambda>c. 0) =
               compute_residual X E sc strip_uarr (\<lambda>k. 1) False (\<lambda>c. 0)"
    unfolding Let_def r0_def [symmetric] by blast
qed




text \<open>
  Claim C5.  When time steps are requested and the evaluation returns, the time step of
  every real cell \<open>c\<close> is its area divided by the sum, over all faces, of the face's first
  spectral radius when \<open>c\<close> is its left cell plus its second spectral radius when \<open>c\<close> is its
  right cell.  The first spectral radius of a face is \<open>(|v\<^sub>n| + c) len\<close> of its left state, the
  second that of its right state; in a viscous simulation
  \<open>max (4/(3 \<rho>)) (\<gamma>/\<rho>) * \<mu> / Pr * len\<^sup>2 / area\<close> of the state and the cell on that side is
  added (for the right side only when the right cell is a real cell).
\<close>

theorem local_time_steps:
  assumes ret: "compute_residual X eng sc uarr rarr True dtm = Inr (st, rout, dt)"
      and fs: "residual_face_states X eng sc uarr = Inr (ug, grads, uleft, uright)"
  shows "(\<forall>c<gnelem (m eng).
            dt c = garea (m eng) c /
              (\<Sum>f\<leftarrow>[0..<gnaface (m eng)].
                 (if gintfac (m eng) f 0 = c then fst (face_specrad X eng uleft uright f) else 0)
                 + (if gintfac (m eng) f 1 = c then snd (face_specrad X eng uleft uright f)
                    else 0)))
       \<and> (\<forall>f. let msh = m eng;
                   phy = physics eng;
                   len = gfacemetric msh f 2;
                   vn = (\<lambda>u. (u 1 * gfacemetric msh f 0 + u 2 * gfacemetric msh f 1) / u 0);
                   mu = (\<lambda>u. if constVisc eng then getConstantViscosityCoeff X phy
                               else getViscosityCoeffFromConserved X phy u);
                   visc = (\<lambda>u cell. max (4 / (3 * u 0)) (g phy / u 0) * mu u / Pr phy
                                         * len * len / garea msh cell)
               in face_specrad X eng uleft uright f =
                    ((\<bar>vn (uleft f)\<bar> + getSoundSpeedFromConserved X phy (uleft f)) * len
                       + (if viscous_sim (pconfig eng)
                          then visc (uleft f) (gintfac msh f 0) else 0),
                     (\<bar>vn (uright f)\<bar> + getSoundSpeedFromConserved X phy (uright f)) * len
                       + (if viscous_sim (pconfig eng) \<and> gintfac msh f 1 < gnelem msh
                          then visc (uright f) (gintfac msh f 1) else 0)))"
proof -
  from compute_residual_returns [OF ret] fs
  have fl: "inviflux eng \<noteq> None \<or> gnaface (m eng) = 0" by simp
  from ret compute_residual_closed [OF fs fl, of rarr True dtm]
  have dt: "dt = assign_range 0 (gnelem (m eng))
                 (\<lambda>iel. garea (m eng) iel
                    / integ_after X eng uleft uright
                        (assign_range 0 (gnelem (m eng)) (\<lambda>iel. 0) (integ0 sc)) iel)
                 dtm"
    by simp
  have sums: "(\<Sum>f\<leftarrow>[0..<gnaface (m eng)].
                 (if gintfac (m eng) f 0 = c then fst (face_specrad X eng uleft uright f) else 0)
                 + (if gintfac (m eng) f 1 = c \<and> gintfac (m eng) f 1 < gnelem (m eng)
                    then snd (face_specrad X eng uleft uright f) else 0))
            = (\<Sum>f\<leftarrow>[0..<gnaface (m eng)].
                 (if gintfac (m eng) f 0 = c then fst (face_specrad X eng uleft uright f) else 0)
                 + (if gintfac (m eng) f 1 = c then snd (face_specrad X eng uleft uright f)
                    else 0))"
    if "c < gnelem (m eng)" for c
    using that by (intro arg_cong [where f = sum_list] map_cong) auto
  have steps: "\<forall>c<gnelem (m eng).
            dt c = garea (m eng) c /
              (\<Sum>f\<leftarrow>[0..<gnaface (m eng)].
                 (if gintfac (m eng) f 0 = c then fst (face_specrad X eng uleft uright f) else 0)
                 + (if gintfac (m eng) f 1 = c then snd (face_specrad X eng uleft uright f)
                    else 0))"
  proof (intro allI impI)
    fix c assume c: "c < gnelem (m eng)"
    have "dt c = garea (m eng) c
                   / integ_after X eng uleft uright
                       (assign_range 0 (gnelem (m eng)) (\<lambda>iel. 0) (integ0 sc)) c"
      using c by (simp add: dt assign_range_def)
    also have "integ_after X eng uleft uright
                       (assign_range 0 (gnelem (m eng)) (\<lambda>iel. 0) (integ0 sc)) c
             = (\<Sum>f\<leftarrow>[0..<gnaface (m eng)].
                 (if gintfac (m eng) f 0 = c then fst (face_specrad X eng uleft uright f) else 0)
                 + (if gintfac (m eng) f 1 = c then snd (face_specrad X eng uleft uright f)
                    else 0))"
      unfolding integ_after_entry sums [OF c] using c by (simp add: assign_range_def)
    finally show "dt c = garea (m eng) c /
              (\<Sum>f\<leftarrow>[0..<gnaface (m eng)].
                 (if gintfac (m eng) f 0 = c then fst (face_specrad X eng uleft uright f) else 0)
                 + (if gintfac (m eng) f 1 = c then snd (face_specrad X eng uleft uright f)
                    else 0))" .
  qed
  have radii: "\<forall>f. let msh = m eng;
                   phy = physics eng;
                   len = gfacemetric msh f 2;
                   vn = (\<lambda>u. (u 1 * gfacemetric msh f 0 + u 2 * gfacemetric msh f 1) / u 0);
                   mu = (\<lambda>u. if constVisc eng then getConstantViscosityCoeff X phy
                               else getViscosityCoeffFromConserved X phy u);
                   visc = (\<lambda>u cell. max (4 / (3 * u 0)) (g phy / u 0) * mu u / Pr phy
                                         * len * len / garea msh cell)
               in face_specrad X eng uleft uright f =
                    ((\<bar>vn (uleft f)\<bar> + getSoundSpeedFromConserved X phy (uleft f)) * len
                       + (if viscous_sim (pconfig eng)
                          then visc (uleft f) (gintfac msh f 0) else 0),
                     (\<bar>vn (uright f)\<bar> + getSoundSpeedFromConserved X phy (uright f)) * len
                       + (if viscous_sim (pconfig eng) \<and> gintfac msh f 1 < gnelem msh
                          then visc (uright f) (gintfac msh f 1) else 0))"
    by (simp add: face_specrad_def Let_def)
  from steps radii show ?thesis by (rule conjI)
qed

theorem local_time_steps_witness:
  "\<forall>X sc. (let E = strip_engine False False;
                s = projr (residual_face_states X E sc strip_uarr);
                uleft = fst (snd (snd s));
                uright = snd (snd (snd s));
                r = projr (compute_residual X E sc strip_uarr (\<lambda>k. 0) True (\<lambda>c. 0))
            in compute_residual X E sc strip_uarr (\<lambda>k. 0) True (\<lambda>c. 0)
                 = Inr (fst r, fst (snd r), snd (snd r))
             \<and> residual_face_states X E sc strip_uarr
                 = Inr (fst s, fst (snd s), uleft, uright)
             \<and> snd (snd r) 1 =
                 2 / (fst (face_specrad X E uleft uright 1) + fst (face_specrad X E uleft uright 3)
                      + fst (face_specrad X E uleft uright 4)
                      + snd (face_specrad X E uleft uright 6))
             \<and> fst (face_specrad X E uleft uright 6) =
                 (\<bar>uleft 6 1 / uleft 6 0\<bar>
                   + getSoundSpeedFromConserved X strip_physics (uleft 6)))"
proof (intro allI)
  fix X :: Externs and sc :: Scratch
  define E where "E = strip_engine False False"
  define s where "s = projr (residual_face_states X E sc strip_uarr)"
  define r where "r = projr (compute_residual X E sc strip_uarr (\<lambda>k. 0) True (\<lambda>c. 0))"
  have h1: "compute_residual X E sc strip_uarr (\<lambda>k. 0) True (\<lambda>c. 0)
              = Inr (fst r, fst (snd r), snd (snd r))"
    using strip_returns [of X False False sc strip_uarr "\<lambda>k. 0" True "\<lambda>c. 0"]
    unfolding r_def E_def by auto
  have h2: "residual_face_states X E sc strip_uarr
              = Inr (fst s, fst (snd s), fst (snd (snd s)), snd (snd (snd s)))"
    using residual_face_states_total [of E X sc strip_uarr]
    unfolding s_def E_def by (auto simp: strip_bc_registered strip_fluxes)
  have one: "(1 :: nat) < gnelem (m E)" by (simp add: E_def strip_engine_sel strip_mesh_simps)
  note lts = local_time_steps [OF h1 h2]
  from lts one have dt1: "snd (snd r) 1 = garea (m E) 1 /
              (\<Sum>f\<leftarrow>[0..<gnaface (m E)].
                 (if gintfac (m E) f 0 = 1
                  then fst (face_specrad X E (fst (snd (snd s))) (snd (snd (snd s))) f) else 0)
                 + (if gintfac (m E) f 1 = 1
                    then snd (face_specrad X E (fst (snd (snd s))) (snd (snd (snd s))) f)
                    else 0))"
    by blast
  from lts have rad: "face_specrad X E (fst (snd (snd s))) (snd (snd (snd s))) 6 =
     (let msh = m E;
                   phy = physics E;
                   len = gfacemetric msh 6 2;
                   vn = (\<lambda>u. (u 1 * gfacemetric msh 6 0 + u 2 * gfacemetric msh 6 1) / u 0);
                   mu = (\<lambda>u. if constVisc E then getConstantViscosityCoeff X phy
                               else getViscosityCoeffFromConserved X phy u);
                   visc = (\<lambda>u cell. max (4 / (3 * u 0)) (g phy / u 0) * mu u / Pr phy
                                         * len * len / garea msh cell)
               in ((\<bar>vn (fst (snd (snd s)) 6)\<bar>
                      + getSoundSpeedFromConserved X phy (fst (snd (snd s)) 6)) * len
                       + (if viscous_sim (pconfig E)
                          then visc (fst (snd (snd s)) 6) (gintfac msh 6 0) else 0),
                     (\<bar>vn (snd (snd (snd s)) 6)\<bar>
                        + getSoundSpeedFromConserved X phy (snd (snd (snd s)) 6)) * len
                       + (if viscous_sim (pconfig E) \<and> gintfac msh 6 1 < gnelem msh
                          then visc (snd (snd (snd s)) 6) (gintfac msh 6 1) else 0)))"
    unfolding Let_def by blast
  have e1: "snd (snd r) 1 =
                 2 / (fst (face_specrad X E (fst (snd (snd s))) (snd (snd (snd s))) 1)
                      + fst (face_specrad X E (fst (snd (snd s))) (snd (snd (snd s))) 3)
                      + fst (face_specrad X E (fst (snd (snd s))) (snd (snd (snd s))) 4)
                      + snd (face_specrad X E (fst (snd (snd s))) (snd (snd (snd s))) 6))"
    unfolding dt1
    by (simp add: E_def strip_engine_sel strip_mesh_simps upt_7 strip_gintfac strip_garea)
  have e2: "fst (face_specrad X E (fst (snd (snd s))) (snd (snd (snd s))) 6) =
                 (\<bar>fst (snd (snd s)) 6 1 / fst (snd (snd s)) 6 0\<bar>
                   + getSoundSpeedFromConserved X strip_physics (fst (snd (snd s)) 6))"
    unfolding rad
    by (simp add: E_def strip_engine_sel strip_gfacemetric strip_pconfig_def)
  show "let E = strip_engine False False;
                s = projr (residual_face_states X E sc strip_uarr);
                uleft = fst (snd (snd s));
                uright = snd (snd (snd s));
                r = projr (compute_residual X E sc strip_uarr (\<lambda>k. 0) True (\<lambda>c. 0))
            in compute_residual X E sc strip_uarr (\<lambda>k. 0) True (\<lambda>c. 0)
                 = Inr (fst r, fst (snd r), snd (snd r))
             \<and> residual_face_states X E sc strip_uarr
                 = Inr (fst s, fst (snd s), uleft, uright)
             \<and> snd (snd r) 1 =
                 2 / (fst (face_specrad X E uleft uright 1) + fst (face_specrad X E uleft uright 3)
                      + fst (face_specrad X E uleft uright 4)
                      + snd (face_specrad X E uleft uright 6))
             \<and> fst (face_specrad X E uleft uright 6) =
                 (\<bar>uleft 6 1 / uleft 6 0\<bar>
                   + getSoundSpeedFromConserved X strip_physics (uleft 6))"
    unfolding Let_def E_def [symmetric] s_def [symmetric] r_def [symmetric]
    using h1 h2 e1 e2 by blast
qed

section \<open>Boundary and periodic ghost states\<close>

lemma ghost_row_cases:
  assumes "bcs eng (gintfacbtags (m eng) f 0) = Some bc"
  shows "gintfacbtags (m eng) f 0 \<noteq> periodic_id (bcconf (pconfig eng)) \<Longrightarrow>
           ghost_row X eng ins f = computeGhostState X bc (ins f) (gnormal (m eng) f)"
    and "gintfacbtags (m eng) f 0 = periodic_id (bcconf (pconfig eng)) \<Longrightarrow> i < NVARS \<Longrightarrow>
           ghost_row X eng ins f i = ins (gperiodicmap (m eng) f) i"
  using assms by (simp_all add: ghost_row_def Let_def assign_range_def)

lemma bc_registered_face:
  "bc_registered eng \<Longrightarrow> f < gnbface (m eng) \<Longrightarrow>
     \<exists>bc. bcs eng (gintfacbtags (m eng) f 0) = Some bc"
  by (auto simp: bc_registered_def list_all_iff)


lemma second_order_face_states:
  assumes so: "secondOrderRequested eng"
      and ret: "residual_face_states X eng sc uarr = Inr (ug, grads, uleft, uright)"
  shows "\<exists>l fv.
      lim_recon eng = Some l \<and> bc_registered eng
    \<and> ug = assign_range 0 (gnbface (m eng))
             (\<lambda>f. getPrimitiveFromConserved X (physics eng)
                    (ghost_row X eng
                       (face_cell_states (m eng) (block_of uarr) 0 0 (gnbface (m eng))
                          (uleft0 sc)) f))
             (assign_range 0 (gnbface (m eng))
                (ghost_row X eng
                   (face_cell_states (m eng) (block_of uarr) 0 0 (gnbface (m eng))
                      (uleft0 sc)))
                (ug0 sc))
    \<and> grads = compute_gradients X (gradcomp eng)
                (assign_range 0 (gnelem (m eng))
                   (\<lambda>iel. getPrimitiveFromConserved X (physics eng) (block_of uarr iel))
                   (up0 sc)) ug
    \<and> fv = compute_face_values X l
             (assign_range 0 (gnelem (m eng))
                (\<lambda>iel. getPrimitiveFromConserved X (physics eng) (block_of uarr iel)) (up0 sc))
             ug grads
             (face_cell_states (m eng) (block_of uarr) 0 0 (gnbface (m eng)) (uleft0 sc))
             (uright0 sc)
    \<and> (\<forall>f<gnaface (m eng). uleft f = getConservedFromPrimitive X (physics eng) (fst fv f))
    \<and> uright = assign_range 0 (gnbface (m eng)) (ghost_row X eng uleft)
                 (assign_range (gnbface (m eng)) (gnaface (m eng))
                    (\<lambda>f. getConservedFromPrimitive X (physics eng) (snd fv f)) (snd fv))"
proof -
  from residual_face_states_returns [OF ret] so
  have reg: "bc_registered eng" and "lim_recon eng \<noteq> None" by simp_all
  then obtain l where l: "lim_recon eng = Some l" by auto
  define uleftA where
    "uleftA = face_cell_states (m eng) (block_of uarr) 0 0 (gnbface (m eng)) (uleft0 sc)"
  define ugA where "ugA = assign_range 0 (gnbface (m eng)) (ghost_row X eng uleftA) (ug0 sc)"
  define ugB where "ugB = assign_range 0 (gnbface (m eng))
             (\<lambda>f. getPrimitiveFromConserved X (physics eng) (ugA f)) ugA"
  define up where "up = assign_range 0 (gnelem (m eng))
                   (\<lambda>iel. getPrimitiveFromConserved X (physics eng) (block_of uarr iel))
                   (up0 sc)"
  define gradsv where "gradsv = compute_gradients X (gradcomp eng) up ugB"
  define fv where "fv = compute_face_values X l up ugB gradsv uleftA (uright0 sc)"
  define uleftC where "uleftC = assign_range (gnbface (m eng)) (gnaface (m eng))
           (\<lambda>f. getConservedFromPrimitive X (physics eng) (fst fv f)) (fst fv)"
  define urightC where "urightC = assign_range (gnbface (m eng)) (gnaface (m eng))
           (\<lambda>f. getConservedFromPrimitive X (physics eng) (snd fv f)) (snd fv)"
  define uleftD where "uleftD = assign_range 0 (gnbface (m eng))
           (\<lambda>f. getConservedFromPrimitive X (physics eng) (uleftC f)) uleftC"
  have "residual_face_states X eng sc uarr =
          Inr (ugB, gradsv, uleftD,
               assign_range 0 (gnbface (m eng)) (ghost_row X eng uleftD) urightC)"
    unfolding residual_face_states_registered(2) [OF reg so l, of X sc uarr] Let_def
      uleftD_def uleftC_def urightC_def fv_def gradsv_def up_def ugB_def ugA_def uleftA_def
    by (rule refl)
  with ret have ug: "ug = ugB" and grads: "grads = gradsv" and uleftq: "uleft = uleftD"
    and uright: "uright = assign_range 0 (gnbface (m eng)) (ghost_row X eng uleft) urightC"
    by auto
  have ug_eq: "ug = assign_range 0 (gnbface (m eng))
             (\<lambda>f. getPrimitiveFromConserved X (physics eng) (ghost_row X eng uleftA f)) ugA"
    unfolding ug ugB_def by (auto simp: assign_range_def ugA_def fun_eq_iff)
  note fv_eq = fv_def [folded grads ug]
  note grads_eq = grads [unfolded gradsv_def, folded ug]
  have c6: "\<forall>f<gnaface (m eng).
              uleft f = getConservedFromPrimitive X (physics eng) (fst fv f)"
    by (simp add: uleftq uleftD_def uleftC_def assign_range_def)
  show ?thesis
    apply (rule exI [of _ l], rule exI [of _ fv])
    using l reg ug_eq [unfolded ugA_def uleftA_def] grads_eq [unfolded up_def]
      fv_eq [unfolded up_def uleftA_def] c6 uright [unfolded urightC_def]
    by (intro conjI)
qed

lemma strip_gnormal:
  "gnormal strip_mesh f = (\<lambda>k. [[- 1, 0], [1, 0], [0, - 1], [0, - 1],
                          [0, 1], [0, 1], [1, 0]] ! f ! k)"
  by (simp add: strip_mesh_def)

lemma strip_periodic:
  "periodic_id (bcconf (strip_pconfig visc)) = 4"
  "gperiodicmap strip_mesh f = [1, 0] ! f"
  by (simp_all add: strip_pconfig_def strip_mesh_def)



lemma strip_gcoords:
  "gcoords strip_mesh p d = [[0, 0], [1, 0], [3, 0], [0, 1], [1, 1], [3, 1]] ! p ! d"
  by (simp add: strip_mesh_def)

lemma strip_gr1:
  "Spatial_gr strip_mesh (\<lambda>f i j. 0) (Suc 0) 0 0 = 3"
  "Spatial_gr strip_mesh (\<lambda>f i j. 0) (Suc 0) 0 (Suc 0) = 1 / 2"
  by (simp_all add: Spatial_gr_def Let_def assign_range_def strip_mesh_simps strip_gcoords
        strip_gintfac NGAUSS_def)

lemma sqrt_1_4: "sqrt (1 / 4) = 1 / 2"
  by (rule real_sqrt_unique) (simp_all add: power2_eq_square)

lemma strip_green_gauss:
  assumes "u 0 0 = 1" "u (Suc 0) 0 = 2" "ug (Suc 0) 0 = 1"
  shows "spec_GreenGauss strip_mesh (Spatial_rc strip_mesh (\<lambda>i j. 0) (\<lambda>i j. 0)) u ug
           (Suc 0) 0 0 = 1 / 12"
  by (simp add: spec_GreenGauss_def Let_def strip_mesh_simps upt_7 strip_gintfac strip_gcoords
        strip_gfacemetric strip_garea strip_rc assms power2_eq_square sqrt_1_4)

text \<open>
  Claim C4, as stated: on every residual evaluation, first or second order, the ghost state
  of a boundary face with the periodic marker equals the cell state of the left cell of the
  paired face.  In a second-order evaluation it does not: on the two-cell mesh with
  Green-Gauss gradients and unlimited linear reconstruction, densities 1 and 2, the right
  state of face 0 has density \<open>25/12\<close>, the reconstructed left value of the paired face 1,
  while the left cell of face 1 has density 2.
\<close>

theorem periodic_ghost_counterexample:
  "\<not> (\<forall>X eng sc uarr ug grads uleft uright f i.
         residual_face_states X eng sc uarr = Inr (ug, grads, uleft, uright) \<longrightarrow>
         f < gnbface (m eng) \<longrightarrow>
         gintfacbtags (m eng) f 0 = periodic_id (bcconf (pconfig eng)) \<longrightarrow>
         i < NVARS \<longrightarrow>
         uright f i = block_of uarr (gintfac (m eng) (gperiodicmap (m eng) f) 0) i)"
proof
  assume claim: "\<forall>X eng sc uarr ug grads uleft uright f i.
         residual_face_states X eng sc uarr = Inr (ug, grads, uleft, uright) \<longrightarrow>
         f < gnbface (m eng) \<longrightarrow>
         gintfacbtags (m eng) f 0 = periodic_id (bcconf (pconfig eng)) \<longrightarrow>
         i < NVARS \<longrightarrow>
         uright f i = block_of uarr (gintfac (m eng) (gperiodicmap (m eng) f) 0) i"
  obtain X0 :: Externs and sc :: Scratch where True by simp
  define X where "X = with_spec_models X0"
  define E where "E = strip_engine True False"
  define rcs where "rcs = Spatial_rc strip_mesh (\<lambda>i j. 0) (\<lambda>i j. 0)"
  define grs where "grs = Spatial_gr strip_mesh (\<lambda>f i j. 0)"
  have so: "secondOrderRequested E" by (simp add: E_def strip_engine_sel)
  obtain ug grads uleft uright where
    ret: "residual_face_states X E sc strip_step = Inr (ug, grads, uleft, uright)"
    using residual_face_states_total [of E X sc strip_step]
    unfolding E_def by (auto simp: strip_bc_registered strip_fluxes)
  have face0: "0 < gnbface (m E)" "gintfacbtags (m E) 0 0 = periodic_id (bcconf (pconfig E))"
    "(0 :: nat) < NVARS"
    and face1: "1 < gnbface (m E)" "gintfacbtags (m E) 1 0 = periodic_id (bcconf (pconfig E))"
    and pm: "gperiodicmap (m E) 0 = 1" "gperiodicmap (m E) (Suc 0) = 0"
    and cells: "gintfac (m E) (Suc 0) 0 = Suc 0" "gintfac (m E) 0 0 = 0"
    and sizes: "gnbface (m E) = 6" "gnaface (m E) = 7" "gnelem (m E) = 2"
    by (simp_all add: E_def strip_engine_sel strip_mesh_simps strip_tags strip_periodic
          NVARS_def strip_gintfac)
  txt \<open>What the claim says of the ghost state of face 0: the density of cell 1.\<close>
  from claim ret face0 have "uright 0 0 = block_of strip_step (gintfac (m E) (gperiodicmap (m E) 0) 0) 0"
    by blast
  then have said: "uright 0 0 = 2"
    by (simp add: pm cells block_of_def NVARS_def strip_step_def)
  txt \<open>What the code computes: the reconstructed left state of face 1.\<close>
  have phy: "physics E = strip_physics" and gc: "gradcomp E = GreenGaussGradients strip_mesh rcs"
    and mE: "m E = strip_mesh"
    by (simp_all add: E_def strip_engine_def rcs_def create_const_gradientscheme_def
          create_mutable_gradientscheme_def)
  have lim: "lim_recon E = Some (LinearUnlimitedReconstruction strip_mesh rcs grs)"
    by (simp add: E_def strip_fluxes rcs_def grs_def)
  have Xp: "getPrimitiveFromConserved X = spec_getPrimitiveFromConserved"
    and Xc: "getConservedFromPrimitive X = spec_getConservedFromPrimitive"
    and Xg: "compute_gradients X (GreenGaussGradients strip_mesh rcs)
               = spec_GreenGauss strip_mesh rcs"
    and Xf: "compute_face_values X (LinearUnlimitedReconstruction strip_mesh rcs grs)
               = spec_LinearUnlimited strip_mesh rcs grs"
    by (simp_all add: X_def with_spec_models_def)
  define uleftA where
    "uleftA = face_cell_states (m E) (block_of strip_step) 0 0 (gnbface (m E)) (uleft0 sc)"
  define up where "up = assign_range 0 (gnelem (m E))
                (\<lambda>iel. getPrimitiveFromConserved X (physics E) (block_of strip_step iel))
                (up0 sc)"
  from second_order_face_states [OF so ret] lim obtain fv where
    ug: "ug = assign_range 0 (gnbface (m E))
             (\<lambda>f. getPrimitiveFromConserved X (physics E) (ghost_row X E uleftA f))
             (assign_range 0 (gnbface (m E)) (ghost_row X E uleftA) (ug0 sc))"
    and grads: "grads = compute_gradients X (gradcomp E) up ug"
    and fv: "fv = compute_face_values X (LinearUnlimitedReconstruction strip_mesh rcs grs)
                    up ug grads uleftA (uright0 sc)"
    and uleft: "\<forall>f<gnaface (m E). uleft f = getConservedFromPrimitive X (physics E) (fst fv f)"
    and uright: "uright = assign_range 0 (gnbface (m E)) (ghost_row X E uleft)
                 (assign_range (gnbface (m E)) (gnaface (m E))
                    (\<lambda>f. getConservedFromPrimitive X (physics E) (snd fv f)) (snd fv))"
    unfolding uleftA_def up_def by auto
  have bc0: "bcs E (gintfacbtags (m E) 0 0) = Some (Extrapolation 4 strip_physics)"
    and bc1: "bcs E (gintfacbtags (m E) 1 0) = Some (Extrapolation 4 strip_physics)"
    by (simp_all add: E_def strip_engine_sel strip_tags strip_bcs)
  have "uright 0 0 = ghost_row X E uleft 0 0"
    by (subst uright) (simp add: assign_range_def sizes)
  also have "\<dots> = uleft 1 0"
    using ghost_row_cases(2) [OF bc0 face0(2) face0(3)] by (simp add: pm)
  also have "\<dots> = fst fv 1 0"
    using uleft by (simp add: sizes Xc spec_getConservedFromPrimitive_def)
  finally have step1: "uright 0 0 = fst fv 1 0" .
  have up0: "up 0 0 = 1" and up1: "up (Suc 0) 0 = 2"
    by (simp_all add: up_def assign_range_def sizes Xp spec_getPrimitiveFromConserved_def
          block_of_def NVARS_def strip_step_def)
  have "ug (Suc 0) 0 = ghost_row X E uleftA (Suc 0) 0"
    by (subst ug) (simp add: assign_range_def sizes Xp spec_getPrimitiveFromConserved_def)
  also have "\<dots> = uleftA 0 0"
    using ghost_row_cases(2) [OF bc1 face1(2) face0(3)] by (simp add: pm)
  also have "\<dots> = 1"
    by (simp add: uleftA_def face_cell_states_entry sizes NVARS_def cells block_of_def
          strip_step_def)
  finally have ug1: "ug (Suc 0) 0 = 1" .
  have "grads (Suc 0) 0 0 = spec_GreenGauss strip_mesh rcs up ug (Suc 0) 0 0"
    by (simp only: grads gc Xg)
  also have "\<dots> = 1 / 12"
    unfolding rcs_def by (rule strip_green_gauss [of up ug, OF up0 up1 ug1])
  finally have gx: "grads (Suc 0) 0 0 = 1 / 12" .
  have "fst fv 1 0 = up (Suc 0) 0 + (grads (Suc 0) 0 0 * (grs (Suc 0) 0 0 - rcs (Suc 0) 0)
                      + grads (Suc 0) (Suc 0) 0 * (grs (Suc 0) 0 (Suc 0) - rcs (Suc 0) (Suc 0)))"
    by (simp add: fv Xf spec_LinearUnlimited_def Let_def assign_range_def strip_mesh_simps
          strip_gintfac upt_NDIM)
  also have "\<dots> = 2 + 1 / 12"
    by (simp add: up1 gx grs_def rcs_def strip_gr1 strip_rc)
  finally have "fst fv 1 0 = 25 / 12" by simp
  with step1 said show False by simp
qed

text \<open>
  Claim C4, amended.  Let \<open>f\<close> be a boundary face with the periodic marker whose paired face
  is a boundary face, in an evaluation that reaches the flux loop.  First order: the ghost
  (right) state of \<open>f\<close> equals the cell state of the left cell of the paired face.  Second
  order: the ghost state \<open>ug f\<close> used for gradients and reconstruction is the primitive form of
  that cell state, whereas the right state of \<open>f\<close> fed to the fluxes equals the left state of
  the paired face, which is the reconstructed left face value there converted to conserved
  variables.
\<close>

theorem periodic_ghost_state:
  assumes ret: "residual_face_states X eng sc uarr = Inr (ug, grads, uleft, uright)"
      and f: "f < gnbface (m eng)"
      and per: "gintfacbtags (m eng) f 0 = periodic_id (bcconf (pconfig eng))"
      and pf: "gperiodicmap (m eng) f < gnbface (m eng)"
      and i: "i < NVARS"
  shows "(\<not> secondOrderRequested eng \<longrightarrow>
            uright f i = block_of uarr (gintfac (m eng) (gperiodicmap (m eng) f) 0) i)
       \<and> (secondOrderRequested eng \<longrightarrow>
            uright f i = uleft (gperiodicmap (m eng) f) i
          \<and> (\<exists>l w. lim_recon eng = Some l
                \<and> (\<forall>k<NVARS. w k = block_of uarr (gintfac (m eng) (gperiodicmap (m eng) f) 0) k)
                \<and> ug f = getPrimitiveFromConserved X (physics eng) w
                \<and> (gperiodicmap (m eng) f < gnaface (m eng) \<longrightarrow>
                   uleft (gperiodicmap (m eng) f) =
                     getConservedFromPrimitive X (physics eng)
                       (fst (compute_face_values X l
                               (assign_range 0 (gnelem (m eng))
                                  (\<lambda>iel. getPrimitiveFromConserved X (physics eng)
                                           (block_of uarr iel)) (up0 sc))
                               ug grads
                               (face_cell_states (m eng) (block_of uarr) 0 0 (gnbface (m eng))
                                  (uleft0 sc))
                               (uright0 sc))
                          (gperiodicmap (m eng) f)))))"
proof (intro conjI impI)
  have reg: "bc_registered eng" by (rule residual_face_states_returns(1) [OF ret])
  from bc_registered_face [OF reg f] obtain bc where
    bc: "bcs eng (gintfacbtags (m eng) f 0) = Some bc" by blast
  {
    assume fo: "\<not> secondOrderRequested eng"
    define UL where "UL = face_cell_states (m eng) (block_of uarr) 0 (gnbface (m eng))
                            (gnaface (m eng))
                            (face_cell_states (m eng) (block_of uarr) 0 0 (gnbface (m eng))
                               (uleft0 sc))"
    from ret residual_face_states_registered(1) [OF reg fo, of X sc uarr]
    have "uright = assign_range 0 (gnbface (m eng)) (ghost_row X eng UL)
                     (face_cell_states (m eng) (block_of uarr) 1 (gnbface (m eng))
                        (gnaface (m eng)) (uright0 sc))"
      by (auto simp: Let_def UL_def)
    then have "uright f i = ghost_row X eng UL f i"
      using f by (simp add: assign_range_def)
    also have "\<dots> = UL (gperiodicmap (m eng) f) i"
      by (rule ghost_row_cases(2) [OF bc per i])
    also have "\<dots> = block_of uarr (gintfac (m eng) (gperiodicmap (m eng) f) 0) i"
      using pf i by (simp add: UL_def face_cell_states_other face_cell_states_entry)
    finally show "uright f i = block_of uarr (gintfac (m eng) (gperiodicmap (m eng) f) 0) i" .
  }
  {
    assume so: "secondOrderRequested eng"
    define uleftA where
      "uleftA = face_cell_states (m eng) (block_of uarr) 0 0 (gnbface (m eng)) (uleft0 sc)"
    from second_order_face_states [OF so ret] obtain l fv where
      l: "lim_recon eng = Some l"
      and ug: "ug = assign_range 0 (gnbface (m eng))
             (\<lambda>f. getPrimitiveFromConserved X (physics eng) (ghost_row X eng uleftA f))
             (assign_range 0 (gnbface (m eng)) (ghost_row X eng uleftA) (ug0 sc))"
      and fv: "fv = compute_face_values X l
             (assign_range 0 (gnelem (m eng))
                (\<lambda>iel. getPrimitiveFromConserved X (physics eng) (block_of uarr iel)) (up0 sc))
             ug grads uleftA (uright0 sc)"
      and uleft: "\<forall>f<gnaface (m eng).
                  uleft f = getConservedFromPrimitive X (physics eng) (fst fv f)"
      and uright: "uright = assign_range 0 (gnbface (m eng)) (ghost_row X eng uleft)
                 (assign_range (gnbface (m eng)) (gnaface (m eng))
                    (\<lambda>f. getConservedFromPrimitive X (physics eng) (snd fv f)) (snd fv))"
      unfolding uleftA_def by blast
    have "uright f i = ghost_row X eng uleft f i"
      using f by (subst uright) (simp add: assign_range_def)
    then show "uright f i = uleft (gperiodicmap (m eng) f) i"
      using ghost_row_cases(2) [OF bc per i] by simp
    have w: "\<forall>k<NVARS. ghost_row X eng uleftA f k
                           = block_of uarr (gintfac (m eng) (gperiodicmap (m eng) f) 0) k"
      using pf by (simp add: ghost_row_cases(2) [OF bc per] uleftA_def face_cell_states_entry)
    have ugf: "ug f = getPrimitiveFromConserved X (physics eng) (ghost_row X eng uleftA f)"
      using f by (subst ug) (simp add: assign_range_def)
    from l w ugf uleft fv
    show "\<exists>l w. lim_recon eng = Some l
                \<and> (\<forall>k<NVARS. w k = block_of uarr (gintfac (m eng) (gperiodicmap (m eng) f) 0) k)
                \<and> ug f = getPrimitiveFromConserved X (physics eng) w
                \<and> (gperiodicmap (m eng) f < gnaface (m eng) \<longrightarrow>
                   uleft (gperiodicmap (m eng) f) =
                     getConservedFromPrimitive X (physics eng)
                       (fst (compute_face_values X l
                               (assign_range 0 (gnelem (m eng))
                                  (\<lambda>iel. getPrimitiveFromConserved X (physics eng)
                                           (block_of uarr iel)) (up0 sc))
                               ug grads
                               (face_cell_states (m eng) (block_of uarr) 0 0 (gnbface (m eng))
                                  (uleft0 sc))
                               (uright0 sc))
                          (gperiodicmap (m eng) f)))"
      unfolding uleftA_def by blast
  }
qed

theorem periodic_ghost_state_witness:
  "\<forall>X sc. (let E = strip_engine True False;
                s = projr (residual_face_states X E sc strip_uarr);
                E1 = strip_engine False False;
                s1 = projr (residual_face_states X E1 sc strip_uarr)
            in residual_face_states X E sc strip_uarr
                 = Inr (fst s, fst (snd s), fst (snd (snd s)), snd (snd (snd s)))
             \<and> residual_face_states X E1 sc strip_uarr
                 = Inr (fst s1, fst (snd s1), fst (snd (snd s1)), snd (snd (snd s1)))
             \<and> 0 < gnbface (m E) \<and> 0 < gnbface (m E1)
             \<and> gintfacbtags (m E) 0 0 = periodic_id (bcconf (pconfig E))
             \<and> gintfacbtags (m E1) 0 0 = periodic_id (bcconf (pconfig E1))
             \<and> gperiodicmap (m E) 0 < gnbface (m E)
             \<and> gperiodicmap (m E1) 0 < gnbface (m E1)
             \<and> (0 :: nat) < NVARS
             \<and> snd (snd (snd s)) 0 0 = fst (snd (snd s)) 1 0
             \<and> snd (snd (snd s1)) 0 0 = strip_uarr 4)"
proof (intro allI)
  fix X :: Externs and sc :: Scratch
  define E where "E = strip_engine True False"
  define s where "s = projr (residual_face_states X E sc strip_uarr)"
  define E1 where "E1 = strip_engine False False"
  define s1 where "s1 = projr (residual_face_states X E1 sc strip_uarr)"
  have h: "residual_face_states X E sc strip_uarr
              = Inr (fst s, fst (snd s), fst (snd (snd s)), snd (snd (snd s)))"
    using residual_face_states_total [of E X sc strip_uarr]
    unfolding s_def E_def by (auto simp: strip_bc_registered strip_fluxes)
  have h1: "residual_face_states X E1 sc strip_uarr
              = Inr (fst s1, fst (snd s1), fst (snd (snd s1)), snd (snd (snd s1)))"
    using residual_face_states_total [of E1 X sc strip_uarr]
    unfolding s1_def E1_def by (auto simp: strip_bc_registered strip_fluxes)
  have g: "0 < gnbface (m E)" "gintfacbtags (m E) 0 0 = periodic_id (bcconf (pconfig E))"
    "gperiodicmap (m E) 0 < gnbface (m E)" "(0 :: nat) < NVARS"
    and g1: "0 < gnbface (m E1)" "gintfacbtags (m E1) 0 0 = periodic_id (bcconf (pconfig E1))"
    "gperiodicmap (m E1) 0 < gnbface (m E1)"
    and so: "secondOrderRequested E" "\<not> secondOrderRequested E1"
    and pm: "gperiodicmap (m E) 0 = 1" "gintfac (m E1) (gperiodicmap (m E1) 0) 0 = 1"
    by (simp_all add: E_def E1_def strip_engine_sel strip_mesh_simps strip_tags strip_periodic
          NVARS_def strip_gintfac)
  from periodic_ghost_state [OF h g] so pm
  have e: "snd (snd (snd s)) 0 0 = fst (snd (snd s)) 1 0"
    by simp
  from periodic_ghost_state [OF h1 g1 g(4)] so pm
  have e1: "snd (snd (snd s1)) 0 0 = strip_uarr 4"
    by (simp add: block_of_def NVARS_def)
  show "let E = strip_engine True False;
                s = projr (residual_face_states X E sc strip_uarr);
                E1 = strip_engine False False;
                s1 = projr (residual_face_states X E1 sc strip_uarr)
            in residual_face_states X E sc strip_uarr
                 = Inr (fst s, fst (snd s), fst (snd (snd s)), snd (snd (snd s)))
             \<and> residual_face_states X E1 sc strip_uarr
                 = Inr (fst s1, fst (snd s1), fst (snd (snd s1)), snd (snd (snd s1)))
             \<and> 0 < gnbface (m E) \<and> 0 < gnbface (m E1)
             \<and> gintfacbtags (m E) 0 0 = periodic_id (bcconf (pconfig E))
             \<and> gintfacbtags (m E1) 0 0 = periodic_id (bcconf (pconfig E1))
             \<and> gperiodicmap (m E) 0 < gnbface (m E)
             \<and> gperiodicmap (m E1) 0 < gnbface (m E1)
             \<and> (0 :: nat) < NVARS
             \<and> snd (snd (snd s)) 0 0 = fst (snd (snd s)) 1 0
             \<and> snd (snd (snd s1)) 0 0 = strip_uarr 4"
    unfolding Let_def E_def [symmetric] s_def [symmetric] E1_def [symmetric] s1_def [symmetric]
    using h h1 g g1 e e1 by blast
qed

section \<open>Jacobian assembly in closed form\<close>

lemma additive_updateD: "additive_update F \<Longrightarrow> F a k = a k + F (\<lambda>k. 0) k"
  unfolding additive_update_def by (erule allE [of _ a]) (erule fun_cong)

lemma additive_updateI: "(\<And>a k. F a k = a k + F (\<lambda>k. 0) k) \<Longrightarrow> additive_update F"
  unfolding additive_update_def by (intro allI ext) blast

lemma additive_update_point: "additive_update (\<lambda>a. a (i := a i + v))"
  by (rule additive_updateI) simp

lemma additive_update_comp:
  assumes F: "additive_update F" and G: "additive_update G"
  shows "additive_update (\<lambda>a. F (G a))"
proof (rule additive_updateI)
  fix a k
  have "F (G a) k = G a k + F (\<lambda>k. 0) k" by (rule additive_updateD [OF F])
  also have "G a k = a k + G (\<lambda>k. 0) k" by (rule additive_updateD [OF G])
  finally have 1: "F (G a) k = a k + G (\<lambda>k. 0) k + F (\<lambda>k. 0) k" .
  have "F (G (\<lambda>k. 0)) k = G (\<lambda>k. 0) k + F (\<lambda>k. 0) k" by (rule additive_updateD [OF F])
  with 1 show "F (G a) k = a k + F (G (\<lambda>k. 0)) k" by simp
qed

lemma additive_update_fold:
  assumes "\<And>x. x \<in> set xs \<Longrightarrow> additive_update (F x)"
  shows "additive_update (fold F xs)"
  using assms
proof (induction xs)
  case Nil
  show ?case by (rule additive_updateI) simp
next
  case (Cons x xs)
  have "additive_update (\<lambda>a. fold F xs (F x a))"
    by (rule additive_update_comp) (simp_all add: Cons)
  then show ?case by (simp add: comp_def)
qed

lemma momentum_additive:
  "additive_update (\<lambda>dvf.
             fold (\<lambda>i a. fold (\<lambda>j a. fold (\<lambda>k a.
                     a ((i + 1) * NVARS + k :=
                          a ((i + 1) * NVARS + k) + s * (dstress i j k * metric j)))
                   [0..<NVARS] a) [0..<NDIM] a) [0..<NDIM] dvf)"
  by (intro additive_update_fold additive_update_point)

lemma energy_additive:
  "additive_update (\<lambda>dvf.
             fold (\<lambda>i a.
                     let dcomp = D i
                     in fold (\<lambda>k a.
                           a ((NVARS - 1) * NVARS + k :=
                                a ((NVARS - 1) * NVARS + k) + s * (dcomp k * metric i)))
                          [0..<NVARS] a)
               [0..<NDIM] dvf)"
  unfolding Let_def by (intro additive_update_fold additive_update_point)

lemma computeViscousFluxJacobian_additive:
  "computeViscousFluxJacobian X eng f ul ur a b =
     ((\<lambda>k. a k + fst (computeViscousFluxJacobian X eng f ul ur (\<lambda>k. 0) (\<lambda>k. 0)) k),
      (\<lambda>k. b k + snd (computeViscousFluxJacobian X eng f ul ur (\<lambda>k. 0) (\<lambda>k. 0)) k))"
proof -
  note c1 = additive_updateD [OF additive_update_comp [OF energy_additive momentum_additive],
              unfolded Let_def]
  show ?thesis
    unfolding computeViscousFluxJacobian_def
    apply (simp only: Let_def split_def fst_conv snd_conv prod.inject)
    apply (intro conjI ext)
     apply (rule c1)
    apply (rule c1)
    done
qed

lemma bface_fold_entry:
  "fold (\<lambda>f A. MatSetValuesBlocked_ADD A (l f) (l f) (raw (B f))) fs A r c =
     A r c + (\<Sum>f\<leftarrow>fs. if r div NVARS = l f \<and> c div NVARS = l f
                      then B f (r mod NVARS) (c mod NVARS) else 0)"
  by (induction fs arbitrary: A) (simp_all add: MatSetValuesBlocked_ADD_entry)

lemma iface_fold_entry:
  "fold (\<lambda>f A. MatSetValuesBlocked_ADD
                 (MatSetValuesBlocked_ADD
                    (MatSetValuesBlocked_ADD
                       (MatSetValuesBlocked_ADD A (rt f) (lt f) (raw (L f)))
                       (lt f) (rt f) (raw (U f)))
                    (lt f) (lt f) (raw (L' f)))
                 (rt f) (rt f) (raw (U' f))) fs A r c =
     A r c + (\<Sum>f\<leftarrow>fs.
                (if r div NVARS = rt f \<and> c div NVARS = lt f
                 then L f (r mod NVARS) (c mod NVARS) else 0)
              + (if r div NVARS = lt f \<and> c div NVARS = rt f
                 then U f (r mod NVARS) (c mod NVARS) else 0)
              + (if r div NVARS = lt f \<and> c div NVARS = lt f
                 then L' f (r mod NVARS) (c mod NVARS) else 0)
              + (if r div NVARS = rt f \<and> c div NVARS = rt f
                 then U' f (r mod NVARS) (c mod NVARS) else 0))"
  by (induction fs arbitrary: A) (simp_all add: MatSetValuesBlocked_ADD_entry)

lemma flux_jacobians_face_jacobian:
  "jflux eng \<noteq> None \<Longrightarrow> flux_jacobians X eng f ul ur = Inr (face_jacobian X eng f ul ur)"
  by (auto simp: face_jacobian_def flux_jacobians_def Let_def split: prod.splits)

lemma compute_boundary_Jacobian_registered:
  "bcs eng (gintfacbtags (m eng) f 0) \<noteq> None \<Longrightarrow>
     compute_boundary_Jacobian X eng f (block_of uarr (gintfac (m eng) f 0)) =
       Inr (boundary_jacobian X eng uarr f)"
  by (auto simp: boundary_jacobian_def compute_boundary_Jacobian_def Let_def)

lemma jacobian_bface_step_pure:
  assumes "bcs eng (gintfacbtags (m eng) f 0) \<noteq> None" and "jflux eng \<noteq> None"
  shows "jacobian_bface_step X eng uarr A f =
     Inr (MatSetValuesBlocked_ADD A (gintfac (m eng) f 0) (gintfac (m eng) f 0)
            (raw (block_scale (- gfacemetric (m eng) f 2)
                   (block_sub
                      (fst (face_jacobian X eng f (block_of uarr (gintfac (m eng) f 0))
                              (fst (boundary_jacobian X eng uarr f))))
                      (block_mult
                         (snd (face_jacobian X eng f (block_of uarr (gintfac (m eng) f 0))
                                 (fst (boundary_jacobian X eng uarr f))))
                         (snd (boundary_jacobian X eng uarr f)))))))"
  by (simp add: jacobian_bface_step_def Let_def
        compute_boundary_Jacobian_registered [OF assms(1)]
        flux_jacobians_face_jacobian [OF assms(2)] split_def)

lemma jacobian_iface_step_pure:
  assumes "jflux eng \<noteq> None"
  shows "jacobian_iface_step X eng uarr A f =
     Inr (MatSetValuesBlocked_ADD
            (MatSetValuesBlocked_ADD
               (MatSetValuesBlocked_ADD
                  (MatSetValuesBlocked_ADD A (gintfac (m eng) f 1) (gintfac (m eng) f 0)
                     (raw (block_scale (gfacemetric (m eng) f 2)
                        (fst (face_jacobian X eng f (block_of uarr (gintfac (m eng) f 0))
                                (block_of uarr (gintfac (m eng) f 1)))))))
                  (gintfac (m eng) f 0) (gintfac (m eng) f 1)
                  (raw (block_scale (gfacemetric (m eng) f 2)
                     (snd (face_jacobian X eng f (block_of uarr (gintfac (m eng) f 0))
                             (block_of uarr (gintfac (m eng) f 1)))))))
               (gintfac (m eng) f 0) (gintfac (m eng) f 0)
               (raw (block_scale (- 1)
                  (block_scale (gfacemetric (m eng) f 2)
                     (fst (face_jacobian X eng f (block_of uarr (gintfac (m eng) f 0))
                             (block_of uarr (gintfac (m eng) f 1))))))))
            (gintfac (m eng) f 1) (gintfac (m eng) f 1)
            (raw (block_scale (- 1)
               (block_scale (gfacemetric (m eng) f 2)
                  (snd (face_jacobian X eng f (block_of uarr (gintfac (m eng) f 0))
                          (block_of uarr (gintfac (m eng) f 1))))))))"
  by (simp add: jacobian_iface_step_def Let_def flux_jacobians_face_jacobian [OF assms]
        split_def)

lemma face_jacobian_parts:
  assumes jf: "jflux eng = Some jf" and k: "k < NVARS"
  shows "fst (face_jacobian X eng f ul ur) i k =
           fst (get_jacobian X jf ul ur (gfacemetric (m eng) f)) i k
           + (if viscous_sim (pconfig eng)
              then fst (computeViscousFluxJacobian X eng f ul ur (\<lambda>k. 0) (\<lambda>k. 0))
                     (i * NVARS + k)
              else 0)"
    and "snd (face_jacobian X eng f ul ur) i k =
           snd (get_jacobian X jf ul ur (gfacemetric (m eng) f)) i k
           + (if viscous_sim (pconfig eng)
              then snd (computeViscousFluxJacobian X eng f ul ur (\<lambda>k. 0) (\<lambda>k. 0))
                     (i * NVARS + k)
              else 0)"
proof -
  obtain l0 r0 where g: "get_jacobian X jf ul ur (gfacemetric (m eng) f) = (l0, r0)"
    by (cases "get_jacobian X jf ul ur (gfacemetric (m eng) f)")
  have vis: "computeViscousFluxJacobian X eng f ul ur (raw l0) (raw r0) =
     ((\<lambda>k. raw l0 k + fst (computeViscousFluxJacobian X eng f ul ur (\<lambda>k. 0) (\<lambda>k. 0)) k),
      (\<lambda>k. raw r0 k + snd (computeViscousFluxJacobian X eng f ul ur (\<lambda>k. 0) (\<lambda>k. 0)) k))"
    by (rule computeViscousFluxJacobian_additive)
  have rw: "raw M (i * NVARS + k) = M i k" for M :: Block
    using k by (simp add: raw_def NVARS_divmod)
  show "fst (face_jacobian X eng f ul ur) i k =
           fst (get_jacobian X jf ul ur (gfacemetric (m eng) f)) i k
           + (if viscous_sim (pconfig eng)
              then fst (computeViscousFluxJacobian X eng f ul ur (\<lambda>k. 0) (\<lambda>k. 0))
                     (i * NVARS + k)
              else 0)"
    by (simp add: face_jacobian_def flux_jacobians_def jf g vis block_of_def rw)
  show "snd (face_jacobian X eng f ul ur) i k =
           snd (get_jacobian X jf ul ur (gfacemetric (m eng) f)) i k
           + (if viscous_sim (pconfig eng)
              then snd (computeViscousFluxJacobian X eng f ul ur (\<lambda>k. 0) (\<lambda>k. 0))
                     (i * NVARS + k)
              else 0)"
    by (simp add: face_jacobian_def flux_jacobians_def jf g vis block_of_def rw)
qed

lemma compute_jacobian_closed:
  assumes sz: "local_size uvec mod NVARS = 0" "local_size uvec div NVARS = gnelem (m eng)"
      and reg: "bc_registered eng"
      and jf: "jflux eng \<noteq> None"
  shows "\<exists>A'. compute_jacobian X eng uvec A = Inr (0, A')
      \<and> (\<forall>r c. A' r c = A r c
           + (\<Sum>f\<leftarrow>[0..<gnbface (m eng)].
                if r div NVARS = gintfac (m eng) f 0 \<and> c div NVARS = gintfac (m eng) f 0
                then block_scale (- gfacemetric (m eng) f 2)
                   (block_sub
                      (fst (face_jacobian X eng f (block_of (array uvec) (gintfac (m eng) f 0))
                              (fst (boundary_jacobian X eng (array uvec) f))))
                      (block_mult
                         (snd (face_jacobian X eng f
                                 (block_of (array uvec) (gintfac (m eng) f 0))
                                 (fst (boundary_jacobian X eng (array uvec) f))))
                         (snd (boundary_jacobian X eng (array uvec) f))))
                     (r mod NVARS) (c mod NVARS)
                else 0)
           + (\<Sum>f\<leftarrow>[gnbface (m eng)..<gnaface (m eng)].
                (if r div NVARS = gintfac (m eng) f 1 \<and> c div NVARS = gintfac (m eng) f 0
                 then block_scale (gfacemetric (m eng) f 2)
                        (fst (face_jacobian X eng f
                                (block_of (array uvec) (gintfac (m eng) f 0))
                                (block_of (array uvec) (gintfac (m eng) f 1))))
                        (r mod NVARS) (c mod NVARS) else 0)
              + (if r div NVARS = gintfac (m eng) f 0 \<and> c div NVARS = gintfac (m eng) f 1
                 then block_scale (gfacemetric (m eng) f 2)
                        (snd (face_jacobian X eng f
                                (block_of (array uvec) (gintfac (m eng) f 0))
                                (block_of (array uvec) (gintfac (m eng) f 1))))
                        (r mod NVARS) (c mod NVARS) else 0)
              + (if r div NVARS = gintfac (m eng) f 0 \<and> c div NVARS = gintfac (m eng) f 0
                 then block_scale (- 1) (block_scale (gfacemetric (m eng) f 2)
                        (fst (face_jacobian X eng f
                                (block_of (array uvec) (gintfac (m eng) f 0))
                                (block_of (array uvec) (gintfac (m eng) f 1)))))
                        (r mod NVARS) (c mod NVARS) else 0)
              + (if r div NVARS = gintfac (m eng) f 1 \<and> c div NVARS = gintfac (m eng) f 1
                 then block_scale (- 1) (block_scale (gfacemetric (m eng) f 2)
                        (snd (face_jacobian X eng f
                                (block_of (array uvec) (gintfac (m eng) f 0))
                                (block_of (array uvec) (gintfac (m eng) f 1)))))
                        (r mod NVARS) (c mod NVARS) else 0)))"
proof -
  have b: "for_each (jacobian_bface_step X eng (array uvec)) [0..<gnbface (m eng)] A =
      Inr (fold (\<lambda>f A. MatSetValuesBlocked_ADD A (gintfac (m eng) f 0) (gintfac (m eng) f 0)
            (raw (block_scale (- gfacemetric (m eng) f 2)
                   (block_sub
                      (fst (face_jacobian X eng f (block_of (array uvec) (gintfac (m eng) f 0))
                              (fst (boundary_jacobian X eng (array uvec) f))))
                      (block_mult
                         (snd (face_jacobian X eng f
                                 (block_of (array uvec) (gintfac (m eng) f 0))
                                 (fst (boundary_jacobian X eng (array uvec) f))))
                         (snd (boundary_jacobian X eng (array uvec) f)))))))
           [0..<gnbface (m eng)] A)" (is "_ = Inr ?A1")
    using reg
    by (intro for_each_pure jacobian_bface_step_pure [OF _ jf])
       (auto simp: bc_registered_def list_all_iff)
  have i: "for_each (jacobian_iface_step X eng (array uvec))
             [gnbface (m eng)..<gnaface (m eng)] A1 =
      Inr (fold (\<lambda>f A. MatSetValuesBlocked_ADD
            (MatSetValuesBlocked_ADD
               (MatSetValuesBlocked_ADD
                  (MatSetValuesBlocked_ADD A (gintfac (m eng) f 1) (gintfac (m eng) f 0)
                     (raw (block_scale (gfacemetric (m eng) f 2)
                        (fst (face_jacobian X eng f
                                (block_of (array uvec) (gintfac (m eng) f 0))
                                (block_of (array uvec) (gintfac (m eng) f 1)))))))
                  (gintfac (m eng) f 0) (gintfac (m eng) f 1)
                  (raw (block_scale (gfacemetric (m eng) f 2)
                     (snd (face_jacobian X eng f
                             (block_of (array uvec) (gintfac (m eng) f 0))
                             (block_of (array uvec) (gintfac (m eng) f 1)))))))
               (gintfac (m eng) f 0) (gintfac (m eng) f 0)
               (raw (block_scale (- 1)
                  (block_scale (gfacemetric (m eng) f 2)
                     (fst (face_jacobian X eng f
                             (block_of (array uvec) (gintfac (m eng) f 0))
                             (block_of (array uvec) (gintfac (m eng) f 1))))))))
            (gintfac (m eng) f 1) (gintfac (m eng) f 1)
            (raw (block_scale (- 1)
               (block_scale (gfacemetric (m eng) f 2)
                  (snd (face_jacobian X eng f
                          (block_of (array uvec) (gintfac (m eng) f 0))
                          (block_of (array uvec) (gintfac (m eng) f 1))))))))
           [gnbface (m eng)..<gnaface (m eng)] A1)" for A1
    by (intro for_each_pure jacobian_iface_step_pure [OF jf])
  have "compute_jacobian X eng uvec A = Inr (0, projr (for_each (jacobian_iface_step X eng (array uvec))
             [gnbface (m eng)..<gnaface (m eng)] ?A1))"
    unfolding compute_jacobian_def Let_def by (simp add: sz b i)
  moreover have "\<forall>r c. projr (for_each (jacobian_iface_step X eng (array uvec))
             [gnbface (m eng)..<gnaface (m eng)] ?A1) r c = A r c
           + (\<Sum>f\<leftarrow>[0..<gnbface (m eng)].
                if r div NVARS = gintfac (m eng) f 0 \<and> c div NVARS = gintfac (m eng) f 0
                then block_scale (- gfacemetric (m eng) f 2)
                   (block_sub
                      (fst (face_jacobian X eng f (block_of (array uvec) (gintfac (m eng) f 0))
                              (fst (boundary_jacobian X eng (array uvec) f))))
                      (block_mult
                         (snd (face_jacobian X eng f
                                 (block_of (array uvec) (gintfac (m eng) f 0))
                                 (fst (boundary_jacobian X eng (array uvec) f))))
                         (snd (boundary_jacobian X eng (array uvec) f))))
                     (r mod NVARS) (c mod NVARS)
                else 0)
           + (\<Sum>f\<leftarrow>[gnbface (m eng)..<gnaface (m eng)].
                (if r div NVARS = gintfac (m eng) f 1 \<and> c div NVARS = gintfac (m eng) f 0
                 then block_scale (gfacemetric (m eng) f 2)
                        (fst (face_jacobian X eng f
                                (block_of (array uvec) (gintfac (m eng) f 0))
                                (block_of (array uvec) (gintfac (m eng) f 1))))
                        (r mod NVARS) (c mod NVARS) else 0)
              + (if r div NVARS = gintfac (m eng) f 0 \<and> c div NVARS = gintfac (m eng) f 1
                 then block_scale (gfacemetric (m eng) f 2)
                        (snd (face_jacobian X eng f
                                (block_of (array uvec) (gintfac (m eng) f 0))
                                (block_of (array uvec) (gintfac (m eng) f 1))))
                        (r mod NVARS) (c mod NVARS) else 0)
              + (if r div NVARS = gintfac (m eng) f 0 \<and> c div NVARS = gintfac (m eng) f 0
                 then block_scale (- 1) (block_scale (gfacemetric (m eng) f 2)
                        (fst (face_jacobian X eng f
                                (block_of (array uvec) (gintfac (m eng) f 0))
                                (block_of (array uvec) (gintfac (m eng) f 1)))))
                        (r mod NVARS) (c mod NVARS) else 0)
              + (if r div NVARS = gintfac (m eng) f 1 \<and> c div NVARS = gintfac (m eng) f 1
                 then block_scale (- 1) (block_scale (gfacemetric (m eng) f 2)
                        (snd (face_jacobian X eng f
                                (block_of (array uvec) (gintfac (m eng) f 0))
                                (block_of (array uvec) (gintfac (m eng) f 1)))))
                        (r mod NVARS) (c mod NVARS) else 0))"
    by (simp only: i sum.sel iface_fold_entry bface_fold_entry simp_thms)
  ultimately show ?thesis by blast
qed

lemma boundary_jacobian_registered:
  "bcs eng (gintfacbtags (m eng) f 0) = Some bc \<Longrightarrow>
     boundary_jacobian X eng uarr f =
       computeGhostStateAndJacobian X bc (block_of uarr (gintfac (m eng) f 0))
         (gnormal (m eng) f)"
  by (simp add: boundary_jacobian_def compute_boundary_Jacobian_def Let_def)

text \<open>
  Claim C3.  When the state vector has \<^verbatim>\<open>NVARS\<close> entries per cell, every boundary marker is
  registered and the Jacobian flux object is not null, \<^verbatim>\<open>compute_jacobian\<close> returns status 0
  and the matrix it leaves is the matrix it was given plus, entry by entry, the contributions
  of its two face loops.  Every boundary face \<open>f\<close> with left cell \<open>l\<close> contributes
  \<open>- len (L - R * drdl)\<close> to block \<open>(l, l)\<close>, where \<open>drdl\<close> is the derivative of the ghost state
  with respect to the interior state, returned by the face's boundary condition, and \<open>L\<close>, \<open>R\<close>
  are the flux Jacobians at the interior and the ghost state.  Every interior face with left
  cell \<open>l\<close>, right cell \<open>r\<close> and flux Jacobians \<open>L\<close>, \<open>U\<close> at the two cell states contributes
  \<open>len L\<close> to block \<open>(r, l)\<close>, \<open>len U\<close> to block \<open>(l, r)\<close>, \<open>- len L\<close> to block \<open>(l, l)\<close> and
  \<open>- len U\<close> to block \<open>(r, r)\<close>.  The flux Jacobians are those \<^verbatim>\<open>get_jacobian\<close> of the Jacobian
  flux scheme returns, plus, in a viscous simulation, what \<^verbatim>\<open>computeViscousFluxJacobian\<close> adds
  to them.  Entry \<open>(r, c)\<close> of the matrix lies in block \<open>(r div NVARS, c div NVARS)\<close> at
  position \<open>(r mod NVARS, c mod NVARS)\<close>.
\<close>

theorem jacobian_assembly_blocks:
  assumes sz1: "local_size uvec mod NVARS = 0"
      and sz2: "local_size uvec div NVARS = gnelem (m eng)"
      and reg: "bc_registered eng"
      and jf: "jflux eng = Some jf"
  shows "let msh = m eng;
             u = block_of (array uvec);
             lelem = (\<lambda>f. gintfac msh f 0);
             relem = (\<lambda>f. gintfac msh f 1);
             len = (\<lambda>f. gfacemetric msh f 2);
             G = boundary_jacobian X eng (array uvec);
             J = (\<lambda>f. face_jacobian X eng f (u (lelem f)) (fst (G f)));
             K = (\<lambda>f. face_jacobian X eng f (u (lelem f)) (u (relem f)))
         in (\<exists>A'. compute_jacobian X eng uvec A = Inr (0, A') \<and>
               (\<forall>r c. A' r c = A r c
                  + (\<Sum>f\<leftarrow>[0..<gnbface msh].
                       if r div NVARS = lelem f \<and> c div NVARS = lelem f
                       then - len f * (fst (J f) (r mod NVARS) (c mod NVARS)
                                       - (\<Sum>j<NVARS. snd (J f) (r mod NVARS) j
                                                       * snd (G f) j (c mod NVARS)))
                       else 0)
                  + (\<Sum>f\<leftarrow>[gnbface msh..<gnaface msh].
                       (if r div NVARS = relem f \<and> c div NVARS = lelem f
                        then len f * fst (K f) (r mod NVARS) (c mod NVARS) else 0)
                     + (if r div NVARS = lelem f \<and> c div NVARS = relem f
                        then len f * snd (K f) (r mod NVARS) (c mod NVARS) else 0)
                     + (if r div NVARS = lelem f \<and> c div NVARS = lelem f
                        then - (len f * fst (K f) (r mod NVARS) (c mod NVARS)) else 0)
                     + (if r div NVARS = relem f \<and> c div NVARS = relem f
                        then - (len f * snd (K f) (r mod NVARS) (c mod NVARS)) else 0))))
          \<and> (\<forall>f<gnbface msh. \<exists>bc.
                bcs eng (gintfacbtags msh f 0) = Some bc
              \<and> G f = computeGhostStateAndJacobian X bc (u (lelem f)) (gnormal msh f))
          \<and> (\<forall>f ul ur i. \<forall>k<NVARS.
                fst (face_jacobian X eng f ul ur) i k =
                  fst (get_jacobian X jf ul ur (gfacemetric msh f)) i k
                  + (if viscous_sim (pconfig eng)
                     then fst (computeViscousFluxJacobian X eng f ul ur (\<lambda>k. 0) (\<lambda>k. 0))
                            (i * NVARS + k)
                     else 0)
              \<and> snd (face_jacobian X eng f ul ur) i k =
                  snd (get_jacobian X jf ul ur (gfacemetric msh f)) i k
                  + (if viscous_sim (pconfig eng)
                     then snd (computeViscousFluxJacobian X eng f ul ur (\<lambda>k. 0) (\<lambda>k. 0))
                            (i * NVARS + k)
                     else 0))"
proof -
  from jf have jf': "jflux eng \<noteq> None" by simp
  have a: "\<exists>A'. compute_jacobian X eng uvec A = Inr (0, A') \<and>
               (\<forall>r c. A' r c = A r c
                  + (\<Sum>f\<leftarrow>[0..<gnbface (m eng)].
                       if r div NVARS = gintfac (m eng) f 0 \<and> c div NVARS = gintfac (m eng) f 0
                       then - gfacemetric (m eng) f 2 *
                          (fst (face_jacobian X eng f
                                  (block_of (array uvec) (gintfac (m eng) f 0))
                                  (fst (boundary_jacobian X eng (array uvec) f)))
                             (r mod NVARS) (c mod NVARS)
                           - (\<Sum>j<NVARS.
                                snd (face_jacobian X eng f
                                       (block_of (array uvec) (gintfac (m eng) f 0))
                                       (fst (boundary_jacobian X eng (array uvec) f)))
                                  (r mod NVARS) j
                                * snd (boundary_jacobian X eng (array uvec) f) j (c mod NVARS)))
                       else 0)
                  + (\<Sum>f\<leftarrow>[gnbface (m eng)..<gnaface (m eng)].
                       (if r div NVARS = gintfac (m eng) f 1 \<and> c div NVARS = gintfac (m eng) f 0
                        then gfacemetric (m eng) f 2 *
                             fst (face_jacobian X eng f
                                    (block_of (array uvec) (gintfac (m eng) f 0))
                                    (block_of (array uvec) (gintfac (m eng) f 1)))
                               (r mod NVARS) (c mod NVARS) else 0)
                     + (if r div NVARS = gintfac (m eng) f 0 \<and> c div NVARS = gintfac (m eng) f 1
                        then gfacemetric (m eng) f 2 *
                             snd (face_jacobian X eng f
                                    (block_of (array uvec) (gintfac (m eng) f 0))
                                    (block_of (array uvec) (gintfac (m eng) f 1)))
                               (r mod NVARS) (c mod NVARS) else 0)
                     + (if r div NVARS = gintfac (m eng) f 0 \<and> c div NVARS = gintfac (m eng) f 0
                        then - (gfacemetric (m eng) f 2 *
                             fst (face_jacobian X eng f
                                    (block_of (array uvec) (gintfac (m eng) f 0))
                                    (block_of (array uvec) (gintfac (m eng) f 1)))
                               (r mod NVARS) (c mod NVARS)) else 0)
                     + (if r div NVARS = gintfac (m eng) f 1 \<and> c div NVARS = gintfac (m eng) f 1
                        then - (gfacemetric (m eng) f 2 *
                             snd (face_jacobian X eng f
                                    (block_of (array uvec) (gintfac (m eng) f 0))
                                    (block_of (array uvec) (gintfac (m eng) f 1)))
                               (r mod NVARS) (c mod NVARS)) else 0)))"
    (is "\<exists>A'. _ \<and> (\<forall>r c. A' r c = ?rhs r c)")
  proof -
    from compute_jacobian_closed [OF sz1 sz2 reg jf', of X A]
    obtain A' where r: "compute_jacobian X eng uvec A = Inr (0, A')"
      and e: "\<forall>r c. A' r c = A r c
           + (\<Sum>f\<leftarrow>[0..<gnbface (m eng)].
                if r div NVARS = gintfac (m eng) f 0 \<and> c div NVARS = gintfac (m eng) f 0
                then block_scale (- gfacemetric (m eng) f 2)
                   (block_sub
                      (fst (face_jacobian X eng f (block_of (array uvec) (gintfac (m eng) f 0))
                              (fst (boundary_jacobian X eng (array uvec) f))))
                      (block_mult
                         (snd (face_jacobian X eng f
                                 (block_of (array uvec) (gintfac (m eng) f 0))
                                 (fst (boundary_jacobian X eng (array uvec) f))))
                         (snd (boundary_jacobian X eng (array uvec) f))))
                     (r mod NVARS) (c mod NVARS)
                else 0)
           + (\<Sum>f\<leftarrow>[gnbface (m eng)..<gnaface (m eng)].
                (if r div NVARS = gintfac (m eng) f 1 \<and> c div NVARS = gintfac (m eng) f 0
                 then block_scale (gfacemetric (m eng) f 2)
                        (fst (face_jacobian X eng f
                                (block_of (array uvec) (gintfac (m eng) f 0))
                                (block_of (array uvec) (gintfac (m eng) f 1))))
                        (r mod NVARS) (c mod NVARS) else 0)
              + (if r div NVARS = gintfac (m eng) f 0 \<and> c div NVARS = gintfac (m eng) f 1
                 then block_scale (gfacemetric (m eng) f 2)
                        (snd (face_jacobian X eng f
                                (block_of (array uvec) (gintfac (m eng) f 0))
                                (block_of (array uvec) (gintfac (m eng) f 1))))
                        (r mod NVARS) (c mod NVARS) else 0)
              + (if r div NVARS = gintfac (m eng) f 0 \<and> c div NVARS = gintfac (m eng) f 0
                 then block_scale (- 1) (block_scale (gfacemetric (m eng) f 2)
                        (fst (face_jacobian X eng f
                                (block_of (array uvec) (gintfac (m eng) f 0))
                                (block_of (array uvec) (gintfac (m eng) f 1)))))
                        (r mod NVARS) (c mod NVARS) else 0)
              + (if r div NVARS = gintfac (m eng) f 1 \<and> c div NVARS = gintfac (m eng) f 1
                 then block_scale (- 1) (block_scale (gfacemetric (m eng) f 2)
                        (snd (face_jacobian X eng f
                                (block_of (array uvec) (gintfac (m eng) f 0))
                                (block_of (array uvec) (gintfac (m eng) f 1)))))
                        (r mod NVARS) (c mod NVARS) else 0))"
      by blast
    have "\<forall>r c. A' r c = ?rhs r c"
      by (simp add: e block_scale_def block_sub_def block_mult_entry cong: if_cong)
    with r show ?thesis by blast
  qed
  have b: "\<forall>f<gnbface (m eng). \<exists>bc.
                bcs eng (gintfacbtags (m eng) f 0) = Some bc
              \<and> boundary_jacobian X eng (array uvec) f =
                  computeGhostStateAndJacobian X bc
                    (block_of (array uvec) (gintfac (m eng) f 0)) (gnormal (m eng) f)"
    using bc_registered_face [OF reg] boundary_jacobian_registered by blast
  have c: "\<forall>f ul ur i. \<forall>k<NVARS.
                fst (face_jacobian X eng f ul ur) i k =
                  fst (get_jacobian X jf ul ur (gfacemetric (m eng) f)) i k
                  + (if viscous_sim (pconfig eng)
                     then fst (computeViscousFluxJacobian X eng f ul ur (\<lambda>k. 0) (\<lambda>k. 0))
                            (i * NVARS + k)
                     else 0)
              \<and> snd (face_jacobian X eng f ul ur) i k =
                  snd (get_jacobian X jf ul ur (gfacemetric (m eng) f)) i k
                  + (if viscous_sim (pconfig eng)
                     then snd (computeViscousFluxJacobian X eng f ul ur (\<lambda>k. 0) (\<lambda>k. 0))
                            (i * NVARS + k)
                     else 0)"
    using face_jacobian_parts [OF jf] by blast
  show ?thesis
    unfolding Let_def using a b c by (intro conjI)
qed

theorem jacobian_assembly_blocks_witness:
  "\<forall>X. (let E = strip_engine False False;
             uv = \<lparr> local_size = 8, array = strip_uarr \<rparr>;
             G = boundary_jacobian X E strip_uarr;
             J = (\<lambda>f. face_jacobian X E f (block_of strip_uarr 0) (fst (G f)));
             K = face_jacobian X E 6 (block_of strip_uarr 0) (block_of strip_uarr 1);
             D = (\<lambda>f. fst (J f) 1 2 - (\<Sum>j<NVARS. snd (J f) 1 j * snd (G f) j 2))
         in local_size uv mod NVARS = 0
          \<and> local_size uv div NVARS = gnelem (m E)
          \<and> bc_registered E
          \<and> jflux E = Some (LocalLaxFriedrichsFlux strip_physics)
          \<and> (\<exists>A'. compute_jacobian X E uv (\<lambda>r c. 0) = Inr (0, A')
                \<and> A' 5 2 = fst K 1 2 \<and> A' 1 6 = snd K 1 2
                \<and> A' 1 2 = - D 0 - D 2 - D 5 - fst K 1 2)
          \<and> G 2 = computeGhostStateAndJacobian X (Slipwall 2 strip_physics)
                    (block_of strip_uarr 0) (gnormal strip_mesh 2)
          \<and> fst K 1 2 = fst (get_jacobian X (LocalLaxFriedrichsFlux strip_physics)
                               (block_of strip_uarr 0) (block_of strip_uarr 1)
                               (gfacemetric strip_mesh 6)) 1 2)"
proof (intro allI)
  fix X :: Externs
  define E where "E = strip_engine False False"
  define uv where "uv = \<lparr> local_size = 8, array = strip_uarr \<rparr>"
  define G where "G = boundary_jacobian X E strip_uarr"
  define J where "J = (\<lambda>f. face_jacobian X E f (block_of strip_uarr 0) (fst (G f)))"
  define K where "K = face_jacobian X E 6 (block_of strip_uarr 0) (block_of strip_uarr 1)"
  define D where "D = (\<lambda>f. fst (J f) 1 2 - (\<Sum>j<NVARS. snd (J f) 1 j * snd (G f) j 2))"
  have h1: "local_size uv mod NVARS = 0" and h2: "local_size uv div NVARS = gnelem (m E)"
    by (simp_all add: uv_def E_def strip_engine_sel strip_mesh_simps NVARS_def)
  have h3: "bc_registered E"
    unfolding E_def by (rule strip_bc_registered)
  have h4: "jflux E = Some (LocalLaxFriedrichsFlux strip_physics)"
    by (simp add: E_def strip_fluxes)
  have arr: "array uv = strip_uarr" by (simp add: uv_def)
  have msh: "m E = strip_mesh" by (simp add: E_def strip_engine_sel)
  have inv: "\<not> viscous_sim (pconfig E)"
    by (simp add: E_def strip_engine_sel strip_pconfig_def)
  have u67: "[6..<7] = [6]" by (simp add: upt_rec)
  note jab = jacobian_assembly_blocks [OF h1 h2 h3 h4, of X "\<lambda>r c. 0", unfolded Let_def arr msh]
  note jab1 = jab [THEN conjunct1]
  note jab2 = jab [THEN conjunct2, THEN conjunct1]
  note jab3 = jab [THEN conjunct2, THEN conjunct2]
  from jab1 obtain A' where
    ret: "compute_jacobian X E uv (\<lambda>r c. 0) = Inr (0, A')"
    and ent: "\<And>r c. A' r c = 0
                  + (\<Sum>f\<leftarrow>[0..<gnbface strip_mesh].
                       if r div NVARS = gintfac strip_mesh f 0
                          \<and> c div NVARS = gintfac strip_mesh f 0
                       then - gfacemetric strip_mesh f 2 *
                         (fst (face_jacobian X E f (block_of strip_uarr (gintfac strip_mesh f 0))
                                 (fst (boundary_jacobian X E strip_uarr f)))
                            (r mod NVARS) (c mod NVARS)
                          - (\<Sum>j<NVARS.
                               snd (face_jacobian X E f
                                      (block_of strip_uarr (gintfac strip_mesh f 0))
                                      (fst (boundary_jacobian X E strip_uarr f)))
                                 (r mod NVARS) j
                               * snd (boundary_jacobian X E strip_uarr f) j (c mod NVARS)))
                       else 0)
                  + (\<Sum>f\<leftarrow>[gnbface strip_mesh..<gnaface strip_mesh].
                       (if r div NVARS = gintfac strip_mesh f 1
                           \<and> c div NVARS = gintfac strip_mesh f 0
                        then gfacemetric strip_mesh f 2 *
                             fst (face_jacobian X E f
                                    (block_of strip_uarr (gintfac strip_mesh f 0))
                                    (block_of strip_uarr (gintfac strip_mesh f 1)))
                               (r mod NVARS) (c mod NVARS) else 0)
                     + (if r div NVARS = gintfac strip_mesh f 0
                           \<and> c div NVARS = gintfac strip_mesh f 1
                        then gfacemetric strip_mesh f 2 *
                             snd (face_jacobian X E f
                                    (block_of strip_uarr (gintfac strip_mesh f 0))
                                    (block_of strip_uarr (gintfac strip_mesh f 1)))
                               (r mod NVARS) (c mod NVARS) else 0)
                     + (if r div NVARS = gintfac strip_mesh f 0
                           \<and> c div NVARS = gintfac strip_mesh f 0
                        then - (gfacemetric strip_mesh f 2 *
                             fst (face_jacobian X E f
                                    (block_of strip_uarr (gintfac strip_mesh f 0))
                                    (block_of strip_uarr (gintfac strip_mesh f 1)))
                               (r mod NVARS) (c mod NVARS)) else 0)
                     + (if r div NVARS = gintfac strip_mesh f 1
                           \<and> c div NVARS = gintfac strip_mesh f 1
                        then - (gfacemetric strip_mesh f 2 *
                             snd (face_jacobian X E f
                                    (block_of strip_uarr (gintfac strip_mesh f 0))
                                    (block_of strip_uarr (gintfac strip_mesh f 1)))
                               (r mod NVARS) (c mod NVARS)) else 0))"
    by (elim exE conjE) blast
  from jab2 have tieG: "\<forall>f<gnbface strip_mesh. \<exists>bc.
                bcs E (gintfacbtags strip_mesh f 0) = Some bc
              \<and> boundary_jacobian X E strip_uarr f =
                  computeGhostStateAndJacobian X bc
                    (block_of strip_uarr (gintfac strip_mesh f 0)) (gnormal strip_mesh f)"
    .
  from jab3 have tieK: "\<forall>f ul ur i. \<forall>k<NVARS.
                fst (face_jacobian X E f ul ur) i k =
                  fst (get_jacobian X (LocalLaxFriedrichsFlux strip_physics) ul ur
                         (gfacemetric strip_mesh f)) i k
                  + (if viscous_sim (pconfig E)
                     then fst (computeViscousFluxJacobian X E f ul ur (\<lambda>k. 0) (\<lambda>k. 0))
                            (i * NVARS + k)
                     else 0)
              \<and> snd (face_jacobian X E f ul ur) i k =
                  snd (get_jacobian X (LocalLaxFriedrichsFlux strip_physics) ul ur
                         (gfacemetric strip_mesh f)) i k
                  + (if viscous_sim (pconfig E)
                     then snd (computeViscousFluxJacobian X E f ul ur (\<lambda>k. 0) (\<lambda>k. 0))
                            (i * NVARS + k)
                     else 0)"
    .
  have e1: "A' 5 2 = fst K 1 2"
    by (subst ent)
       (simp add: strip_mesh_simps upt_6 u67 strip_gintfac strip_gfacemetric NVARS_def K_def)
  have e2: "A' 1 6 = snd K 1 2"
    by (subst ent)
       (simp add: strip_mesh_simps upt_6 u67 strip_gintfac strip_gfacemetric NVARS_def K_def)
  have e3: "A' 1 2 = - D 0 - D 2 - D 5 - fst K 1 2"
    by (subst ent)
       (simp add: strip_mesh_simps upt_6 u67 strip_gintfac strip_gfacemetric NVARS_def K_def
          D_def J_def G_def)
  have e4: "G 2 = computeGhostStateAndJacobian X (Slipwall 2 strip_physics)
                    (block_of strip_uarr 0) (gnormal strip_mesh 2)"
    using tieG [rule_format, of 2]
    by (simp add: strip_mesh_simps strip_tags E_def strip_bcs strip_gintfac G_def)
  have e5: "fst K 1 2 = fst (get_jacobian X (LocalLaxFriedrichsFlux strip_physics)
                               (block_of strip_uarr 0) (block_of strip_uarr 1)
                               (gfacemetric strip_mesh 6)) 1 2"
    using tieK [rule_format, of 2 6 "block_of strip_uarr 0" "block_of strip_uarr 1" 1] inv
    by (simp add: K_def NVARS_def)
  have ex: "\<exists>A'. compute_jacobian X E uv (\<lambda>r c. 0) = Inr (0, A')
                \<and> A' 5 2 = fst K 1 2 \<and> A' 1 6 = snd K 1 2
                \<and> A' 1 2 = - D 0 - D 2 - D 5 - fst K 1 2"
    using ret e1 e2 e3 by (intro exI [of _ A'] conjI)
  show "let E = strip_engine False False;
             uv = \<lparr> local_size = 8, array = strip_uarr \<rparr>;
             G = boundary_jacobian X E strip_uarr;
             J = (\<lambda>f. face_jacobian X E f (block_of strip_uarr 0) (fst (G f)));
             K = face_jacobian X E 6 (block_of strip_uarr 0) (block_of strip_uarr 1);
             D = (\<lambda>f. fst (J f) 1 2 - (\<Sum>j<NVARS. snd (J f) 1 j * snd (G f) j 2))
         in local_size uv mod NVARS = 0
          \<and> local_size uv div NVARS = gnelem (m E)
          \<and> bc_registered E
          \<and> jflux E = Some (LocalLaxFriedrichsFlux strip_physics)
          \<and> (\<exists>A'. compute_jacobian X E uv (\<lambda>r c. 0) = Inr (0, A')
                \<and> A' 5 2 = fst K 1 2 \<and> A' 1 6 = snd K 1 2
                \<and> A' 1 2 = - D 0 - D 2 - D 5 - fst K 1 2)
          \<and> G 2 = computeGhostStateAndJacobian X (Slipwall 2 strip_physics)
                    (block_of strip_uarr 0) (gnormal strip_mesh 2)
          \<and> fst K 1 2 = fst (get_jacobian X (LocalLaxFriedrichsFlux strip_physics)
                               (block_of strip_uarr 0) (block_of strip_uarr 1)
                               (gfacemetric strip_mesh 6)) 1 2"
    unfolding Let_def E_def [symmetric] uv_def [symmetric] G_def [symmetric]
      K_def [symmetric]
    using h1 h2 h3 h4 ex [unfolded D_def J_def] e4 e5 by (intro conjI)
qed

end
